theory Spec2Isabelle
  imports Complex_Main "HOL-Library.AList"
begin

section \<open>The tensor framework: computation graphs\<close>

text \<open>
  The functions of \<^verbatim>\<open>poem/core/models.py\<close> build a computation graph: every call of a
  framework operation (\<^verbatim>\<open>tf.get_variable\<close>, \<^verbatim>\<open>tf.linalg.matmul\<close>, ...) returns a
  new graph node. A tensor of the program is therefore modelled as the term of the
  operations that produce it. The framework's operations are the constructors; the
  arguments the code passes (operands, names, rates, axes) are kept as written.
  Static shapes are lists of integers; only tensors of known static shape are
  modelled. The operations that can refuse their arguments while the graph is built
  (\<^verbatim>\<open>tf.get_variable\<close>, \<^verbatim>\<open>tf.linalg.matmul\<close>, the addition, \<^verbatim>\<open>tf.nn.dropout\<close>,
  \<^verbatim>\<open>tf.stack\<close>) are functions that return the node or the error, further down. The
  names given to scopes and operations are taken to be valid ones, and the graph a
  builder is called in to hold no variable of another shape under a name the builder
  uses.
\<close>

type_synonym shape = "int list"

datatype initializer = HeNormal | Initializer string

datatype tensor =
    Input string shape
  | Variable string shape initializer
  | ClipByNorm tensor real
  | MatMul tensor tensor
  | Add tensor tensor
  | AddScalar tensor real
  | BatchNormalization tensor bool string
  | Relu tensor string
  | Dropout tensor real string
  | Elu tensor
  | Stack "tensor list" int
  | Unstack tensor int nat
  | SampleGaussians tensor tensor int "int option"
  | RecursivelyExpandDims tensor "int list"
  | ReshapeByLastDims tensor "int list"

text \<open>Python's and the framework's reading of an axis: a negative axis counts from the end.\<close>

definition axis_pos :: "nat \<Rightarrow> int \<Rightarrow> nat" where
  "axis_pos rank axis = (if axis < 0 then nat (int rank + axis) else nat axis)"

text \<open>Broadcasting of two shapes, aligned at the last dimension.\<close>

fun broadcast_rev :: "shape \<Rightarrow> shape \<Rightarrow> shape" where
  "broadcast_rev [] ys = ys"
| "broadcast_rev xs [] = xs"
| "broadcast_rev (x # xs) (y # ys) = (if x = 1 then y else x) # broadcast_rev xs ys"

definition broadcast :: "shape \<Rightarrow> shape \<Rightarrow> shape" where
  "broadcast a b = rev (broadcast_rev (rev a) (rev b))"

definition insert_dim :: "nat \<Rightarrow> int \<Rightarrow> shape \<Rightarrow> shape" where
  "insert_dim k d s = take k s @ [d] @ drop k s"

text \<open>
  Modelled from the spec: the module \<^verbatim>\<open>poem.core.data_utils\<close> is not among the sources
  at hand. Its functions \<^verbatim>\<open>sample_gaussians\<close>, \<^verbatim>\<open>recursively_expand_dims\<close> and
  \<^verbatim>\<open>reshape_by_last_dims\<close> are kept as operations of the graph
  (\<^const>\<open>SampleGaussians\<close>, \<^const>\<open>RecursivelyExpandDims\<close>,
  \<^const>\<open>ReshapeByLastDims\<close>), nothing being said of what they compute but the shape of
  the result: for the samples, the shape of the means with the number of samples put
  before the last dimension (\<^verbatim>\<open>[..., num_samples, embedding_dim]\<close>, as the Gaussian
  embedder's docstring has it); for the other two, a dimension of size one at each axis,
  and the last dimensions replaced by those given.
\<close>

definition sample_gaussians_shape :: "shape \<Rightarrow> int \<Rightarrow> shape" where
  "sample_gaussians_shape s n = butlast s @ [n] @ drop (length s - 1) s"

definition recursively_expand_dims_shape :: "shape \<Rightarrow> int list \<Rightarrow> shape" where
  "recursively_expand_dims_shape s axes =
     fold (\<lambda>axis s. insert_dim (axis_pos (length s + 1) axis) 1 s) axes s"

definition reshape_by_last_dims_shape :: "shape \<Rightarrow> int list \<Rightarrow> shape" where
  "reshape_by_last_dims_shape s l = take (length s - length l) s @ l"

text \<open>The static shape of a node (\<^verbatim>\<open>t.shape.as_list()\<close>).\<close>

fun shape_of :: "tensor \<Rightarrow> shape" where
  "shape_of (Input n s) = s"
| "shape_of (Variable n s i) = s"
| "shape_of (ClipByNorm t c) = shape_of t"
| "shape_of (MatMul a b) = butlast (shape_of a) @ drop 1 (shape_of b)"
| "shape_of (Add a b) = broadcast (shape_of a) (shape_of b)"
| "shape_of (AddScalar t c) = shape_of t"
| "shape_of (BatchNormalization t tr n) = shape_of t"
| "shape_of (Relu t n) = shape_of t"
| "shape_of (Dropout t r n) = shape_of t"
| "shape_of (Elu t) = shape_of t"
| "shape_of (Stack [] axis) = []"
| "shape_of (Stack (t # ts) axis) =
     insert_dim (axis_pos (length (shape_of t) + 1) axis) (int (length (t # ts))) (shape_of t)"
| "shape_of (Unstack t axis i) =
     (let s = shape_of t; k = axis_pos (length s) axis in take k s @ drop (Suc k) s)"
| "shape_of (SampleGaussians m sd n seed) = sample_gaussians_shape (shape_of m) n"
| "shape_of (RecursivelyExpandDims t axes) = recursively_expand_dims_shape (shape_of t) axes"
| "shape_of (ReshapeByLastDims t l) = reshape_by_last_dims_shape (shape_of t) l"

section \<open>Python values: errors, ranges, number formatting, dictionaries\<close>

datatype error = ValueError string | TypeError | IndexError | KeyError string

definition py_range :: "int \<Rightarrow> int list" where
  "py_range n = map int [0 ..< nat n]"

definition digit_char :: "nat \<Rightarrow> char" where
  "digit_char d = ''0123456789'' ! d"

fun digits :: "nat \<Rightarrow> string" where
  "digits n = (if n < 10 then [digit_char n] else digits (n div 10) @ [digit_char (n mod 10)])"

declare digits.simps [simp del]

text \<open>\<^verbatim>\<open>'%d' % i\<close>\<close>

definition str_int :: "int \<Rightarrow> string" where
  "str_int i = (if i < 0 then CHR ''-'' # digits (nat (- i)) else digits (nat i))"

text \<open>\<^verbatim>\<open>kwargs.get(key, default)\<close>, a keyword argument being an optional value.\<close>

definition kwargs_get :: "'a option \<Rightarrow> 'a \<Rightarrow> 'a" where
  "kwargs_get v d = (case v of None \<Rightarrow> d | Some x \<Rightarrow> x)"

text \<open>
  A dictionary is an association list in insertion order; \<^verbatim>\<open>d[k] = v\<close> is
  \<^const>\<open>AList.update\<close> (an existing key keeps its place), and \<^verbatim>\<open>d[k]\<close> raises
  \<^verbatim>\<open>KeyError\<close> on a missing key.
\<close>

type_synonym 'v dict = "(string \<times> 'v) list"

definition lookup :: "'v dict \<Rightarrow> string \<Rightarrow> error + 'v" where
  "lookup d k = (case map_of d k of None \<Rightarrow> Inl (KeyError k) | Some v \<Rightarrow> Inr v)"

text \<open>Sequencing of computations that may raise: the first error ends the computation.\<close>

definition bind :: "error + 'a \<Rightarrow> ('a \<Rightarrow> error + 'b) \<Rightarrow> error + 'b" where
  "bind m f = (case m of Inl e \<Rightarrow> Inl e | Inr x \<Rightarrow> f x)"

fun for_loop :: "'a list \<Rightarrow> ('a \<Rightarrow> 's \<Rightarrow> error + 's) \<Rightarrow> 's \<Rightarrow> error + 's" where
  "for_loop [] body s = Inr s"
| "for_loop (x # xs) body s = bind (body x s) (for_loop xs body)"

fun list_comp :: "('a \<Rightarrow> error + 'b) \<Rightarrow> 'a list \<Rightarrow> error + 'b list" where
  "list_comp f [] = Inr []"
| "list_comp f (x # xs) = bind (f x) (\<lambda>y. bind (list_comp f xs) (\<lambda>ys. Inr (y # ys)))"

section \<open>Framework operations that can fail\<close>

text \<open>
  What the framework checks when a node is built, as far as the builders can meet it:
  a variable's shape has no negative dimension; the first operand of a matrix product has
  rank two or more; the shapes of the operands of an addition broadcast; a dropout rate
  lies in \<open>[0, 1)\<close>; \<^verbatim>\<open>tf.stack\<close> (on an axis other than 0) reads the first element of
  its list, so that the empty list raises \<^verbatim>\<open>IndexError\<close>; the tensors the builders stack
  have one shape and a rank the axis fits. \<^verbatim>\<open>np.prod\<close> multiplies a list of integers in
  64-bit integers, which wrap; of the empty list it gives the floating-point number
  \<open>1.0\<close>, which the framework reads as the dimension 1 or refuses, by its version: the
  properties below are stated for non-empty lists.
\<close>

definition tf_get_variable :: "string \<Rightarrow> shape \<Rightarrow> initializer \<Rightarrow> error + tensor" where
  "tf_get_variable name s init =
     (if \<exists>d \<in> set s. d < 0
      then Inl (ValueError ''get_variable: negative dimension'')
      else Inr (Variable name s init))"

definition tf_matmul :: "tensor \<Rightarrow> tensor \<Rightarrow> error + tensor" where
  "tf_matmul a b =
     (if length (shape_of a) < 2
      then Inl (ValueError ''matmul: rank below 2'')
      else Inr (MatMul a b))"

fun broadcastable_rev :: "shape \<Rightarrow> shape \<Rightarrow> bool" where
  "broadcastable_rev [] ys = True"
| "broadcastable_rev xs [] = True"
| "broadcastable_rev (x # xs) (y # ys) = ((x = y \<or> x = 1 \<or> y = 1) \<and> broadcastable_rev xs ys)"

definition broadcastable :: "shape \<Rightarrow> shape \<Rightarrow> bool" where
  "broadcastable a b = broadcastable_rev (rev a) (rev b)"

definition tf_add :: "tensor \<Rightarrow> tensor \<Rightarrow> error + tensor" where
  "tf_add a b =
     (if broadcastable (shape_of a) (shape_of b)
      then Inr (Add a b)
      else Inl (ValueError ''add: incompatible shapes''))"

definition tf_dropout :: "tensor \<Rightarrow> real \<Rightarrow> string \<Rightarrow> error + tensor" where
  "tf_dropout t rate name =
     (if 0 \<le> rate \<and> rate < 1
      then Inr (Dropout t rate name)
      else Inl (ValueError ''dropout: rate not in [0, 1)''))"

definition tf_stack :: "tensor list \<Rightarrow> int \<Rightarrow> error + tensor" where
  "tf_stack ts axis = (case ts of [] \<Rightarrow> Inl IndexError | _ # _ \<Rightarrow> Inr (Stack ts axis))"

definition np_prod :: "int list \<Rightarrow> int" where
  "np_prod xs = (prod_list xs + 2 ^ 63) mod 2 ^ 64 - 2 ^ 63"

text \<open>\<^verbatim>\<open>tf.unstack(t, axis)\<close>: the Python list of the slices of \<open>t\<close> along \<open>axis\<close>.\<close>

definition tf_unstack :: "tensor \<Rightarrow> int \<Rightarrow> tensor list" where
  "tf_unstack t axis =
     map (Unstack t axis) [0 ..< nat (shape_of t ! axis_pos (length (shape_of t)) axis)]"

section \<open>The model builders of \<^verbatim>\<open>poem/core/models.py\<close>\<close>

subsection \<open>\<^verbatim>\<open>_linear\<close>\<close>

definition linear_layer ::
  "tensor \<Rightarrow> int \<Rightarrow> real \<Rightarrow> initializer \<Rightarrow> initializer \<Rightarrow> string \<Rightarrow> error + tensor" where
  "linear_layer input_features output_size max_norm w_init b_init name =
     (case rev (shape_of input_features) of
        [] \<Rightarrow> Inl IndexError
      | feature_dim # _ \<Rightarrow>
          bind (tf_get_variable (name @ ''/weight'') [feature_dim, output_size] w_init)
            (\<lambda>weights.
               let weights = (if max_norm > 0 then ClipByNorm weights max_norm else weights)
               in
               bind (tf_get_variable (name @ ''/bias'') [output_size] b_init)
                 (\<lambda>bias.
                    bind (tf_matmul input_features weights)
                      (\<lambda>product. tf_add product bias))))"

subsection \<open>\<^verbatim>\<open>simple_base\<close>\<close>

text \<open>
  The keyword arguments \<^verbatim>\<open>**kwargs\<close> of \<^verbatim>\<open>simple_base\<close>: each supported key is
  present or absent. Callers pass larger dictionaries through (\<^verbatim>\<open>simple_model\<close>, the
  embedders, \<^verbatim>\<open>embed\<close>); keys a function does not read are ignored by it, as records
  extending this one are.
\<close>

record base_kwargs =
  num_hidden_nodes :: "int option"
  weight_initializer :: "initializer option"
  bias_initializer :: "initializer option"
  weight_max_norm :: "real option"
  use_batch_norm :: "bool option"
  dropout_rate :: "real option"
  num_fcs_per_block :: "int option"
  num_fc_blocks :: "int option"

definition fully_connected ::
  "'a base_kwargs_scheme \<Rightarrow> tensor \<Rightarrow> bool \<Rightarrow> string \<Rightarrow> error + tensor" where
  "fully_connected kwargs input_features is_training name =
     bind (linear_layer input_features
             (kwargs_get (num_hidden_nodes kwargs) 1024)
             (kwargs_get (weight_max_norm kwargs) 0)
             (kwargs_get (weight_initializer kwargs) HeNormal)
             (kwargs_get (bias_initializer kwargs) HeNormal)
             (name @ ''/Linear''))
       (\<lambda>net.
          let net = (if kwargs_get (use_batch_norm kwargs) True
                     then BatchNormalization net is_training (name @ ''/BatchNorm'')
                     else net);
              net = Relu net (name @ ''/Relu'');
              rate = kwargs_get (dropout_rate kwargs) 0
          in if is_training \<and> rate > 0
             then tf_dropout net rate (name @ ''/Dropout'')
             else Inr net)"

definition fully_connected_block ::
  "'a base_kwargs_scheme \<Rightarrow> tensor \<Rightarrow> bool \<Rightarrow> string \<Rightarrow> error + tensor" where
  "fully_connected_block kwargs input_features is_training name =
     bind (for_loop (py_range (kwargs_get (num_fcs_per_block kwargs) 2))
             (\<lambda>i net. fully_connected kwargs net is_training (name @ ''/FC_'' @ str_int i))
             input_features)
       (\<lambda>net. tf_add net input_features)"

definition simple_base ::
  "tensor \<Rightarrow> bool \<Rightarrow> string \<Rightarrow> 'a base_kwargs_scheme \<Rightarrow> error + tensor" where
  "simple_base input_features is_training name kwargs =
     bind (fully_connected kwargs input_features is_training (name @ ''/InputFC''))
       (for_loop (py_range (kwargs_get (num_fc_blocks kwargs) 2))
          (\<lambda>i net. fully_connected_block kwargs net is_training
                      (name @ ''/FullyConnectedBlock_'' @ str_int i)))"

subsection \<open>\<^verbatim>\<open>simple_model\<close>\<close>

text \<open>An output size is an integer or a list of integers.\<close>

datatype output_size = Size int | Sizes "int list"

definition output_size_list :: "output_size \<Rightarrow> int list" where
  "output_size_list sz = (case sz of Size n \<Rightarrow> [n] | Sizes ns \<Rightarrow> ns)"

definition output_head ::
  "'a base_kwargs_scheme \<Rightarrow> tensor \<Rightarrow> string \<Rightarrow> string \<Rightarrow> output_size \<Rightarrow> error + tensor" where
  "output_head kwargs net name output_name sz =
     (let output_size = output_size_list sz in
      bind (linear_layer net
              (np_prod output_size)
              (kwargs_get (weight_max_norm kwargs) 0)
              (kwargs_get (weight_initializer kwargs) HeNormal)
              (kwargs_get (bias_initializer kwargs) HeNormal)
              (name @ ''/OutputLogits/'' @ output_name))
        (\<lambda>out.
           if length output_size > 1
           then Inr (ReshapeByLastDims
                       (RecursivelyExpandDims out (replicate (length output_size - 1) (- 1)))
                       output_size)
           else Inr out))"

definition simple_model ::
  "tensor \<Rightarrow> output_size dict \<Rightarrow> bool \<Rightarrow> string \<Rightarrow> int \<Rightarrow> 'a base_kwargs_scheme
     \<Rightarrow> error + (tensor dict \<times> tensor dict)" where
  "simple_model input_features output_sizes is_training name num_bottleneck_nodes kwargs =
     bind (simple_base input_features is_training name kwargs)
       (\<lambda>net.
          let activations = [(''base_activations'', net)] in
          bind (if num_bottleneck_nodes > 0
                then bind (linear_layer net
                             num_bottleneck_nodes
                             (kwargs_get (weight_max_norm kwargs) 0)
                             (kwargs_get (weight_initializer kwargs) HeNormal)
                             (kwargs_get (bias_initializer kwargs) HeNormal)
                             (name @ ''/BottleneckLogits''))
                       (\<lambda>net. Inr (net, AList.update ''bottleneck_activations'' net activations))
                else Inr (net, activations))
            (\<lambda>(net, activations).
               bind (for_loop output_sizes
                       (\<lambda>(output_name, sz) outputs.
                          bind (output_head kwargs net name output_name sz)
                            (\<lambda>out. Inr (AList.update output_name out outputs)))
                       [])
                 (\<lambda>outputs. Inr (outputs, activations))))"

subsection \<open>The embedders\<close>

text \<open>
  The module \<^verbatim>\<open>poem.core.common\<close> is not part of the sources at hand; the constants
  the builders read from it are parameters of the model.
\<close>

record common =
  KEY_EMBEDDING_MEANS :: string
  KEY_EMBEDDING_STDDEVS :: string
  KEY_EMBEDDING_SAMPLES :: string
  EMBEDDING_TYPE_POINT :: string
  EMBEDDING_TYPE_GAUSSIAN :: string

text \<open>\<^verbatim>\<open>_add_prefix = lambda key, c: 'C%d/' % c + key\<close>\<close>

definition add_prefix :: "string \<Rightarrow> int \<Rightarrow> string" where
  "add_prefix key c = ''C'' @ str_int c @ ''/'' @ key"

text \<open>The keyword arguments the embedders pass on to \<^verbatim>\<open>simple_model\<close>.\<close>

record model_kwargs = base_kwargs +
  name_kw :: "string option"
  num_bottleneck_nodes_kw :: "int option"

definition call_simple_model ::
  "tensor \<Rightarrow> output_size dict \<Rightarrow> bool \<Rightarrow> 'a model_kwargs_scheme
     \<Rightarrow> error + (tensor dict \<times> tensor dict)" where
  "call_simple_model input_features output_sizes is_training kwargs =
     simple_model input_features output_sizes is_training
       (kwargs_get (name_kw kwargs) ''SimpleModel'')
       (kwargs_get (num_bottleneck_nodes_kw kwargs) 0)
       kwargs"

text \<open>
  The dictionary \<^verbatim>\<open>output_sizes\<close> of the point embedder: one entry for the means of
  each component, in component order.
\<close>

definition point_output_sizes :: "common \<Rightarrow> int \<Rightarrow> int \<Rightarrow> output_size dict" where
  "point_output_sizes cm num_embedding_components embedding_size =
     fold (\<lambda>c. AList.update (add_prefix (KEY_EMBEDDING_MEANS cm) c) (Size embedding_size))
       (py_range num_embedding_components) []"

definition simple_point_embedder ::
  "common \<Rightarrow> tensor \<Rightarrow> int \<Rightarrow> int \<Rightarrow> bool \<Rightarrow> 'a model_kwargs_scheme
     \<Rightarrow> error + (tensor dict \<times> tensor dict)" where
  "simple_point_embedder cm input_features num_embedding_components embedding_size
       is_training kwargs =
     (let output_sizes = point_output_sizes cm num_embedding_components embedding_size
      in
      bind (call_simple_model input_features output_sizes is_training kwargs)
        (\<lambda>(component_outputs, activations).
           bind (list_comp (\<lambda>c. lookup component_outputs (add_prefix (KEY_EMBEDDING_MEANS cm) c))
                   (py_range num_embedding_components))
             (\<lambda>means.
                bind (tf_stack means (- 2))
                  (\<lambda>stacked. Inr ([(KEY_EMBEDDING_MEANS cm, stacked)], activations)))))"

text \<open>
  The dictionary \<^verbatim>\<open>output_sizes\<close> of the Gaussian embedder: for each component the
  entry of its means, then the entry of its standard deviations.
\<close>

definition gaussian_output_sizes :: "common \<Rightarrow> int \<Rightarrow> int \<Rightarrow> output_size dict" where
  "gaussian_output_sizes cm num_embedding_components embedding_size =
     fold (\<lambda>c d. AList.update (add_prefix (KEY_EMBEDDING_STDDEVS cm) c) (Size embedding_size)
                   (AList.update (add_prefix (KEY_EMBEDDING_MEANS cm) c) (Size embedding_size) d))
       (py_range num_embedding_components) []"

text \<open>One round of the loop over the components: the standard deviations, then the samples.\<close>

definition gaussian_component ::
  "common \<Rightarrow> int \<Rightarrow> int option \<Rightarrow> int \<Rightarrow> tensor dict \<Rightarrow> error + tensor dict" where
  "gaussian_component cm num_embedding_samples seed c component_outputs =
     bind (lookup component_outputs (add_prefix (KEY_EMBEDDING_STDDEVS cm) c))
       (\<lambda>logits.
          let component_outputs =
                AList.update (add_prefix (KEY_EMBEDDING_STDDEVS cm) c)
                  (AddScalar (Elu logits) 1) component_outputs
          in
          if num_embedding_samples > 0
          then bind (lookup component_outputs (add_prefix (KEY_EMBEDDING_MEANS cm) c))
                 (\<lambda>means.
                    bind (lookup component_outputs (add_prefix (KEY_EMBEDDING_STDDEVS cm) c))
                      (\<lambda>stddevs.
                         Inr (AList.update (add_prefix (KEY_EMBEDDING_SAMPLES cm) c)
                                (SampleGaussians means stddevs num_embedding_samples seed)
                                component_outputs)))
          else Inr component_outputs)"

definition simple_gaussian_embedder ::
  "common \<Rightarrow> tensor \<Rightarrow> int \<Rightarrow> int \<Rightarrow> int \<Rightarrow> bool \<Rightarrow> int option \<Rightarrow> 'a model_kwargs_scheme
     \<Rightarrow> error + (tensor dict \<times> tensor dict)" where
  "simple_gaussian_embedder cm input_features num_embedding_components embedding_size
       num_embedding_samples is_training seed kwargs =
     (let output_sizes = gaussian_output_sizes cm num_embedding_components embedding_size
      in
      bind (call_simple_model input_features output_sizes is_training kwargs)
        (\<lambda>(component_outputs, activations).
           bind (for_loop (py_range num_embedding_components)
                   (gaussian_component cm num_embedding_samples seed) component_outputs)
             (\<lambda>component_outputs.
                bind (list_comp (\<lambda>c. lookup component_outputs (add_prefix (KEY_EMBEDDING_MEANS cm) c))
                        (py_range num_embedding_components))
                  (\<lambda>means.
                     bind (tf_stack means (- 2))
                       (\<lambda>stacked_means.
                          bind (list_comp
                                  (\<lambda>c. lookup component_outputs
                                          (add_prefix (KEY_EMBEDDING_STDDEVS cm) c))
                                  (py_range num_embedding_components))
                            (\<lambda>stddevs.
                               bind (tf_stack stddevs (- 2))
                                 (\<lambda>stacked_stddevs.
                                    let outputs =
                                          AList.update (KEY_EMBEDDING_STDDEVS cm) stacked_stddevs
                                            [(KEY_EMBEDDING_MEANS cm, stacked_means)]
                                    in
                                    if num_embedding_samples > 0
                                    then bind (list_comp
                                                 (\<lambda>c. lookup component_outputs
                                                         (add_prefix (KEY_EMBEDDING_SAMPLES cm) c))
                                                 (py_range num_embedding_components))
                                           (\<lambda>samples.
                                              bind (tf_stack samples (- 3))
                                                (\<lambda>stacked_samples.
                                                   Inr (AList.update (KEY_EMBEDDING_SAMPLES cm)
                                                          stacked_samples outputs,
                                                        activations)))
                                    else Inr (outputs, activations))))))))"

subsection \<open>\<^verbatim>\<open>create_embedder\<close> and \<^verbatim>\<open>embed\<close>\<close>

text \<open>
  A function handle made by \<^verbatim>\<open>functools.partial\<close>: the embedder and the two arguments
  bound to it.
\<close>

datatype embedder_fn = PointEmbedder int int | GaussianEmbedder int int

definition create_embedder :: "common \<Rightarrow> string \<Rightarrow> int \<Rightarrow> int \<Rightarrow> error + embedder_fn" where
  "create_embedder cm embedding_type num_embedding_components embedding_size =
     (if embedding_type = EMBEDDING_TYPE_POINT cm
      then Inr (PointEmbedder num_embedding_components embedding_size)
      else if embedding_type = EMBEDDING_TYPE_GAUSSIAN cm
      then Inr (GaussianEmbedder num_embedding_components embedding_size)
      else Inl (ValueError (''Unsupported embedding type: `'' @ embedding_type @ ''`.'')))"

text \<open>
  The keyword arguments of \<^verbatim>\<open>embed\<close>, passed to the embedder. The embedders' required
  parameters \<^verbatim>\<open>is_training\<close> and \<^verbatim>\<open>num_embedding_samples\<close> have no default: calling
  the handle without them raises \<^verbatim>\<open>TypeError\<close>. \<^verbatim>\<open>seed\<close> defaults to \<^verbatim>\<open>None\<close>.
\<close>

record embed_kwargs = model_kwargs +
  is_training_kw :: "bool option"
  num_embedding_samples_kw :: "int option"
  seed_kw :: "int option"

definition call_embedder ::
  "common \<Rightarrow> embedder_fn \<Rightarrow> tensor \<Rightarrow> 'a embed_kwargs_scheme
     \<Rightarrow> error + (tensor dict \<times> tensor dict)" where
  "call_embedder cm embedder_fn input_features kwargs =
     (case embedder_fn of
        PointEmbedder num_embedding_components embedding_size \<Rightarrow>
          (case is_training_kw kwargs of
             None \<Rightarrow> Inl TypeError
           | Some is_training \<Rightarrow>
               simple_point_embedder cm input_features num_embedding_components embedding_size
                 is_training kwargs)
      | GaussianEmbedder num_embedding_components embedding_size \<Rightarrow>
          (case (num_embedding_samples_kw kwargs, is_training_kw kwargs) of
             (Some num_embedding_samples, Some is_training) \<Rightarrow>
               simple_gaussian_embedder cm input_features num_embedding_components embedding_size
                 num_embedding_samples is_training (seed_kw kwargs) kwargs
           | _ \<Rightarrow> Inl TypeError))"

text \<open>The loop that stacks, key by key, the entries of the per-instance dictionaries.\<close>

definition stack_by_key :: "string list \<Rightarrow> tensor dict list \<Rightarrow> error + tensor dict" where
  "stack_by_key keys sub_list =
     for_loop keys
       (\<lambda>key result.
          bind (list_comp (\<lambda>sub. lookup sub key) sub_list)
            (\<lambda>ts. bind (tf_stack ts 1)
                     (\<lambda>stacked. Inr (AList.update key stacked result))))
       []"

definition embed ::
  "common \<Rightarrow> tensor \<Rightarrow> string \<Rightarrow> int \<Rightarrow> int \<Rightarrow> 'a embed_kwargs_scheme
     \<Rightarrow> error + (tensor dict \<times> tensor dict)" where
  "embed cm input_features embedding_type num_embedding_components embedding_size kwargs =
     (let input_features_rank = length (shape_of input_features) in
      if input_features_rank \<notin> {2, 3}
      then Inl (ValueError (''Only supports input feature tensors of rank 2 or 3: ''
                              @ str_int (int input_features_rank) @ ''.''))
      else
        bind (create_embedder cm embedding_type num_embedding_components embedding_size)
          (\<lambda>embedder_fn.
             if input_features_rank = 2
             then call_embedder cm embedder_fn input_features kwargs
             else
               bind (list_comp (\<lambda>sub_features. call_embedder cm embedder_fn sub_features kwargs)
                       (tf_unstack input_features 1))
                 (\<lambda>subs.
                    let sub_output_list = map fst subs;
                        sub_activation_list = map snd subs
                    in
                    case subs of
                      [] \<Rightarrow> Inl IndexError
                    | (sub_outputs0, sub_activations0) # _ \<Rightarrow>
                        bind (stack_by_key (map fst sub_outputs0) sub_output_list)
                          (\<lambda>outputs.
                             bind (stack_by_key (map fst sub_activations0) sub_activation_list)
                               (\<lambda>activations. Inr (outputs, activations))))))"

section \<open>Reading a graph: the operations it holds and what it computes\<close>

text \<open>\<open>has_op P t\<close>: some node of the graph of \<open>t\<close> satisfies \<open>P\<close>.\<close>

fun has_op :: "(tensor \<Rightarrow> bool) \<Rightarrow> tensor \<Rightarrow> bool" where
  "has_op P (Input n s) = P (Input n s)"
| "has_op P (Variable n s i) = P (Variable n s i)"
| "has_op P (ClipByNorm t c) = (P (ClipByNorm t c) \<or> has_op P t)"
| "has_op P (MatMul a b) = (P (MatMul a b) \<or> has_op P a \<or> has_op P b)"
| "has_op P (Add a b) = (P (Add a b) \<or> has_op P a \<or> has_op P b)"
| "has_op P (AddScalar t c) = (P (AddScalar t c) \<or> has_op P t)"
| "has_op P (BatchNormalization t tr n) = (P (BatchNormalization t tr n) \<or> has_op P t)"
| "has_op P (Relu t n) = (P (Relu t n) \<or> has_op P t)"
| "has_op P (Dropout t r n) = (P (Dropout t r n) \<or> has_op P t)"
| "has_op P (Elu t) = (P (Elu t) \<or> has_op P t)"
| "has_op P (Stack ts axis) = (P (Stack ts axis) \<or> (\<exists>t \<in> set ts. has_op P t))"
| "has_op P (Unstack t axis i) = (P (Unstack t axis i) \<or> has_op P t)"
| "has_op P (SampleGaussians m sd n seed) =
     (P (SampleGaussians m sd n seed) \<or> has_op P m \<or> has_op P sd)"
| "has_op P (RecursivelyExpandDims t axes) = (P (RecursivelyExpandDims t axes) \<or> has_op P t)"
| "has_op P (ReshapeByLastDims t l) = (P (ReshapeByLastDims t l) \<or> has_op P t)"

definition is_dropout :: "tensor \<Rightarrow> bool" where
  "is_dropout t = (case t of Dropout _ _ _ \<Rightarrow> True | _ \<Rightarrow> False)"

definition is_sampling :: "tensor \<Rightarrow> bool" where
  "is_sampling t = (case t of SampleGaussians _ _ _ _ \<Rightarrow> True | _ \<Rightarrow> False)"

text \<open>The operations whose result is drawn at random each time the graph is run.\<close>

definition is_random_op :: "tensor \<Rightarrow> bool" where
  "is_random_op t = (is_dropout t \<or> is_sampling t)"

text \<open>
  One run of a graph. \<open>D\<close> gives every deterministic operation its result from the node
  (the operation with its attributes, and for inputs and variables their values) and
  the results of its operands; \<open>R\<close> does so for the random operations, from the random
  draws \<open>w\<close> of the run as well.
\<close>

fun run ::
  "(tensor \<Rightarrow> 'v list \<Rightarrow> 'v) \<Rightarrow> ('w \<Rightarrow> tensor \<Rightarrow> 'v list \<Rightarrow> 'v) \<Rightarrow> 'w \<Rightarrow> tensor \<Rightarrow> 'v" where
  "run D R w (Input n s) = D (Input n s) []"
| "run D R w (Variable n s i) = D (Variable n s i) []"
| "run D R w (ClipByNorm t c) = D (ClipByNorm t c) [run D R w t]"
| "run D R w (MatMul a b) = D (MatMul a b) [run D R w a, run D R w b]"
| "run D R w (Add a b) = D (Add a b) [run D R w a, run D R w b]"
| "run D R w (AddScalar t c) = D (AddScalar t c) [run D R w t]"
| "run D R w (BatchNormalization t tr n) = D (BatchNormalization t tr n) [run D R w t]"
| "run D R w (Relu t n) = D (Relu t n) [run D R w t]"
| "run D R w (Dropout t r n) = R w (Dropout t r n) [run D R w t]"
| "run D R w (Elu t) = D (Elu t) [run D R w t]"
| "run D R w (Stack ts axis) = D (Stack ts axis) (map (run D R w) ts)"
| "run D R w (Unstack t axis i) = D (Unstack t axis i) [run D R w t]"
| "run D R w (SampleGaussians m sd n seed) =
     R w (SampleGaussians m sd n seed) [run D R w m, run D R w sd]"
| "run D R w (RecursivelyExpandDims t axes) = D (RecursivelyExpandDims t axes) [run D R w t]"
| "run D R w (ReshapeByLastDims t l) = D (ReshapeByLastDims t l) [run D R w t]"

section \<open>Single-precision values\<close>

text \<open>
  The variables of \<^verbatim>\<open>_linear\<close> have the framework's default type \<^verbatim>\<open>float32\<close>, and the
  matrix product wants both operands of one type: the tensors of the builders hold
  single-precision numbers. A finite one is a real number with a significand of 24 bits;
  the result of an operation is the exact result rounded to the nearest such number,
  ties to the even significand. The range of exponents is not modelled (no overflow,
  no subnormal number), nor are infinities and NaN.
\<close>

definition round_half_even :: "real \<Rightarrow> int" where
  "round_half_even x =
     (let f = \<lfloor>x\<rfloor> in
      if x - of_int f < 1 / 2 then f
      else if x - of_int f > 1 / 2 then f + 1
      else if even f then f else f + 1)"

definition float32_round :: "real \<Rightarrow> real" where
  "float32_round x =
     (if x = 0 then 0
      else let u = 2 powr (of_int \<lfloor>log 2 \<bar>x\<bar>\<rfloor> - 23)
           in u * of_int (round_half_even (x / u)))"

text \<open>
  \<^verbatim>\<open>tf.nn.elu\<close> on a single-precision number: the framework's kernel computes
  \<open>exp(x) - 1\<close> for a negative \<open>x\<close>, in two operations, each taken to be correctly
  rounded, and returns any other \<open>x\<close> itself.
\<close>

definition elu32 :: "real \<Rightarrow> real" where
  "elu32 x = (if x < 0 then float32_round (float32_round (exp x) - 1) else x)"

text \<open>
  The value of a tensor in a run is an array, a function from indices to numbers.
  \<open>float32_ops D\<close> reads \<^verbatim>\<open>tf.nn.elu\<close> and the addition of a scalar elementwise in
  single precision and \<^verbatim>\<open>tf.stack\<close> as the stacking of arrays, and leaves every other
  operation to \<open>D\<close>.
\<close>

type_synonym array = "nat list \<Rightarrow> real"

definition stack_arrays :: "nat \<Rightarrow> array list \<Rightarrow> array" where
  "stack_arrays k vs = (\<lambda>ix. (vs ! (ix ! k)) (take k ix @ drop (Suc k) ix))"

definition float32_ops :: "(tensor \<Rightarrow> array list \<Rightarrow> array) \<Rightarrow> tensor \<Rightarrow> array list \<Rightarrow> array" where
  "float32_ops D t vs =
     (case (t, vs) of
        (Elu _, [v]) \<Rightarrow> (\<lambda>ix. elu32 (v ix))
      | (AddScalar _ c, [v]) \<Rightarrow> (\<lambda>ix. float32_round (v ix + c))
      | (Stack ts axis, _) \<Rightarrow> stack_arrays (axis_pos (length (shape_of (Stack ts axis))) axis) vs
      | _ \<Rightarrow> D t vs)"

section \<open>The layers as compositions\<close>

text \<open>
  The graphs the builders are to produce, written as compositions: a linear layer, a
  fully-connected layer (linear, optional batch normalisation, ReLU, optional dropout),
  the sequential composition of \<open>n\<close> layers, and a residual block.
\<close>

definition clipped_weights :: "tensor \<Rightarrow> int \<Rightarrow> real \<Rightarrow> initializer \<Rightarrow> string \<Rightarrow> tensor" where
  "clipped_weights x output_size max_norm w_init name =
     (let w = Variable (name @ ''/weight'') [last (shape_of x), output_size] w_init
      in if max_norm > 0 then ClipByNorm w max_norm else w)"

definition linear_graph ::
  "tensor \<Rightarrow> int \<Rightarrow> real \<Rightarrow> initializer \<Rightarrow> initializer \<Rightarrow> string \<Rightarrow> tensor" where
  "linear_graph x output_size max_norm w_init b_init name =
     Add (MatMul x (clipped_weights x output_size max_norm w_init name))
         (Variable (name @ ''/bias'') [output_size] b_init)"

definition batch_norm_opt :: "'a base_kwargs_scheme \<Rightarrow> bool \<Rightarrow> string \<Rightarrow> tensor \<Rightarrow> tensor" where
  "batch_norm_opt kwargs is_training name t =
     (if use_batch_norm kwargs = Some False then t
      else BatchNormalization t is_training (name @ ''/BatchNorm''))"

definition dropout_opt :: "'a base_kwargs_scheme \<Rightarrow> bool \<Rightarrow> string \<Rightarrow> tensor \<Rightarrow> tensor" where
  "dropout_opt kwargs is_training name t =
     (case dropout_rate kwargs of
        Some rate \<Rightarrow> if is_training \<and> rate > 0 then Dropout t rate (name @ ''/Dropout'') else t
      | None \<Rightarrow> t)"

definition fc_layer :: "'a base_kwargs_scheme \<Rightarrow> bool \<Rightarrow> string \<Rightarrow> tensor \<Rightarrow> tensor" where
  "fc_layer kwargs is_training name x =
     dropout_opt kwargs is_training name
       (Relu (batch_norm_opt kwargs is_training name
                (linear_graph x
                   (kwargs_get (num_hidden_nodes kwargs) 1024)
                   (kwargs_get (weight_max_norm kwargs) 0)
                   (kwargs_get (weight_initializer kwargs) HeNormal)
                   (kwargs_get (bias_initializer kwargs) HeNormal)
                   (name @ ''/Linear'')))
             (name @ ''/Relu''))"

fun compose_layers :: "(nat \<Rightarrow> tensor \<Rightarrow> tensor) \<Rightarrow> nat \<Rightarrow> tensor \<Rightarrow> tensor" where
  "compose_layers layer 0 x = x"
| "compose_layers layer (Suc n) x = layer n (compose_layers layer n x)"

definition residual_block :: "'a base_kwargs_scheme \<Rightarrow> bool \<Rightarrow> string \<Rightarrow> tensor \<Rightarrow> tensor" where
  "residual_block kwargs is_training name x =
     Add (compose_layers (\<lambda>i. fc_layer kwargs is_training (name @ ''/FC_'' @ digits i))
            (nat (kwargs_get (num_fcs_per_block kwargs) 2)) x)
         x"

definition base_graph :: "'a base_kwargs_scheme \<Rightarrow> bool \<Rightarrow> string \<Rightarrow> tensor \<Rightarrow> tensor" where
  "base_graph kwargs is_training name x =
     compose_layers
       (\<lambda>i. residual_block kwargs is_training (name @ ''/FullyConnectedBlock_'' @ digits i))
       (nat (kwargs_get (num_fc_blocks kwargs) 2))
       (fc_layer kwargs is_training (name @ ''/InputFC'') x)"

text \<open>
  The graphs of \<^verbatim>\<open>simple_model\<close>: the bottleneck layer, an output head on the tensor
  \<open>net\<close>, and the tensor whose product with the weights an output is.
\<close>

definition bottleneck_graph :: "'a base_kwargs_scheme \<Rightarrow> string \<Rightarrow> int \<Rightarrow> tensor \<Rightarrow> tensor" where
  "bottleneck_graph kwargs name num_bottleneck_nodes base =
     linear_graph base num_bottleneck_nodes
       (kwargs_get (weight_max_norm kwargs) 0)
       (kwargs_get (weight_initializer kwargs) HeNormal)
       (kwargs_get (bias_initializer kwargs) HeNormal)
       (name @ ''/BottleneckLogits'')"

definition head_graph ::
  "'a base_kwargs_scheme \<Rightarrow> tensor \<Rightarrow> string \<Rightarrow> string \<Rightarrow> output_size \<Rightarrow> tensor" where
  "head_graph kwargs net name output_name sz =
     (let logits = linear_graph net (np_prod (output_size_list sz))
                     (kwargs_get (weight_max_norm kwargs) 0)
                     (kwargs_get (weight_initializer kwargs) HeNormal)
                     (kwargs_get (bias_initializer kwargs) HeNormal)
                     (name @ ''/OutputLogits/'' @ output_name)
      in if length (output_size_list sz) > 1
         then ReshapeByLastDims
                (RecursivelyExpandDims logits (replicate (length (output_size_list sz) - 1) (- 1)))
                (output_size_list sz)
         else logits)"

fun logits_input :: "tensor \<Rightarrow> tensor option" where
  "logits_input (Add (MatMul a w) b) = Some a"
| "logits_input (ReshapeByLastDims t l) = logits_input t"
| "logits_input (RecursivelyExpandDims t axes) = logits_input t"
| "logits_input t = None"

text \<open>The tensor the output heads of \<^verbatim>\<open>simple_model\<close> are built on, and its activations.\<close>

definition model_net :: "'a base_kwargs_scheme \<Rightarrow> bool \<Rightarrow> string \<Rightarrow> int \<Rightarrow> tensor \<Rightarrow> tensor" where
  "model_net kwargs is_training name num_bottleneck_nodes x =
     (if num_bottleneck_nodes > 0
      then bottleneck_graph kwargs name num_bottleneck_nodes (base_graph kwargs is_training name x)
      else base_graph kwargs is_training name x)"

definition model_activations ::
  "'a base_kwargs_scheme \<Rightarrow> bool \<Rightarrow> string \<Rightarrow> int \<Rightarrow> tensor \<Rightarrow> tensor dict" where
  "model_activations kwargs is_training name num_bottleneck_nodes x =
     (if num_bottleneck_nodes > 0
      then [(''base_activations'', base_graph kwargs is_training name x),
            (''bottleneck_activations'',
             bottleneck_graph kwargs name num_bottleneck_nodes (base_graph kwargs is_training name x))]
      else [(''base_activations'', base_graph kwargs is_training name x)])"

text \<open>
  The output head of component \<open>c\<close> under the key \<open>key\<close>, as the embedders call
  \<^verbatim>\<open>simple_model\<close>; the standard deviations and the samples the Gaussian embedder
  makes of the heads.
\<close>

definition embedder_net :: "'a model_kwargs_scheme \<Rightarrow> bool \<Rightarrow> tensor \<Rightarrow> tensor" where
  "embedder_net kwargs is_training x =
     model_net kwargs is_training (kwargs_get (name_kw kwargs) ''SimpleModel'')
       (kwargs_get (num_bottleneck_nodes_kw kwargs) 0) x"

definition embedder_activations :: "'a model_kwargs_scheme \<Rightarrow> bool \<Rightarrow> tensor \<Rightarrow> tensor dict" where
  "embedder_activations kwargs is_training x =
     model_activations kwargs is_training (kwargs_get (name_kw kwargs) ''SimpleModel'')
       (kwargs_get (num_bottleneck_nodes_kw kwargs) 0) x"

definition component_head ::
  "'a model_kwargs_scheme \<Rightarrow> bool \<Rightarrow> tensor \<Rightarrow> int \<Rightarrow> string \<Rightarrow> int \<Rightarrow> tensor" where
  "component_head kwargs is_training x embedding_size key c =
     head_graph kwargs (embedder_net kwargs is_training x)
       (kwargs_get (name_kw kwargs) ''SimpleModel'') (add_prefix key c) (Size embedding_size)"

definition component_stddev ::
  "common \<Rightarrow> 'a model_kwargs_scheme \<Rightarrow> bool \<Rightarrow> tensor \<Rightarrow> int \<Rightarrow> int \<Rightarrow> tensor" where
  "component_stddev cm kwargs is_training x embedding_size c =
     AddScalar (Elu (component_head kwargs is_training x embedding_size (KEY_EMBEDDING_STDDEVS cm) c)) 1"

definition component_sample ::
  "common \<Rightarrow> 'a model_kwargs_scheme \<Rightarrow> bool \<Rightarrow> tensor \<Rightarrow> int \<Rightarrow> int \<Rightarrow> int option \<Rightarrow> int
     \<Rightarrow> tensor" where
  "component_sample cm kwargs is_training x embedding_size num_embedding_samples seed c =
     SampleGaussians
       (component_head kwargs is_training x embedding_size (KEY_EMBEDDING_MEANS cm) c)
       (component_stddev cm kwargs is_training x embedding_size c)
       num_embedding_samples seed"

text \<open>The outputs of the Gaussian embedder: means, standard deviations and, when asked for, samples.\<close>

definition gaussian_outputs ::
  "common \<Rightarrow> 'a model_kwargs_scheme \<Rightarrow> bool \<Rightarrow> tensor \<Rightarrow> int \<Rightarrow> int \<Rightarrow> int \<Rightarrow> int option
     \<Rightarrow> tensor dict" where
  "gaussian_outputs cm kwargs is_training x n e ns seed =
     [(KEY_EMBEDDING_MEANS cm,
       Stack (map (component_head kwargs is_training x e (KEY_EMBEDDING_MEANS cm)) (py_range n))
         (- 2)),
      (KEY_EMBEDDING_STDDEVS cm,
       Stack (map (component_stddev cm kwargs is_training x e) (py_range n)) (- 2))]
     @ (if ns > 0
        then [(KEY_EMBEDDING_SAMPLES cm,
               Stack (map (component_sample cm kwargs is_training x e ns seed) (py_range n))
                 (- 3))]
        else [])"

text \<open>
  The stacking of a list of per-instance dictionaries: under each key of the first
  dictionary, the stack along axis 1 of the instances' entries under that key.
\<close>

definition stack_dicts :: "tensor dict list \<Rightarrow> tensor dict" where
  "stack_dicts ds =
     (case ds of
        [] \<Rightarrow> []
      | d0 # _ \<Rightarrow> map (\<lambda>key. (key, Stack (map (\<lambda>d. the (map_of d key)) ds) 1)) (map fst d0))"

text \<open>The keys of the dictionaries the embedders return.\<close>

definition activation_keys :: "'a model_kwargs_scheme \<Rightarrow> string list" where
  "activation_keys kwargs =
     (if kwargs_get (num_bottleneck_nodes_kw kwargs) 0 > 0
      then [''base_activations'', ''bottleneck_activations'']
      else [''base_activations''])"

definition gaussian_keys :: "common \<Rightarrow> int \<Rightarrow> string list" where
  "gaussian_keys cm ns =
     (let keys = AList.update (KEY_EMBEDDING_STDDEVS cm) () [(KEY_EMBEDDING_MEANS cm, ())]
      in map fst (if ns > 0 then AList.update (KEY_EMBEDDING_SAMPLES cm) () keys else keys))"

definition embedder_output_keys :: "common \<Rightarrow> embedder_fn \<Rightarrow> 'a embed_kwargs_scheme \<Rightarrow> string list" where
  "embedder_output_keys cm fn kwargs =
     (case fn of
        PointEmbedder n e \<Rightarrow> [KEY_EMBEDDING_MEANS cm]
      | GaussianEmbedder n e \<Rightarrow>
          gaussian_keys cm (kwargs_get (num_embedding_samples_kw kwargs) 0))"

section \<open>Properties of graphs, and concrete inputs\<close>

text \<open>The three embedding keys of the module \<^verbatim>\<open>common\<close> are different strings.\<close>

definition keys_distinct :: "common \<Rightarrow> bool" where
  "keys_distinct cm =
     distinct [KEY_EMBEDDING_MEANS cm, KEY_EMBEDDING_STDDEVS cm, KEY_EMBEDDING_SAMPLES cm]"

text \<open>
  The calls the properties are stated for. A dimension or a layer size is a positive
  number below two to the power 31; an input has rank two or more, no negative dimension and such a
  feature dimension; a name is a valid scope name and a key a valid part of one; the
  dropout rate is below one in training; an output size is a non-empty list of positive
  numbers with such a product.
\<close>

definition dim_ok :: "int \<Rightarrow> bool" where
  "dim_ok d = (1 \<le> d \<and> d < 2 ^ 31)"

definition input_ok :: "tensor \<Rightarrow> bool" where
  "input_ok x =
     (2 \<le> length (shape_of x) \<and> (\<forall>d \<in> set (shape_of x). 0 \<le> d) \<and> dim_ok (last (shape_of x)))"

definition name_char :: "char \<Rightarrow> bool" where
  "name_char c =
     (c \<in> set ''ABCDEFGHIJKLMNOPQRSTUVWXYZabcdefghijklmnopqrstuvwxyz0123456789_.-/'')"

definition valid_key :: "string \<Rightarrow> bool" where
  "valid_key s = (s \<noteq> [] \<and> list_all name_char s)"

definition valid_name :: "string \<Rightarrow> bool" where
  "valid_name s = (valid_key s \<and> hd s \<notin> set ''_-/'')"

definition layers_ok :: "'a base_kwargs_scheme \<Rightarrow> bool \<Rightarrow> bool" where
  "layers_ok kwargs is_training =
     (dim_ok (kwargs_get (num_hidden_nodes kwargs) 1024)
      \<and> (is_training \<longrightarrow> kwargs_get (dropout_rate kwargs) 0 < 1))"

definition size_ok :: "output_size \<Rightarrow> bool" where
  "size_ok sz =
     (output_size_list sz \<noteq> [] \<and> (\<forall>d \<in> set (output_size_list sz). 1 \<le> d)
      \<and> prod_list (output_size_list sz) < 2 ^ 31)"

definition model_call_ok :: "'a model_kwargs_scheme \<Rightarrow> bool \<Rightarrow> tensor \<Rightarrow> bool" where
  "model_call_ok kwargs is_training x =
     (input_ok x \<and> layers_ok kwargs is_training
      \<and> valid_name (kwargs_get (name_kw kwargs) ''SimpleModel'')
      \<and> kwargs_get (num_bottleneck_nodes_kw kwargs) 0 < 2 ^ 31)"


text \<open>Whether \<^verbatim>\<open>fully_connected\<close> is to add a dropout operation.\<close>

definition applies_dropout :: "'a base_kwargs_scheme \<Rightarrow> bool \<Rightarrow> bool" where
  "applies_dropout kwargs is_training = (is_training \<and> kwargs_get (dropout_rate kwargs) 0 > 0)"

text \<open>A call with no keyword argument, and the constants of an example \<^verbatim>\<open>common\<close> module.\<close>

definition no_kwargs :: embed_kwargs where
  "no_kwargs = \<lparr> num_hidden_nodes = None, weight_initializer = None,
     bias_initializer = None, weight_max_norm = None, use_batch_norm = None,
     dropout_rate = None, num_fcs_per_block = None, num_fc_blocks = None,
     name_kw = None, num_bottleneck_nodes_kw = None,
     is_training_kw = None, num_embedding_samples_kw = None, seed_kw = None \<rparr>"

definition example_common :: common where
  "example_common = \<lparr> KEY_EMBEDDING_MEANS = ''means'', KEY_EMBEDDING_STDDEVS = ''stddevs'',
     KEY_EMBEDDING_SAMPLES = ''samples'', EMBEDDING_TYPE_POINT = ''POINT'',
     EMBEDDING_TYPE_GAUSSIAN = ''GAUSSIAN'' \<rparr>"

text \<open>A small network: four hidden nodes, no residual block, no batch normalisation.\<close>

definition small_kwargs :: embed_kwargs where
  "small_kwargs = no_kwargs \<lparr> num_hidden_nodes := Some 4, use_batch_norm := Some False,
     num_fc_blocks := Some 0 \<rparr>"

definition x23 :: tensor where
  "x23 = Input ''x'' [2, 3]"

definition x24 :: tensor where
  "x24 = Input ''h'' [2, 4]"

text \<open>The base network of the small configuration on \<open>x23\<close>, under the name \<open>M\<close>.\<close>

definition small_base :: tensor where
  "small_base = Relu (Add (MatMul x23 (Variable ''M/InputFC/Linear/weight'' [3, 4] HeNormal))
                          (Variable ''M/InputFC/Linear/bias'' [4] HeNormal))
                     ''M/InputFC/Relu''"

text \<open>The small configuration under the name \<open>M\<close>, and the mean head of a component on it.\<close>

definition m_kwargs :: embed_kwargs where
  "m_kwargs = small_kwargs \<lparr> name_kw := Some ''M'' \<rparr>"

definition mean_head :: "string \<Rightarrow> tensor \<Rightarrow> tensor" where
  "mean_head c net =
     Add (MatMul net (Variable (''M/OutputLogits/C'' @ c @ ''/means/weight'') [4, 2] HeNormal))
         (Variable (''M/OutputLogits/C'' @ c @ ''/means/bias'') [2] HeNormal)"

text \<open>The small configuration with dropout at rate one half, and its base network in training.\<close>

definition dropout_kwargs :: embed_kwargs where
  "dropout_kwargs = m_kwargs \<lparr> dropout_rate := Some (1 / 2) \<rparr>"

definition dropout_base :: tensor where
  "dropout_base =
     Dropout (Relu (Add (MatMul x23 (Variable ''M/InputFC/Linear/weight'' [3, 4] HeNormal))
                        (Variable ''M/InputFC/Linear/bias'' [4] HeNormal))
                   ''M/InputFC/Relu'')
             (1 / 2) ''M/InputFC/Dropout''"

text \<open>
  A way to run a graph on natural numbers: a deterministic operation adds its operands'
  results up, a random operation returns the draw of the run.
\<close>

definition sum_ops :: "tensor \<Rightarrow> nat list \<Rightarrow> nat" where
  "sum_ops t vs = sum_list vs"

definition draw :: "nat \<Rightarrow> tensor \<Rightarrow> nat list \<Rightarrow> nat" where
  "draw w t vs = w"

text \<open>
  A run on arrays in which the input and every weight matrix are zero and every bias is
  \<open>c\<close>: a variable named \<^verbatim>\<open>.../bias\<close> is \<open>c\<close> everywhere, so is the sum a linear layer
  returns, and every other operation gives zero (as matrix products with zero weights
  do, and ReLU for a \<open>c\<close> that is not positive). No random operation draws anything but
  zero.
\<close>

definition bias_run :: "real \<Rightarrow> tensor \<Rightarrow> array list \<Rightarrow> array" where
  "bias_run c t vs =
     (case t of
        Variable name s i \<Rightarrow> (\<lambda>ix. if drop (length name - 5) name = ''/bias'' then c else 0)
      | Add a b \<Rightarrow> (\<lambda>ix. c)
      | _ \<Rightarrow> (\<lambda>ix. 0))"

definition zero_draw :: "nat \<Rightarrow> tensor \<Rightarrow> array list \<Rightarrow> array" where
  "zero_draw w t vs = (\<lambda>ix. 0)"

text \<open>The output head of component \<open>c\<close> under a key, on the small configuration.\<close>

definition key_head :: "string \<Rightarrow> string \<Rightarrow> tensor \<Rightarrow> tensor" where
  "key_head key c net =
     Add (MatMul net (Variable (''M/OutputLogits/C'' @ c @ ''/'' @ key @ ''/weight'') [4, 2] HeNormal))
         (Variable (''M/OutputLogits/C'' @ c @ ''/'' @ key @ ''/bias'') [2] HeNormal)"

text \<open>
  Inference on the small configuration; inputs with two and with no instances; the base
  network and the point embedder's result on an instance.
\<close>

definition kw_inference :: embed_kwargs where
  "kw_inference = m_kwargs \<lparr> is_training_kw := Some False \<rparr>"

definition x223 :: tensor where
  "x223 = Input ''x'' [2, 2, 3]"

definition x203 :: tensor where
  "x203 = Input ''x'' [2, 0, 3]"

definition small_base_on :: "tensor \<Rightarrow> tensor" where
  "small_base_on x = Relu (Add (MatMul x (Variable ''M/InputFC/Linear/weight'' [3, 4] HeNormal))
                               (Variable ''M/InputFC/Linear/bias'' [4] HeNormal))
                          ''M/InputFC/Relu''"

definition point_result :: "tensor \<Rightarrow> tensor dict \<times> tensor dict" where
  "point_result x =
     ([(''means'', Stack [key_head ''means'' ''0'' (small_base_on x)] (- 2))],
      [(''base_activations'', small_base_on x)])"

section \<open>Basic facts\<close>

lemma bind_Inr [simp]: "bind (Inr x) f = f x"
  by (simp add: bind_def)

lemma bind_Inl [simp]: "bind (Inl e) f = Inl e"
  by (simp add: bind_def)

lemma bind_eq_Inr_iff: "bind m f = Inr y \<longleftrightarrow> (\<exists>x. m = Inr x \<and> f x = Inr y)"
  by (cases m) simp_all

lemma broadcast_rev_Nil2 [simp]: "broadcast_rev xs [] = xs"
  by (cases xs) simp_all

lemma broadcast_rev_same [simp]: "broadcast_rev xs xs = xs"
  by (induction xs) simp_all

lemma broadcast_same [simp]: "broadcast s s = s"
  by (simp add: broadcast_def)

lemma broadcast_bias [simp]: "broadcast (p @ [d]) [d] = p @ [d]"
  by (simp add: broadcast_def)

lemma str_int_nat [simp]: "str_int (int i) = digits i"
  by (simp add: str_int_def)

lemma for_loop_append:
  "for_loop (xs @ ys) body s = bind (for_loop xs body s) (for_loop ys body)"
  by (induction xs arbitrary: s) (simp_all add: bind_def split: sum.splits)

lemma py_range_Suc: "nat n = Suc k \<Longrightarrow> py_range n = py_range (int k) @ [int k]"
  by (simp add: py_range_def)

lemma py_range_nonpos [simp]: "n \<le> 0 \<Longrightarrow> py_range n = []"
  by (simp add: py_range_def)

lemma for_loop_range_compose:
  assumes step: "\<And>i s. P s \<Longrightarrow> body (int i) s = Inr (layer i s) \<and> P (layer i s)"
    and init: "P x"
  shows "for_loop (map int [0 ..< k]) body x = Inr (compose_layers layer k x)
         \<and> P (compose_layers layer k x)"
proof (induction k)
  case 0
  show ?case using init by simp
next
  case (Suc k)
  then show ?case using step [of "compose_layers layer k x" k]
    by (simp add: for_loop_append)
qed

lemma broadcastable_rev_Nil2 [simp]: "broadcastable_rev xs []"
  by (cases xs) simp_all

lemma broadcastable_rev_same [simp]: "broadcastable_rev xs xs"
  by (induction xs) simp_all

lemma broadcastable_same [simp]: "broadcastable s s"
  by (simp add: broadcastable_def)

lemma broadcastable_bias [simp]: "broadcastable (p @ [d]) [d]"
  by (simp add: broadcastable_def)

lemma input_ok_nonempty: "input_ok x \<Longrightarrow> shape_of x \<noteq> []"
  by (auto simp add: input_ok_def)

lemma input_ok_rank: "input_ok x \<Longrightarrow> \<not> length (shape_of x) < 2"
  by (simp add: input_ok_def)

lemma input_ok_last: "input_ok x \<Longrightarrow> 0 \<le> last (shape_of x)"
  by (simp add: input_ok_def dim_ok_def)

lemma np_prod_small: "0 \<le> prod_list xs \<Longrightarrow> prod_list xs < 2 ^ 31 \<Longrightarrow> np_prod xs = prod_list xs"
  by (simp add: np_prod_def)

lemma linear_layer_Inr:
  assumes "input_ok x" and "0 \<le> output_size"
  shows "linear_layer x output_size max_norm w_init b_init name
         = Inr (linear_graph x output_size max_norm w_init b_init name)"
proof -
  from input_ok_nonempty [OF assms(1)] obtain p d where s: "shape_of x = p @ [d]"
    by (cases "shape_of x" rule: rev_cases) auto
  with input_ok_last [OF assms(1)] have d: "0 \<le> d" by simp
  from input_ok_rank [OF assms(1)] s have r: "\<not> Suc (length p) < 2" by simp
  have w: "tf_get_variable (name @ ''/weight'') [d, output_size] w_init
           = Inr (Variable (name @ ''/weight'') [d, output_size] w_init)"
    using d assms(2) by (simp add: tf_get_variable_def)
  have b: "tf_get_variable (name @ ''/bias'') [output_size] b_init
           = Inr (Variable (name @ ''/bias'') [output_size] b_init)"
    using assms(2) by (simp add: tf_get_variable_def)
  show ?thesis
    using r
    by (simp add: linear_layer_def s w b tf_matmul_def tf_add_def linear_graph_def
          clipped_weights_def Let_def)
qed

lemma shape_of_clipped_weights [simp]:
  "shape_of (clipped_weights x output_size max_norm w_init name) = [last (shape_of x), output_size]"
  by (simp add: clipped_weights_def Let_def)

lemma shape_of_linear_graph:
  "shape_of (linear_graph x output_size max_norm w_init b_init name)
     = butlast (shape_of x) @ [output_size]"
  by (simp add: linear_graph_def)

lemma shape_of_fc_layer:
  "shape_of (fc_layer kwargs is_training name x)
     = butlast (shape_of x) @ [kwargs_get (num_hidden_nodes kwargs) 1024]"
  by (simp add: fc_layer_def dropout_opt_def batch_norm_opt_def shape_of_linear_graph
           split: option.splits)

lemma fully_connected_Inr:
  assumes "input_ok x" and "layers_ok kwargs is_training"
  shows "fully_connected kwargs x is_training name = Inr (fc_layer kwargs is_training name x)"
proof -
  from assms(2) have h: "0 \<le> kwargs_get (num_hidden_nodes kwargs) 1024"
    and r: "is_training \<longrightarrow> kwargs_get (dropout_rate kwargs) 0 < 1"
    by (simp_all add: layers_ok_def dim_ok_def)
  have "fully_connected kwargs x is_training name
        = (let net = (if kwargs_get (use_batch_norm kwargs) True
                      then BatchNormalization
                             (linear_graph x (kwargs_get (num_hidden_nodes kwargs) 1024)
                                (kwargs_get (weight_max_norm kwargs) 0)
                                (kwargs_get (weight_initializer kwargs) HeNormal)
                                (kwargs_get (bias_initializer kwargs) HeNormal)
                                (name @ ''/Linear''))
                             is_training (name @ ''/BatchNorm'')
                      else linear_graph x (kwargs_get (num_hidden_nodes kwargs) 1024)
                             (kwargs_get (weight_max_norm kwargs) 0)
                             (kwargs_get (weight_initializer kwargs) HeNormal)
                             (kwargs_get (bias_initializer kwargs) HeNormal)
                             (name @ ''/Linear''));
               net = Relu net (name @ ''/Relu'');
               rate = kwargs_get (dropout_rate kwargs) 0
           in if is_training \<and> rate > 0
              then tf_dropout net rate (name @ ''/Dropout'')
              else Inr net)"
    unfolding fully_connected_def linear_layer_Inr [OF assms(1) h] by simp
  also have "\<dots> = Inr (fc_layer kwargs is_training name x)"
    using r
    by (cases "use_batch_norm kwargs"; cases "dropout_rate kwargs")
       (auto simp add: fc_layer_def dropout_opt_def batch_norm_opt_def kwargs_get_def Let_def
          tf_dropout_def)
  finally show ?thesis .
qed

lemma input_ok_fc_layer:
  assumes "input_ok x" and "layers_ok kwargs is_training"
  shows "input_ok (fc_layer kwargs is_training name x)"
    and "last (shape_of (fc_layer kwargs is_training name x))
         = kwargs_get (num_hidden_nodes kwargs) 1024"
proof -
  from assms(2) have h: "dim_ok (kwargs_get (num_hidden_nodes kwargs) 1024)"
    by (simp add: layers_ok_def)
  from assms(1) have "\<forall>d \<in> set (butlast (shape_of x)). 0 \<le> d"
    by (auto simp add: input_ok_def dest: in_set_butlastD)
  with assms(1) h show "input_ok (fc_layer kwargs is_training name x)"
    by (auto simp add: input_ok_def shape_of_fc_layer dim_ok_def)
  show "last (shape_of (fc_layer kwargs is_training name x))
         = kwargs_get (num_hidden_nodes kwargs) 1024"
    by (simp add: shape_of_fc_layer)
qed

section \<open>Residual fully-connected blocks\<close>

lemma broadcast_rev_eq_Nil [simp]: "broadcast_rev xs ys = [] \<longleftrightarrow> xs = [] \<and> ys = []"
  by (induction xs ys rule: broadcast_rev.induct) simp_all

lemma broadcast_eq_Nil [simp]: "broadcast a b = [] \<longleftrightarrow> a = [] \<and> b = []"
  by (simp add: broadcast_def)

lemma fc_layer_nonempty: "shape_of (fc_layer kwargs is_training name x) \<noteq> []"
  by (simp add: shape_of_fc_layer)

lemma input_ok_shape_cong: "shape_of a = shape_of b \<Longrightarrow> input_ok a = input_ok b"
  by (simp add: input_ok_def)

lemma shape_of_fc_layer_same:
  assumes "input_ok x" and "last (shape_of x) = kwargs_get (num_hidden_nodes kwargs) 1024"
  shows "shape_of (fc_layer kwargs is_training name x) = shape_of x"
  using input_ok_nonempty [OF assms(1)] assms(2)
  by (simp add: shape_of_fc_layer flip: assms(2))

lemma fcs_loop:
  assumes "input_ok x" and "layers_ok kwargs is_training"
    and "last (shape_of x) = kwargs_get (num_hidden_nodes kwargs) 1024"
  shows "for_loop (map int [0 ..< k])
           (\<lambda>i net. fully_connected kwargs net is_training (name @ ''/FC_'' @ str_int i)) x
         = Inr (compose_layers (\<lambda>i. fc_layer kwargs is_training (name @ ''/FC_'' @ digits i)) k x)
         \<and> (input_ok (compose_layers (\<lambda>i. fc_layer kwargs is_training (name @ ''/FC_'' @ digits i)) k x)
            \<and> shape_of (compose_layers (\<lambda>i. fc_layer kwargs is_training (name @ ''/FC_'' @ digits i)) k x)
              = shape_of x)"
proof (rule for_loop_range_compose [where P = "\<lambda>s. input_ok s \<and> shape_of s = shape_of x"])
  fix i s
  assume p: "input_ok s \<and> shape_of s = shape_of x"
  then have l: "last (shape_of s) = kwargs_get (num_hidden_nodes kwargs) 1024"
    using assms(3) by simp
  let ?y = "fc_layer kwargs is_training (name @ ''/FC_'' @ digits i) s"
  have e: "shape_of ?y = shape_of s"
    using p l by (simp add: shape_of_fc_layer_same)
  have "input_ok ?y"
    using p input_ok_shape_cong [OF e] by simp
  with e p
  show "fully_connected kwargs s is_training (name @ ''/FC_'' @ str_int (int i)) = Inr ?y
        \<and> (input_ok ?y \<and> shape_of ?y = shape_of x)"
    by (simp add: fully_connected_Inr assms(2))
next
  show "input_ok x \<and> shape_of x = shape_of x"
    using assms(1) by simp
qed

lemma fully_connected_block_Inr:
  assumes "input_ok x" and "layers_ok kwargs is_training"
    and "last (shape_of x) = kwargs_get (num_hidden_nodes kwargs) 1024"
  shows "fully_connected_block kwargs x is_training name
           = Inr (residual_block kwargs is_training name x)"
  using fcs_loop [OF assms, of "nat (kwargs_get (num_fcs_per_block kwargs) 2)" name]
  by (simp add: fully_connected_block_def residual_block_def py_range_def tf_add_def)

lemma shape_of_residual_block_same:
  assumes "input_ok x" and "layers_ok kwargs is_training"
    and "last (shape_of x) = kwargs_get (num_hidden_nodes kwargs) 1024"
  shows "shape_of (residual_block kwargs is_training name x) = shape_of x"
  using fcs_loop [OF assms, of "nat (kwargs_get (num_fcs_per_block kwargs) 2)" name]
  by (simp add: residual_block_def)

lemma blocks_loop:
  assumes "input_ok y" and "layers_ok kwargs is_training"
    and "last (shape_of y) = kwargs_get (num_hidden_nodes kwargs) 1024"
  shows "for_loop (map int [0 ..< k])
           (\<lambda>i net. fully_connected_block kwargs net is_training
                       (name @ ''/FullyConnectedBlock_'' @ str_int i)) y
         = Inr (compose_layers
                  (\<lambda>i. residual_block kwargs is_training (name @ ''/FullyConnectedBlock_'' @ digits i))
                  k y)
         \<and> (input_ok (compose_layers
                  (\<lambda>i. residual_block kwargs is_training (name @ ''/FullyConnectedBlock_'' @ digits i))
                  k y)
            \<and> shape_of (compose_layers
                  (\<lambda>i. residual_block kwargs is_training (name @ ''/FullyConnectedBlock_'' @ digits i))
                  k y) = shape_of y)"
proof (rule for_loop_range_compose [where P = "\<lambda>s. input_ok s \<and> shape_of s = shape_of y"])
  fix i s
  assume p: "input_ok s \<and> shape_of s = shape_of y"
  then have l: "last (shape_of s) = kwargs_get (num_hidden_nodes kwargs) 1024"
    using assms(3) by simp
  let ?z = "residual_block kwargs is_training (name @ ''/FullyConnectedBlock_'' @ digits i) s"
  have e: "shape_of ?z = shape_of s"
    using p l assms(2) by (simp add: shape_of_residual_block_same)
  have "input_ok ?z"
    using p input_ok_shape_cong [OF e] by simp
  with e p l
  show "fully_connected_block kwargs s is_training
          (name @ ''/FullyConnectedBlock_'' @ str_int (int i)) = Inr ?z
        \<and> (input_ok ?z \<and> shape_of ?z = shape_of y)"
    by (simp add: fully_connected_block_Inr assms(2))
next
  show "input_ok y \<and> shape_of y = shape_of y"
    using assms(1) by simp
qed

lemma simple_base_Inr:
  assumes "input_ok x" and "layers_ok kwargs is_training"
  shows "simple_base x is_training name kwargs = Inr (base_graph kwargs is_training name x)"
  using blocks_loop [OF input_ok_fc_layer(1) [OF assms] assms(2) input_ok_fc_layer(2) [OF assms],
          of "nat (kwargs_get (num_fc_blocks kwargs) 2)" name]
  by (simp add: simple_base_def base_graph_def py_range_def fully_connected_Inr assms)

lemma input_ok_base_graph:
  assumes "input_ok x" and "layers_ok kwargs is_training"
  shows "input_ok (base_graph kwargs is_training name x)"
  using blocks_loop [OF input_ok_fc_layer(1) [OF assms] assms(2) input_ok_fc_layer(2) [OF assms],
          of "nat (kwargs_get (num_fc_blocks kwargs) 2)" name]
  by (simp add: base_graph_def)

lemma compose_layers_2: "compose_layers layer 2 x = layer 1 (layer 0 x)"
  by (simp add: numeral_2_eq_2)

lemma digits_0: "digits 0 = ''0''" by (simp add: digits.simps digit_char_def)
lemma digits_1: "digits 1 = ''1''" by (simp add: digits.simps digit_char_def)
lemma digits_Suc_0: "digits (Suc 0) = ''1''" by (simp add: digits.simps digit_char_def)

text \<open>
  C1. On an input of rank two or more with a positive feature dimension, under a valid
  name, with a positive number of hidden nodes and, in training, a dropout rate below
  one: \<^verbatim>\<open>fully_connected\<close> builds one fully-connected layer (linear, optional batch
  normalisation, ReLU, optional dropout); on an input of the hidden width a residual
  block is the sequential composition of \<^verbatim>\<open>num_fcs_per_block\<close> (by default two) such
  layers applied to the block's input, to which the block's input is then added; and
  \<^verbatim>\<open>simple_base\<close> is the input layer followed by \<^verbatim>\<open>num_fc_blocks\<close> (by default two)
  such blocks, in order.
\<close>

theorem simple_base_is_residual_composition:
  assumes "input_ok x" and "layers_ok kwargs is_training" and "valid_name name"
  shows "fully_connected kwargs x is_training name = Inr (fc_layer kwargs is_training name x)
       \<and> (last (shape_of x) = kwargs_get (num_hidden_nodes kwargs) 1024 \<longrightarrow>
            fully_connected_block kwargs x is_training name
              = Inr (Add (compose_layers
                            (\<lambda>i. fc_layer kwargs is_training (name @ ''/FC_'' @ digits i))
                            (nat (kwargs_get (num_fcs_per_block kwargs) 2)) x)
                         x))
       \<and> (last (shape_of x) = kwargs_get (num_hidden_nodes kwargs) 1024
            \<and> num_fcs_per_block kwargs = None \<longrightarrow>
            fully_connected_block kwargs x is_training name
              = Inr (Add (fc_layer kwargs is_training (name @ ''/FC_1'')
                            (fc_layer kwargs is_training (name @ ''/FC_0'') x))
                         x))
       \<and> simple_base x is_training name kwargs
           = Inr (compose_layers
                    (\<lambda>i. residual_block kwargs is_training
                            (name @ ''/FullyConnectedBlock_'' @ digits i))
                    (nat (kwargs_get (num_fc_blocks kwargs) 2))
                    (fc_layer kwargs is_training (name @ ''/InputFC'') x))
       \<and> (num_fc_blocks kwargs = None \<longrightarrow>
            simple_base x is_training name kwargs
              = Inr (residual_block kwargs is_training (name @ ''/FullyConnectedBlock_1'')
                       (residual_block kwargs is_training (name @ ''/FullyConnectedBlock_0'')
                          (fc_layer kwargs is_training (name @ ''/InputFC'') x))))"
proof -
  have a: "fully_connected kwargs x is_training name = Inr (fc_layer kwargs is_training name x)"
    using assms(1,2) by (rule fully_connected_Inr)
  have b: "last (shape_of x) = kwargs_get (num_hidden_nodes kwargs) 1024 \<Longrightarrow>
           fully_connected_block kwargs x is_training name
           = Inr (residual_block kwargs is_training name x)"
    using assms(1,2) by (rule fully_connected_block_Inr)
  have c: "simple_base x is_training name kwargs = Inr (base_graph kwargs is_training name x)"
    using assms(1,2) by (rule simple_base_Inr)
  have b1: "last (shape_of x) = kwargs_get (num_hidden_nodes kwargs) 1024 \<longrightarrow>
            fully_connected_block kwargs x is_training name
              = Inr (Add (compose_layers
                            (\<lambda>i. fc_layer kwargs is_training (name @ ''/FC_'' @ digits i))
                            (nat (kwargs_get (num_fcs_per_block kwargs) 2)) x)
                         x)"
    using b by (simp add: residual_block_def)
  have b2: "last (shape_of x) = kwargs_get (num_hidden_nodes kwargs) 1024
            \<and> num_fcs_per_block kwargs = None \<longrightarrow>
            fully_connected_block kwargs x is_training name
              = Inr (Add (fc_layer kwargs is_training (name @ ''/FC_1'')
                            (fc_layer kwargs is_training (name @ ''/FC_0'') x))
                         x)"
    using b by (simp add: residual_block_def kwargs_get_def compose_layers_2 digits_0 digits_1 digits_Suc_0)
  have c1: "simple_base x is_training name kwargs
           = Inr (compose_layers
                    (\<lambda>i. residual_block kwargs is_training
                            (name @ ''/FullyConnectedBlock_'' @ digits i))
                    (nat (kwargs_get (num_fc_blocks kwargs) 2))
                    (fc_layer kwargs is_training (name @ ''/InputFC'') x))"
    unfolding c by (simp add: base_graph_def)
  have c2: "num_fc_blocks kwargs = None \<longrightarrow>
            simple_base x is_training name kwargs
              = Inr (residual_block kwargs is_training (name @ ''/FullyConnectedBlock_1'')
                       (residual_block kwargs is_training (name @ ''/FullyConnectedBlock_0'')
                          (fc_layer kwargs is_training (name @ ''/InputFC'') x)))"
    unfolding c by (simp add: base_graph_def kwargs_get_def compose_layers_2 digits_0 digits_1 digits_Suc_0)
  from a b1 b2 c1 c2 show ?thesis by (intro conjI)
qed

lemma input_ok_x23: "input_ok x23"
  by (simp add: input_ok_def x23_def dim_ok_def)

lemma input_ok_x24: "input_ok x24"
  by (simp add: input_ok_def x24_def dim_ok_def)

lemma layers_ok_no_kwargs: "layers_ok no_kwargs is_training"
  by (simp add: layers_ok_def no_kwargs_def kwargs_get_def dim_ok_def)

lemma layers_ok_small_kwargs: "layers_ok small_kwargs is_training"
  by (simp add: layers_ok_def small_kwargs_def no_kwargs_def kwargs_get_def dim_ok_def)

lemma valid_name_examples:
  "valid_name ''L''" "valid_name ''B''" "valid_name ''M''" "valid_name ''SimpleModel''"
  by (simp_all add: valid_name_def valid_key_def name_char_def)

theorem simple_base_is_residual_composition_witness:
  "input_ok x23 \<and> layers_ok no_kwargs False \<and> valid_name ''L''
   \<and> fully_connected no_kwargs x23 False ''L''
       = Inr (Relu (BatchNormalization
                      (Add (MatMul x23 (Variable ''L/Linear/weight'' [3, 1024] HeNormal))
                           (Variable ''L/Linear/bias'' [1024] HeNormal))
                      False ''L/BatchNorm'')
                   ''L/Relu'')
   \<and> input_ok x24 \<and> layers_ok small_kwargs True \<and> valid_name ''B''
   \<and> last (shape_of x24) = kwargs_get (num_hidden_nodes small_kwargs) 1024
   \<and> num_fcs_per_block small_kwargs = None
   \<and> fully_connected_block small_kwargs x24 True ''B''
       = Inr (Add (fc_layer small_kwargs True ''B/FC_1'' (fc_layer small_kwargs True ''B/FC_0'' x24))
                  x24)
   \<and> valid_name ''M''
   \<and> simple_base x23 False ''M'' no_kwargs
       = Inr (residual_block no_kwargs False ''M/FullyConnectedBlock_1''
                (residual_block no_kwargs False ''M/FullyConnectedBlock_0''
                   (fc_layer no_kwargs False ''M/InputFC'' x23)))"
proof -
  have n: "num_fcs_per_block small_kwargs = None" "num_fc_blocks no_kwargs = None"
    "last (shape_of x24) = kwargs_get (num_hidden_nodes small_kwargs) 1024"
    by (simp_all add: no_kwargs_def small_kwargs_def x24_def kwargs_get_def)
  have "fc_layer no_kwargs False ''L'' x23
        = Relu (BatchNormalization
                      (Add (MatMul x23 (Variable ''L/Linear/weight'' [3, 1024] HeNormal))
                           (Variable ''L/Linear/bias'' [1024] HeNormal))
                      False ''L/BatchNorm'')
                   ''L/Relu''"
    by (simp add: fc_layer_def dropout_opt_def batch_norm_opt_def linear_graph_def
          clipped_weights_def kwargs_get_def no_kwargs_def x23_def)
  then show ?thesis
    using n input_ok_x23 input_ok_x24 valid_name_examples
      layers_ok_no_kwargs [of False] layers_ok_small_kwargs [of True]
      simple_base_is_residual_composition
        [OF input_ok_x23 layers_ok_no_kwargs valid_name_examples(1), of False]
      simple_base_is_residual_composition
        [OF input_ok_x24 layers_ok_small_kwargs valid_name_examples(2), of True]
      simple_base_is_residual_composition
        [OF input_ok_x23 layers_ok_no_kwargs valid_name_examples(3), of False]
    by (simp add: kwargs_get_def compose_layers_2 digits_0 digits_1 digits_Suc_0)
qed

section \<open>The linear layer\<close>

text \<open>
  C4. On an input of rank two or more with a positive feature dimension, for a positive
  output size and under a valid name, \<^verbatim>\<open>_linear\<close> clips the weight matrix to norm
  \<^verbatim>\<open>weight_max_norm\<close> before the matrix multiply exactly when
  \<^verbatim>\<open>weight_max_norm > 0.0\<close>; for a non-positive \<^verbatim>\<open>weight_max_norm\<close> the weights are
  used unclipped. In both cases the result is the input times the (possibly clipped)
  weights, plus the bias.
\<close>

theorem linear_clips_iff_max_norm_positive:
  assumes "input_ok x" and "dim_ok output_size" and "valid_name name"
  shows "(max_norm > 0 \<longrightarrow>
            linear_layer x output_size max_norm w_init b_init name
              = Inr (Add (MatMul x (ClipByNorm
                                      (Variable (name @ ''/weight'') [last (shape_of x), output_size] w_init)
                                      max_norm))
                         (Variable (name @ ''/bias'') [output_size] b_init)))
       \<and> (max_norm \<le> 0 \<longrightarrow>
            linear_layer x output_size max_norm w_init b_init name
              = Inr (Add (MatMul x (Variable (name @ ''/weight'') [last (shape_of x), output_size] w_init))
                         (Variable (name @ ''/bias'') [output_size] b_init)))"
proof -
  from assms(2) have "0 \<le> output_size"
    by (simp add: dim_ok_def)
  with assms(1) show ?thesis
    by (simp add: linear_layer_Inr linear_graph_def clipped_weights_def)
qed

theorem linear_clips_iff_max_norm_positive_witness:
  "input_ok x23 \<and> dim_ok 4 \<and> valid_name ''L''
   \<and> linear_layer x23 4 (1 / 2) HeNormal HeNormal ''L''
       = Inr (Add (MatMul x23
                     (ClipByNorm (Variable ''L/weight'' [3, 4] HeNormal) (1 / 2)))
                  (Variable ''L/bias'' [4] HeNormal))
   \<and> linear_layer x23 4 0 HeNormal HeNormal ''L''
       = Inr (Add (MatMul x23 (Variable ''L/weight'' [3, 4] HeNormal))
                  (Variable ''L/bias'' [4] HeNormal))"
proof -
  have d: "dim_ok 4"
    by (simp add: dim_ok_def)
  have s: "last (shape_of x23) = 3"
    by (simp add: x23_def)
  show ?thesis
    using d input_ok_x23 valid_name_examples(1)
      linear_clips_iff_max_norm_positive
        [OF input_ok_x23 d valid_name_examples(1), of "1 / 2" HeNormal HeNormal]
      linear_clips_iff_max_norm_positive
        [OF input_ok_x23 d valid_name_examples(1), of 0 HeNormal HeNormal]
    by (simp add: s)
qed

section \<open>Dropout\<close>

lemma has_dropout_linear_graph [simp]:
  "has_op is_dropout (linear_graph x output_size max_norm w_init b_init name)
     = has_op is_dropout x"
  by (simp add: linear_graph_def clipped_weights_def is_dropout_def Let_def)

lemma has_dropout_fc_layer:
  "has_op is_dropout (fc_layer kwargs is_training name x)
     = (applies_dropout kwargs is_training \<or> has_op is_dropout x)"
  by (auto simp add: fc_layer_def dropout_opt_def batch_norm_opt_def is_dropout_def
        applies_dropout_def kwargs_get_def split: option.splits)

lemma has_dropout_compose_fc:
  "has_op is_dropout (compose_layers (\<lambda>i. fc_layer kwargs is_training (f i)) k x)
     = ((k > 0 \<and> applies_dropout kwargs is_training) \<or> has_op is_dropout x)"
  by (induction k) (auto simp add: has_dropout_fc_layer)

lemma has_dropout_residual_block:
  "has_op is_dropout (residual_block kwargs is_training name x)
     = ((nat (kwargs_get (num_fcs_per_block kwargs) 2) > 0 \<and> applies_dropout kwargs is_training)
        \<or> has_op is_dropout x)"
  by (auto simp add: residual_block_def has_dropout_compose_fc is_dropout_def)

lemma has_dropout_compose_blocks:
  "has_op is_dropout (compose_layers (\<lambda>i. residual_block kwargs is_training (f i)) k x)
     \<Longrightarrow> applies_dropout kwargs is_training \<or> has_op is_dropout x"
  by (induction k) (auto simp add: has_dropout_residual_block)

lemma has_op_compose_blocks_mono:
  "has_op P x \<Longrightarrow> has_op P (compose_layers (\<lambda>i. residual_block kwargs is_training (f i)) k x)"
  by (induction k) (auto simp add: residual_block_def)

lemma has_dropout_base_graph:
  "has_op is_dropout (base_graph kwargs is_training name x)
     = (applies_dropout kwargs is_training \<or> has_op is_dropout x)"
proof
  assume "has_op is_dropout (base_graph kwargs is_training name x)"
  then have "applies_dropout kwargs is_training
             \<or> has_op is_dropout (fc_layer kwargs is_training (name @ ''/InputFC'') x)"
    unfolding base_graph_def by (rule has_dropout_compose_blocks)
  then show "applies_dropout kwargs is_training \<or> has_op is_dropout x"
    by (auto simp add: has_dropout_fc_layer)
next
  assume "applies_dropout kwargs is_training \<or> has_op is_dropout x"
  then have "has_op is_dropout (fc_layer kwargs is_training (name @ ''/InputFC'') x)"
    by (simp add: has_dropout_fc_layer)
  then show "has_op is_dropout (base_graph kwargs is_training name x)"
    unfolding base_graph_def by (rule has_op_compose_blocks_mono)
qed

lemma fully_connected_inference_rate:
  "fully_connected (kwargs\<lparr>dropout_rate := r\<rparr>) x False name
     = fully_connected (kwargs\<lparr>dropout_rate := r'\<rparr>) x False name"
  by (simp add: fully_connected_def)

lemma simple_base_inference_rate:
  "simple_base x False name (kwargs\<lparr>dropout_rate := r\<rparr>)
     = simple_base x False name (kwargs\<lparr>dropout_rate := r'\<rparr>)"
  by (simp add: simple_base_def fully_connected_block_def
        fully_connected_inference_rate [where r = r and r' = r'])

text \<open>
  C10. With \<^verbatim>\<open>is_training\<close> false, \<^verbatim>\<open>simple_base\<close> builds the same network for
  any two settings of \<^verbatim>\<open>dropout_rate\<close>; and on a dropout-free input of rank two or
  more with a positive feature dimension, under a valid name, with a positive number
  of hidden nodes and, in training, a dropout rate below one, the network it builds
  holds a dropout operation exactly when \<^verbatim>\<open>is_training\<close> is true and
  \<^verbatim>\<open>dropout_rate > 0.0\<close>.
\<close>

theorem dropout_only_in_training:
  "simple_base x False name (kwargs\<lparr>dropout_rate := r\<rparr>)
     = simple_base x False name (kwargs\<lparr>dropout_rate := r'\<rparr>)
   \<and> (input_ok x \<and> layers_ok kwargs is_training \<and> valid_name name \<and> \<not> has_op is_dropout x
        \<longrightarrow> (\<exists>net. simple_base x is_training name kwargs = Inr net
               \<and> (has_op is_dropout net
                    \<longleftrightarrow> is_training \<and> kwargs_get (dropout_rate kwargs) 0 > 0)))"
  by (simp add: simple_base_inference_rate [where r = r and r' = r'] simple_base_Inr
        has_dropout_base_graph applies_dropout_def)

lemma layers_ok_half:
  "layers_ok (no_kwargs\<lparr>dropout_rate := Some (1 / 2)\<rparr>) is_training"
  by (simp add: layers_ok_def no_kwargs_def kwargs_get_def dim_ok_def)

theorem dropout_only_in_training_witness:
  "input_ok x23 \<and> layers_ok (no_kwargs\<lparr>dropout_rate := Some (1 / 2)\<rparr>) True
   \<and> layers_ok (no_kwargs\<lparr>dropout_rate := Some (1 / 2)\<rparr>) False
   \<and> valid_name ''M'' \<and> \<not> has_op is_dropout x23
   \<and> simple_base x23 False ''M'' (no_kwargs\<lparr>dropout_rate := Some (1 / 2)\<rparr>)
       = simple_base x23 False ''M'' (no_kwargs\<lparr>dropout_rate := Some 0\<rparr>)
   \<and> (\<exists>net. simple_base x23 True ''M'' (no_kwargs\<lparr>dropout_rate := Some (1 / 2)\<rparr>) = Inr net
         \<and> has_op is_dropout net)
   \<and> (\<exists>net. simple_base x23 False ''M'' (no_kwargs\<lparr>dropout_rate := Some (1 / 2)\<rparr>) = Inr net
         \<and> \<not> has_op is_dropout net)"
proof -
  have d: "\<not> has_op is_dropout x23"
    by (simp add: x23_def is_dropout_def)
  show ?thesis
    using d input_ok_x23 valid_name_examples(3) layers_ok_half [of True] layers_ok_half [of False]
      dropout_only_in_training [where x = x23 and name = "''M''" and kwargs = no_kwargs
         and r = "Some (1 / 2)" and r' = "Some 0"
         and is_training = True]
      dropout_only_in_training [where x = x23 and name = "''M''"
         and kwargs = "no_kwargs\<lparr>dropout_rate := Some (1 / 2)\<rparr>"
         and r = "Some (1 / 2)" and r' = "Some 0"
         and is_training = True]
      dropout_only_in_training [where x = x23 and name = "''M''"
         and kwargs = "no_kwargs\<lparr>dropout_rate := Some (1 / 2)\<rparr>"
         and r = "Some (1 / 2)" and r' = "Some 0"
         and is_training = False]
    by (simp add: kwargs_get_def)
qed

section \<open>The model with its output heads\<close>

lemma prod_list_pos: "\<forall>d \<in> set xs. 1 \<le> d \<Longrightarrow> 1 \<le> prod_list (xs :: int list)"
proof (induction xs)
  case Nil
  show ?case by simp
next
  case (Cons a xs)
  then have "1 \<le> a" and "1 \<le> prod_list xs" by simp_all
  then have "1 * 1 \<le> a * prod_list xs"
    by (intro mult_mono) simp_all
  then show ?case by simp
qed

lemma np_prod_size_ok:
  assumes "size_ok sz"
  shows "np_prod (output_size_list sz) = prod_list (output_size_list sz)"
    and "dim_ok (prod_list (output_size_list sz))"
proof -
  from assms have "1 \<le> prod_list (output_size_list sz)"
    by (intro prod_list_pos) (simp add: size_ok_def)
  moreover from assms have "prod_list (output_size_list sz) < 2 ^ 31"
    by (simp add: size_ok_def)
  ultimately show "np_prod (output_size_list sz) = prod_list (output_size_list sz)"
    and "dim_ok (prod_list (output_size_list sz))"
    by (simp_all add: np_prod_small dim_ok_def)
qed

lemma output_head_Inr:
  assumes "input_ok net" and "size_ok sz"
  shows "output_head kwargs net name output_name sz
         = Inr (head_graph kwargs net name output_name sz)"
proof -
  from np_prod_size_ok [OF assms(2)] have "0 \<le> np_prod (output_size_list sz)"
    by (simp add: dim_ok_def)
  then show ?thesis
    by (simp add: output_head_def head_graph_def linear_layer_Inr [OF assms(1)] Let_def)
qed

lemma input_ok_linear_graph:
  assumes "input_ok x" and "dim_ok n"
  shows "input_ok (linear_graph x n max_norm w_init b_init name)"
proof -
  from assms(1) have "\<forall>d \<in> set (butlast (shape_of x)). 0 \<le> d"
    by (auto simp add: input_ok_def dest: in_set_butlastD)
  with assms show ?thesis
    by (auto simp add: input_ok_def shape_of_linear_graph dim_ok_def)
qed

lemma logits_input_head_graph [simp]:
  "logits_input (head_graph kwargs net name output_name sz) = Some net"
  by (simp add: head_graph_def linear_graph_def Let_def)

lemma update_absent: "k \<notin> fst ` set al \<Longrightarrow> AList.update k v al = al @ [(k, v)]"
  by (induction al) auto

lemma heads_loop:
  assumes "input_ok net"
  shows "distinct (map fst output_sizes) \<Longrightarrow> fst ` set output_sizes \<inter> fst ` set acc = {} \<Longrightarrow>
         \<forall>(k, sz) \<in> set output_sizes. size_ok sz \<Longrightarrow>
         for_loop output_sizes
           (\<lambda>(output_name, sz) outputs.
              bind (output_head kwargs net name output_name sz)
                (\<lambda>out. Inr (AList.update output_name out outputs)))
           acc
         = Inr (acc @ map (\<lambda>(output_name, sz). (output_name, head_graph kwargs net name output_name sz))
                        output_sizes)"
proof (induction output_sizes arbitrary: acc)
  case Nil
  show ?case by simp
next
  case (Cons p ps)
  obtain k sz where p: "p = (k, sz)" by (cases p)
  from Cons.prems have k: "k \<notin> fst ` set acc" and d: "distinct (map fst ps)"
    and i: "fst ` set ps \<inter> fst ` set (acc @ [(k, head_graph kwargs net name k sz)]) = {}"
    and z: "size_ok sz" and zs: "\<forall>(k, sz) \<in> set ps. size_ok sz"
    by (auto simp add: p)
  show ?case
    using Cons.IH [OF d i zs] k
    by (simp add: p output_head_Inr [OF assms z] update_absent)
qed

lemma shape_of_compose_fc:
  "shape_of (compose_layers (\<lambda>i. fc_layer kwargs is_training (f i)) k x)
     = (if k = 0 then shape_of x
        else butlast (shape_of x) @ [kwargs_get (num_hidden_nodes kwargs) 1024])"
  by (induction k) (simp_all add: shape_of_fc_layer)

lemma shape_of_residual_block:
  assumes "shape_of x = p @ [kwargs_get (num_hidden_nodes kwargs) 1024]"
  shows "shape_of (residual_block kwargs is_training name x) = shape_of x"
  by (simp add: residual_block_def shape_of_compose_fc assms)

lemma shape_of_compose_blocks:
  assumes "shape_of x = p @ [kwargs_get (num_hidden_nodes kwargs) 1024]"
  shows "shape_of (compose_layers (\<lambda>i. residual_block kwargs is_training (f i)) k x) = shape_of x"
proof (induction k)
  case 0
  show ?case by simp
next
  case (Suc k)
  then show ?case
    using shape_of_residual_block
            [of "compose_layers (\<lambda>i. residual_block kwargs is_training (f i)) k x" p kwargs]
    by (simp add: assms)
qed

lemma shape_of_base_graph:
  "shape_of (base_graph kwargs is_training name x)
     = butlast (shape_of x) @ [kwargs_get (num_hidden_nodes kwargs) 1024]"
  unfolding base_graph_def
  by (simp add: shape_of_compose_blocks [where p = "butlast (shape_of x)"] shape_of_fc_layer)

lemma shape_of_bottleneck_graph:
  "shape_of (bottleneck_graph kwargs name n (base_graph kwargs is_training name' x))
     = butlast (shape_of x) @ [n]"
  by (simp add: bottleneck_graph_def shape_of_linear_graph shape_of_base_graph)

lemma butlast_shape_model_net:
  "butlast (shape_of (model_net kwargs is_training name n x)) = butlast (shape_of x)"
  by (simp add: model_net_def shape_of_bottleneck_graph shape_of_base_graph)

lemma shape_model_net_nonempty: "shape_of (model_net kwargs is_training name n x) \<noteq> []"
  by (simp add: model_net_def shape_of_bottleneck_graph shape_of_base_graph)

lemma input_ok_model_net:
  assumes "input_ok x" and "layers_ok kwargs is_training" and "n < 2 ^ 31"
  shows "input_ok (model_net kwargs is_training name n x)"
proof (cases "n > 0")
  case True
  with assms(3) have "dim_ok n" by (simp add: dim_ok_def)
  with True show ?thesis
    by (simp add: model_net_def bottleneck_graph_def input_ok_linear_graph
          input_ok_base_graph [OF assms(1,2)])
next
  case False
  then show ?thesis
    by (simp add: model_net_def input_ok_base_graph [OF assms(1,2)])
qed

lemma simple_model_Inr:
  assumes "input_ok x" and "layers_ok kwargs is_training" and "n < 2 ^ 31"
    and "distinct (map fst output_sizes)" and "\<forall>(k, sz) \<in> set output_sizes. size_ok sz"
  shows "simple_model x output_sizes is_training name n kwargs
         = Inr (map (\<lambda>(output_name, sz).
                       (output_name,
                        head_graph kwargs (model_net kwargs is_training name n x) name output_name sz))
                  output_sizes,
                model_activations kwargs is_training name n x)"
proof (cases "n > 0")
  case True
  have b: "input_ok (base_graph kwargs is_training name x)"
    using assms(1,2) by (rule input_ok_base_graph)
  from True have n: "0 \<le> n" by simp
  have m: "input_ok (linear_graph (base_graph kwargs is_training name x) n
                       (kwargs_get (weight_max_norm kwargs) 0)
                       (kwargs_get (weight_initializer kwargs) HeNormal)
                       (kwargs_get (bias_initializer kwargs) HeNormal)
                       (name @ ''/BottleneckLogits''))"
    using input_ok_model_net [OF assms(1-3), of name] True
    by (simp add: model_net_def bottleneck_graph_def)
  show ?thesis
    using True assms(4,5)
    by (simp add: simple_model_def simple_base_Inr [OF assms(1,2)] linear_layer_Inr [OF b n]
          heads_loop [OF m] model_net_def model_activations_def bottleneck_graph_def)
next
  case False
  have b: "input_ok (base_graph kwargs is_training name x)"
    using assms(1,2) by (rule input_ok_base_graph)
  show ?thesis
    using False assms(4,5)
    by (simp add: simple_model_def simple_base_Inr [OF assms(1,2)]
          heads_loop [OF b] model_net_def model_activations_def)
qed

lemma shape_x23: "shape_of x23 \<noteq> []"
  by (simp add: x23_def)

lemma small_kwargs_fields:
  "num_hidden_nodes small_kwargs = Some 4" "use_batch_norm small_kwargs = Some False"
  "num_fc_blocks small_kwargs = Some 0" "weight_initializer small_kwargs = None"
  "bias_initializer small_kwargs = None" "weight_max_norm small_kwargs = None"
  "dropout_rate small_kwargs = None" "num_fcs_per_block small_kwargs = None"
  "name_kw small_kwargs = None" "num_bottleneck_nodes_kw small_kwargs = None"
  "is_training_kw small_kwargs = None" "num_embedding_samples_kw small_kwargs = None"
  "seed_kw small_kwargs = None"
  by (simp_all add: small_kwargs_def no_kwargs_def)

lemma base_graph_small:
  "base_graph (small_kwargs\<lparr>is_training_kw := t, num_embedding_samples_kw := n\<rparr>) False ''M'' x23
     = small_base"
  by (simp add: base_graph_def fc_layer_def dropout_opt_def batch_norm_opt_def linear_graph_def
        clipped_weights_def kwargs_get_def small_kwargs_fields small_base_def x23_def)

lemma base_graph_small': "base_graph small_kwargs False ''M'' x23 = small_base"
  by (simp add: base_graph_def fc_layer_def dropout_opt_def batch_norm_opt_def linear_graph_def
        clipped_weights_def kwargs_get_def small_kwargs_fields small_base_def x23_def)

text \<open>
  C7. On an input of rank two or more with a positive feature dimension, under a valid
  name, with a positive number of hidden nodes and, in training, a dropout rate below
  one, for output names that are valid parts of a scope name and output sizes that
  are positive with a product below two to the power 31, and fewer bottleneck nodes
  than that: \<^verbatim>\<open>simple_model\<close> inserts the bottleneck linear layer between the base
  network and the output heads exactly when \<^verbatim>\<open>num_bottleneck_nodes > 0\<close>. Exactly then
  the activations hold the key \<^verbatim>\<open>'bottleneck_activations'\<close>, beside
  \<^verbatim>\<open>'base_activations'\<close>, which is always there, and every output head is built on
  the bottleneck activations; otherwise every output head is built on the base
  activations.
\<close>

theorem bottleneck_iff_positive:
  assumes "input_ok x" and "layers_ok kwargs is_training" and "valid_name name"
    and "num_bottleneck_nodes < 2 ^ 31"
    and "distinct (map fst output_sizes)"
    and "\<forall>(k, sz) \<in> set output_sizes. valid_key k \<and> size_ok sz"
  shows "\<exists>outputs activations.
           simple_model x output_sizes is_training name num_bottleneck_nodes kwargs
             = Inr (outputs, activations)
         \<and> map_of activations ''base_activations'' = Some (base_graph kwargs is_training name x)
         \<and> (''bottleneck_activations'' \<in> fst ` set activations \<longleftrightarrow> num_bottleneck_nodes > 0)
         \<and> map fst outputs = map fst output_sizes
         \<and> (num_bottleneck_nodes > 0 \<longrightarrow>
              map_of activations ''bottleneck_activations''
                = Some (linear_graph (base_graph kwargs is_training name x) num_bottleneck_nodes
                          (kwargs_get (weight_max_norm kwargs) 0)
                          (kwargs_get (weight_initializer kwargs) HeNormal)
                          (kwargs_get (bias_initializer kwargs) HeNormal)
                          (name @ ''/BottleneckLogits''))
              \<and> (\<forall>(output_name, t) \<in> set outputs.
                    Some t = map_option
                      (head_graph kwargs
                         (bottleneck_graph kwargs name num_bottleneck_nodes
                            (base_graph kwargs is_training name x)) name output_name)
                      (map_of output_sizes output_name)
                    \<and> logits_input t = map_of activations ''bottleneck_activations''))
         \<and> (num_bottleneck_nodes \<le> 0 \<longrightarrow>
              (\<forall>(output_name, t) \<in> set outputs.
                    Some t = map_option
                      (head_graph kwargs (base_graph kwargs is_training name x) name output_name)
                      (map_of output_sizes output_name)
                    \<and> logits_input t = map_of activations ''base_activations''))"
proof -
  from assms(6) have z: "\<forall>(k, sz) \<in> set output_sizes. size_ok sz"
    by auto
  show ?thesis
    using assms(5)
    by (auto simp add: simple_model_Inr [OF assms(1,2,4,5) z] model_activations_def model_net_def
          bottleneck_graph_def comp_def case_prod_beta)
qed

lemma size_ok_2: "size_ok (Size 2)"
  by (simp add: size_ok_def output_size_list_def)

lemma valid_key_a: "valid_key ''a''"
  by (simp add: valid_key_def name_char_def)

theorem bottleneck_iff_positive_witness:
  "input_ok x23 \<and> layers_ok small_kwargs False \<and> valid_name ''M''
   \<and> (5 :: int) < 2 ^ 31 \<and> (0 :: int) < 2 ^ 31 \<and> distinct (map fst [(''a'', Size 2)])
   \<and> valid_key ''a'' \<and> size_ok (Size 2)
   \<and> (\<exists>outputs activations.
         simple_model x23 [(''a'', Size 2)] False ''M'' 5 small_kwargs = Inr (outputs, activations)
         \<and> ''bottleneck_activations'' \<in> fst ` set activations
         \<and> map (\<lambda>(output_name, t). logits_input t) outputs
             = [Some (Add (MatMul small_base (Variable ''M/BottleneckLogits/weight'' [4, 5] HeNormal))
                          (Variable ''M/BottleneckLogits/bias'' [5] HeNormal))])
   \<and> (\<exists>outputs activations.
         simple_model x23 [(''a'', Size 2)] False ''M'' 0 small_kwargs = Inr (outputs, activations)
         \<and> ''bottleneck_activations'' \<notin> fst ` set activations
         \<and> map (\<lambda>(output_name, t). logits_input t) outputs = [Some small_base])"
proof -
  have d: "distinct (map fst [(''a'', Size 2)])" by simp
  have v: "\<forall>(k, sz) \<in> set [(''a'', Size 2)]. valid_key k \<and> size_ok sz"
    by (simp add: size_ok_2 valid_key_a)
  have n: "(5 :: int) < 2 ^ 31" "(0 :: int) < 2 ^ 31" by simp_all
  have l: "linear_graph small_base 5 0 HeNormal HeNormal ''M/BottleneckLogits''
           = Add (MatMul small_base (Variable ''M/BottleneckLogits/weight'' [4, 5] HeNormal))
                 (Variable ''M/BottleneckLogits/bias'' [5] HeNormal)"
    by (simp add: linear_graph_def clipped_weights_def small_base_def)
  have f: "input_ok x23 \<and> layers_ok small_kwargs False \<and> valid_name ''M''
           \<and> (5 :: int) < 2 ^ 31 \<and> (0 :: int) < 2 ^ 31 \<and> distinct (map fst [(''a'', Size 2)])
           \<and> valid_key ''a'' \<and> size_ok (Size 2)"
    using input_ok_x23 layers_ok_small_kwargs [of False] valid_name_examples(3) size_ok_2
      valid_key_a
    by simp
  have e1: "\<exists>outputs activations.
         simple_model x23 [(''a'', Size 2)] False ''M'' 5 small_kwargs = Inr (outputs, activations)
         \<and> ''bottleneck_activations'' \<in> fst ` set activations
         \<and> map (\<lambda>(output_name, t). logits_input t) outputs
             = [Some (Add (MatMul small_base (Variable ''M/BottleneckLogits/weight'' [4, 5] HeNormal))
                          (Variable ''M/BottleneckLogits/bias'' [5] HeNormal))]"
    using bottleneck_iff_positive
        [OF input_ok_x23 layers_ok_small_kwargs valid_name_examples(3) n(1) d v, of False]
    by (force simp add: base_graph_small' kwargs_get_def small_kwargs_fields l)
  have e2: "\<exists>outputs activations.
         simple_model x23 [(''a'', Size 2)] False ''M'' 0 small_kwargs = Inr (outputs, activations)
         \<and> ''bottleneck_activations'' \<notin> fst ` set activations
         \<and> map (\<lambda>(output_name, t). logits_input t) outputs = [Some small_base]"
    using bottleneck_iff_positive
        [OF input_ok_x23 layers_ok_small_kwargs valid_name_examples(3) n(2) d v, of False]
    by (force simp add: base_graph_small' kwargs_get_def small_kwargs_fields l)
  from f e1 e2 show ?thesis
    by (intro conjI) simp_all
qed

section \<open>Number formatting, ranges and dictionaries\<close>

lemma digit_char_inj:
  assumes "a < 10" "b < 10" "digit_char a = digit_char b"
  shows "a = b"
proof -
  have d: "distinct ''0123456789''" by simp
  have l: "length ''0123456789'' = 10" by simp
  from assms show ?thesis
    unfolding digit_char_def using nth_eq_iff_index_eq [OF d, of a b] l by simp
qed

lemma digits_nonempty [simp]: "digits n \<noteq> []"
  by (subst digits.simps) simp

lemma digits_small: "n < 10 \<Longrightarrow> digits n = [digit_char n]"
  by (subst digits.simps) simp

lemma digits_large: "\<not> n < 10 \<Longrightarrow> digits n = digits (n div 10) @ [digit_char (n mod 10)]"
  by (subst digits.simps) simp

lemma digits_inj: "digits a = digits b \<Longrightarrow> a = b"
proof (induction a arbitrary: b rule: digits.induct)
  case (1 a)
  show ?case
  proof (cases "a < 10")
    case True
    with "1.prems" have e: "digits b = [digit_char a]" by (simp add: digits_small)
    have "b < 10"
    proof (rule ccontr)
      assume "\<not> b < 10"
      with e show False by (simp add: digits_large)
    qed
    with e True show ?thesis by (simp add: digits_small digit_char_inj)
  next
    case False
    with "1.prems" have e: "digits b = digits (a div 10) @ [digit_char (a mod 10)]"
      by (simp add: digits_large)
    have nb: "\<not> b < 10"
    proof
      assume "b < 10"
      with e show False using digits_nonempty [of "a div 10"] by (auto simp add: digits_small)
    qed
    with e have "digits (a div 10) = digits (b div 10)"
      and c: "digit_char (a mod 10) = digit_char (b mod 10)"
      by (simp_all add: digits_large)
    with "1.IH" [OF False] have "a div 10 = b div 10" by simp
    moreover from c have "a mod 10 = b mod 10" by (simp add: digit_char_inj)
    ultimately show ?thesis by (metis div_mult_mod_eq)
  qed
qed

lemma digit_char_no_slash: "d < 10 \<Longrightarrow> digit_char d \<noteq> CHR ''/''"
proof -
  assume "d < 10"
  then have "d \<in> {0, 1, 2, 3, 4, 5, 6, 7, 8, 9}" by auto
  then show ?thesis by (auto simp add: digit_char_def)
qed

lemma digits_no_slash: "CHR ''/'' \<notin> set (digits n)"
proof (induction n rule: digits.induct)
  case (1 n)
  show ?case
  proof (cases "n < 10")
    case True
    then show ?thesis using digit_char_no_slash [of n] by (auto simp add: digits_small)
  next
    case False
    then show ?thesis
      using "1.IH" digit_char_no_slash [of "n mod 10"] by (auto simp add: digits_large)
  qed
qed

lemma split_at_first:
  "x \<notin> set xs \<Longrightarrow> x \<notin> set xs' \<Longrightarrow> xs @ x # ys = xs' @ x # ys'
     \<Longrightarrow> xs = xs' \<and> ys = ys'"
proof (induction xs arbitrary: xs')
  case Nil
  then show ?case by (cases xs') auto
next
  case (Cons a xs)
  then show ?case by (cases xs') auto
qed

lemma add_prefix_inj:
  assumes "add_prefix k c = add_prefix k' c'" and "0 \<le> c" and "0 \<le> c'"
  shows "k = k' \<and> c = c'"
proof -
  from assms have "digits (nat c) @ CHR ''/'' # k = digits (nat c') @ CHR ''/'' # k'"
    by (simp add: add_prefix_def str_int_def)
  then have "digits (nat c) = digits (nat c') \<and> k = k'"
    by (intro split_at_first [where x = "CHR ''/''"]) (simp_all add: digits_no_slash)
  with assms show ?thesis by (auto dest: digits_inj)
qed

lemma py_range_nonneg: "c \<in> set (py_range n) \<Longrightarrow> 0 \<le> c"
  by (auto simp add: py_range_def)

lemma distinct_py_range [simp]: "distinct (py_range n)"
  by (simp add: py_range_def distinct_map inj_on_def)

lemma length_py_range [simp]: "length (py_range n) = nat n"
  by (simp add: py_range_def)

lemma nth_py_range [simp]: "i < nat n \<Longrightarrow> py_range n ! i = int i"
  by (simp add: py_range_def)

lemma map_of_heads:
  "map_of (map (\<lambda>(k, v). (k, f k v)) al) k = map_option (f k) (map_of al k)"
  by (induction al) auto

lemma distinct_fold_update:
  "distinct (map fst acc) \<Longrightarrow> distinct (map fst (fold (\<lambda>c. AList.update (f c) (g c)) cs acc))"
  by (induction cs arbitrary: acc) (simp_all add: distinct_update)

lemma map_of_fold_update:
  "map_of (fold (\<lambda>c. AList.update (f c) v) cs acc) k
     = (if k \<in> f ` set cs then Some v else map_of acc k)"
  by (induction cs arbitrary: acc) (auto simp add: update_conv')

lemma distinct_point_output_sizes: "distinct (map fst (point_output_sizes cm n e))"
  by (simp add: point_output_sizes_def distinct_fold_update)

lemma map_of_point_output_sizes:
  "c \<in> set (py_range n) \<Longrightarrow>
   map_of (point_output_sizes cm n e) (add_prefix (KEY_EMBEDDING_MEANS cm) c) = Some (Size e)"
  by (simp add: point_output_sizes_def map_of_fold_update)

lemma sizes_point_output_sizes:
  assumes "(k, sz) \<in> set (point_output_sizes cm n e)"
  shows "sz = Size e"
proof -
  from assms distinct_point_output_sizes [of cm n e]
  have "map_of (point_output_sizes cm n e) k = Some sz"
    by simp
  then show ?thesis
    by (simp add: point_output_sizes_def map_of_fold_update split: if_splits)
qed

lemma size_ok_Size: "dim_ok e \<Longrightarrow> size_ok (Size e)"
  by (simp add: size_ok_def dim_ok_def output_size_list_def)

lemma lookup_Some: "map_of d k = Some v \<Longrightarrow> lookup d k = Inr v"
  by (simp add: lookup_def)

lemma list_comp_Inr:
  "(\<And>c. c \<in> set cs \<Longrightarrow> f c = Inr (g c)) \<Longrightarrow> list_comp f cs = Inr (map g cs)"
  by (induction cs) simp_all

section \<open>The point embedder\<close>

lemma call_simple_model_Inr:
  assumes "model_call_ok kwargs is_training x" and "distinct (map fst output_sizes)"
    and "\<forall>(k, sz) \<in> set output_sizes. size_ok sz"
  shows "call_simple_model x output_sizes is_training kwargs
         = Inr (map (\<lambda>(output_name, sz).
                       (output_name,
                        head_graph kwargs (embedder_net kwargs is_training x)
                          (kwargs_get (name_kw kwargs) ''SimpleModel'') output_name sz))
                  output_sizes,
                embedder_activations kwargs is_training x)"
proof -
  from assms(1) have "input_ok x" and "layers_ok kwargs is_training"
    and "kwargs_get (num_bottleneck_nodes_kw kwargs) 0 < 2 ^ 31"
    by (simp_all add: model_call_ok_def)
  then show ?thesis
    using assms(2,3)
    by (simp add: call_simple_model_def simple_model_Inr embedder_net_def
          embedder_activations_def)
qed

lemma model_call_ok_input: "model_call_ok kwargs is_training x \<Longrightarrow> input_ok x"
  by (simp add: model_call_ok_def)

lemma point_sizes_ok:
  "dim_ok e \<Longrightarrow> \<forall>(k, sz) \<in> set (point_output_sizes cm n e). size_ok sz"
  by (auto dest: sizes_point_output_sizes simp add: size_ok_Size)

lemma tf_stack_map_range:
  "1 \<le> n \<Longrightarrow> tf_stack (map f (py_range n)) axis = Inr (Stack (map f (py_range n)) axis)"
  by (cases "py_range n") (simp_all add: tf_stack_def py_range_def)

lemma simple_point_embedder_Inr:
  assumes "model_call_ok kwargs is_training x" and "1 \<le> n" and "dim_ok e"
  shows "simple_point_embedder cm x n e is_training kwargs
         = Inr ([(KEY_EMBEDDING_MEANS cm,
                  Stack (map (component_head kwargs is_training x e (KEY_EMBEDDING_MEANS cm))
                           (py_range n))
                        (- 2))],
                embedder_activations kwargs is_training x)"
proof -
  let ?co = "map (\<lambda>(output_name, sz).
                       (output_name,
                        head_graph kwargs (embedder_net kwargs is_training x)
                          (kwargs_get (name_kw kwargs) ''SimpleModel'') output_name sz))
                  (point_output_sizes cm n e)"
  have "list_comp (\<lambda>c. lookup ?co (add_prefix (KEY_EMBEDDING_MEANS cm) c)) (py_range n)
        = Inr (map (component_head kwargs is_training x e (KEY_EMBEDDING_MEANS cm)) (py_range n))"
    by (rule list_comp_Inr)
       (simp add: lookup_Some map_of_heads map_of_point_output_sizes component_head_def)
  then show ?thesis
    by (simp add: simple_point_embedder_def tf_stack_map_range [OF assms(2)]
          call_simple_model_Inr [OF assms(1) distinct_point_output_sizes
            point_sizes_ok [OF assms(3)]])
qed

lemma shape_of_embedder_net:
  "butlast (shape_of (embedder_net kwargs is_training x)) = butlast (shape_of x)"
  by (simp add: embedder_net_def butlast_shape_model_net)

lemma np_prod_single: "dim_ok e \<Longrightarrow> np_prod [e] = e"
  by (simp add: np_prod_small dim_ok_def)

lemma np_prod_2 [simp]: "np_prod [2] = 2"
  by (simp add: np_prod_def)

lemma shape_of_head_graph_Size:
  "dim_ok e \<Longrightarrow>
   shape_of (head_graph kwargs net name output_name (Size e)) = butlast (shape_of net) @ [e]"
  by (simp add: head_graph_def output_size_list_def shape_of_linear_graph np_prod_single)

lemma shape_of_component_head:
  "dim_ok e \<Longrightarrow>
   shape_of (component_head kwargs is_training x e key c) = butlast (shape_of x) @ [e]"
  by (simp add: component_head_def shape_of_head_graph_Size shape_of_embedder_net)

lemma shape_of_stack_components:
  assumes "shape_of x \<noteq> []" and "1 \<le> n" and "\<And>c. shape_of (f c) = butlast (shape_of x) @ [e]"
  shows "shape_of (Stack (map f (py_range n)) (- 2)) = butlast (shape_of x) @ [n, e]"
proof -
  from assms(2) have "py_range n = 0 # map int [1 ..< nat n]"
    by (simp add: py_range_def upt_conv_Cons)
  moreover have "length (py_range n) = nat n" by simp
  moreover from assms(1) have "length (shape_of x) - Suc 0 + 2 - 2 = length (butlast (shape_of x))"
    by simp
  ultimately show ?thesis
    using assms(2,3)
    by (simp add: insert_dim_def axis_pos_def del: length_py_range upt_Suc) 
qed

lemma py_range_2: "py_range 2 = [0, 1]"
  by code_simp

lemma add_prefix_0: "add_prefix key 0 = ''C0/'' @ key"
  by (simp add: add_prefix_def str_int_def digits_0)

lemma add_prefix_1: "add_prefix key 1 = ''C1/'' @ key"
  by (simp add: add_prefix_def str_int_def digits_Suc_0)

lemma m_kwargs_fields:
  "num_hidden_nodes (m_kwargs\<lparr>is_training_kw := t, num_embedding_samples_kw := n\<rparr>) = Some 4"
  "use_batch_norm (m_kwargs\<lparr>is_training_kw := t, num_embedding_samples_kw := n\<rparr>) = Some False"
  "num_fc_blocks (m_kwargs\<lparr>is_training_kw := t, num_embedding_samples_kw := n\<rparr>) = Some 0"
  "weight_initializer (m_kwargs\<lparr>is_training_kw := t, num_embedding_samples_kw := n\<rparr>) = None"
  "bias_initializer (m_kwargs\<lparr>is_training_kw := t, num_embedding_samples_kw := n\<rparr>) = None"
  "weight_max_norm (m_kwargs\<lparr>is_training_kw := t, num_embedding_samples_kw := n\<rparr>) = None"
  "dropout_rate (m_kwargs\<lparr>is_training_kw := t, num_embedding_samples_kw := n\<rparr>) = None"
  "num_fcs_per_block (m_kwargs\<lparr>is_training_kw := t, num_embedding_samples_kw := n\<rparr>) = None"
  "name_kw (m_kwargs\<lparr>is_training_kw := t, num_embedding_samples_kw := n\<rparr>) = Some ''M''"
  "num_bottleneck_nodes_kw (m_kwargs\<lparr>is_training_kw := t, num_embedding_samples_kw := n\<rparr>) = None"
  "is_training_kw (m_kwargs\<lparr>is_training_kw := t, num_embedding_samples_kw := n\<rparr>) = t"
  "num_embedding_samples_kw (m_kwargs\<lparr>is_training_kw := t, num_embedding_samples_kw := n\<rparr>) = n"
  "seed_kw (m_kwargs\<lparr>is_training_kw := t, num_embedding_samples_kw := n\<rparr>) = None"
  by (simp_all add: m_kwargs_def small_kwargs_def no_kwargs_def)

lemma m_kwargs_id: "m_kwargs\<lparr>is_training_kw := None, num_embedding_samples_kw := None\<rparr> = m_kwargs"
  by (simp add: m_kwargs_def small_kwargs_def no_kwargs_def)

lemma small_base_of:
  "shape_of x = [b, 3] \<Longrightarrow>
   base_graph (m_kwargs\<lparr>is_training_kw := t, num_embedding_samples_kw := n\<rparr>) tr ''M'' x
     = Relu (Add (MatMul x (Variable ''M/InputFC/Linear/weight'' [3, 4] HeNormal))
                 (Variable ''M/InputFC/Linear/bias'' [4] HeNormal))
            ''M/InputFC/Relu''"
  by (simp add: base_graph_def fc_layer_def dropout_opt_def batch_norm_opt_def linear_graph_def
        clipped_weights_def kwargs_get_def m_kwargs_fields)

lemma embedder_net_m:
  "embedder_net (m_kwargs\<lparr>is_training_kw := t, num_embedding_samples_kw := n\<rparr>) tr x23
     = small_base"
  by (simp add: embedder_net_def model_net_def kwargs_get_def m_kwargs_fields small_base_of
        small_base_def x23_def)

lemma embedder_activations_m:
  "embedder_activations (m_kwargs\<lparr>is_training_kw := t, num_embedding_samples_kw := n\<rparr>) tr x23
     = [(''base_activations'', small_base)]"
  by (simp add: embedder_activations_def model_activations_def kwargs_get_def m_kwargs_fields
        small_base_of small_base_def x23_def)

lemma component_head_m:
  "component_head (m_kwargs\<lparr>is_training_kw := t, num_embedding_samples_kw := n\<rparr>) tr x23 2
     ''means'' 0 = mean_head ''0'' small_base"
  "component_head (m_kwargs\<lparr>is_training_kw := t, num_embedding_samples_kw := n\<rparr>) tr x23 2
     ''means'' 1 = mean_head ''1'' small_base"
  by (simp_all add: component_head_def embedder_net_m head_graph_def output_size_list_def
        linear_graph_def clipped_weights_def kwargs_get_def m_kwargs_fields add_prefix_0
        add_prefix_1 mean_head_def small_base_def)

lemma model_call_ok_m:
  "model_call_ok (m_kwargs\<lparr>is_training_kw := t, num_embedding_samples_kw := n\<rparr>) tr x23"
  by (simp add: model_call_ok_def input_ok_x23 layers_ok_def dim_ok_def kwargs_get_def
        m_kwargs_fields valid_name_examples)

lemma model_call_ok_m_kwargs: "model_call_ok m_kwargs tr x23"
  using model_call_ok_m [of None None tr] by (simp add: m_kwargs_id)

lemma dim_ok_2: "dim_ok 2"
  by (simp add: dim_ok_def)

lemma valid_key_means: "valid_key ''means''"
  by (simp add: valid_key_def name_char_def)

lemma point_embedder_example:
  "simple_point_embedder example_common x23 2 2 tr m_kwargs
     = Inr ([(''means'', Stack [mean_head ''0'' small_base, mean_head ''1'' small_base] (- 2))],
            [(''base_activations'', small_base)])"
  using simple_point_embedder_Inr [OF model_call_ok_m [of None None tr] _ dim_ok_2,
          of 2 example_common]
  unfolding embedder_activations_m
  by (simp add: m_kwargs_id py_range_2 example_common_def
        component_head_m [where t = None and n = None, unfolded m_kwargs_id])

text \<open>
  C5. For \<^verbatim>\<open>num_embedding_components >= 1\<close>, on an input of rank two or more with a
  positive feature dimension, for a positive embedding size, a valid key and keyword
  arguments that \<^verbatim>\<open>simple_model\<close> accepts, the entry \<^verbatim>\<open>KEY_EMBEDDING_MEANS\<close> of the
  outputs of \<^verbatim>\<open>simple_point_embedder\<close> is the stack along axis \<open>-2\<close>, in component
  order, of the mean tensors \<^verbatim>\<open>simple_model\<close> produced under the keys \<^verbatim>\<open>'C0/...'\<close> to
  \<^verbatim>\<open>'C{n-1}/...'\<close>; its shape is the input's batch dimensions followed by the number
  of components and the embedding size.
\<close>

theorem point_embedder_stacks_component_means:
  assumes "model_call_ok kwargs is_training x" and "1 \<le> n" and "dim_ok e"
    and "valid_key (KEY_EMBEDDING_MEANS cm)"
  shows "\<exists>component_outputs activations means.
           call_simple_model x (point_output_sizes cm n e) is_training kwargs
             = Inr (component_outputs, activations)
         \<and> length means = nat n
         \<and> (\<forall>c < nat n.
               map_of component_outputs (add_prefix (KEY_EMBEDDING_MEANS cm) (int c))
                 = Some (means ! c)
               \<and> shape_of (means ! c) = butlast (shape_of x) @ [e])
         \<and> simple_point_embedder cm x n e is_training kwargs
             = Inr ([(KEY_EMBEDDING_MEANS cm, Stack means (- 2))], activations)
         \<and> shape_of (Stack means (- 2)) = butlast (shape_of x) @ [n, e]"
proof -
  let ?means = "map (component_head kwargs is_training x e (KEY_EMBEDDING_MEANS cm)) (py_range n)"
  have s: "shape_of x \<noteq> []"
    using assms(1) by (intro input_ok_nonempty model_call_ok_input)
  have "\<forall>c < nat n.
          map_of (map (\<lambda>(output_name, sz).
                       (output_name,
                        head_graph kwargs (embedder_net kwargs is_training x)
                          (kwargs_get (name_kw kwargs) ''SimpleModel'') output_name sz))
                  (point_output_sizes cm n e)) (add_prefix (KEY_EMBEDDING_MEANS cm) (int c))
            = Some (?means ! c)
          \<and> shape_of (?means ! c) = butlast (shape_of x) @ [e]"
    by (simp add: map_of_heads map_of_point_output_sizes py_range_def component_head_def
          shape_of_head_graph_Size [OF assms(3)] shape_of_embedder_net)
  moreover have "shape_of (Stack ?means (- 2)) = butlast (shape_of x) @ [n, e]"
    using s assms(2)
    by (rule shape_of_stack_components) (rule shape_of_component_head [OF assms(3)])
  moreover have "length ?means = nat n" by simp
  ultimately show ?thesis
    using call_simple_model_Inr [OF assms(1) distinct_point_output_sizes
            point_sizes_ok [OF assms(3)]]
      simple_point_embedder_Inr [OF assms(1-3)]
    by blast
qed

theorem point_embedder_stacks_component_means_witness:
  "model_call_ok m_kwargs False x23 \<and> (1::int) \<le> 2 \<and> dim_ok 2
   \<and> valid_key (KEY_EMBEDDING_MEANS example_common)
   \<and> simple_point_embedder example_common x23 2 2 False m_kwargs
       = Inr ([(''means'', Stack [mean_head ''0'' small_base, mean_head ''1'' small_base] (- 2))],
              [(''base_activations'', small_base)])
   \<and> shape_of (Stack [mean_head ''0'' small_base, mean_head ''1'' small_base] (- 2)) = [2, 2, 2]"
proof -
  have n: "(1::int) \<le> 2" by simp
  have k: "valid_key (KEY_EMBEDDING_MEANS example_common)"
    by (simp add: example_common_def valid_key_means)
  from point_embedder_stacks_component_means [OF model_call_ok_m_kwargs n dim_ok_2 k, of False]
  obtain activations means where
    r: "simple_point_embedder example_common x23 2 2 False m_kwargs
       = Inr ([(KEY_EMBEDDING_MEANS example_common, Stack means (- 2))], activations)"
    and sh: "shape_of (Stack means (- 2)) = butlast (shape_of x23) @ [2, 2]"
    by blast
  from r have "means = [mean_head ''0'' small_base, mean_head ''1'' small_base]"
    by (simp add: point_embedder_example)
  with sh have "shape_of (Stack [mean_head ''0'' small_base, mean_head ''1'' small_base] (- 2))
                = [2, 2, 2]"
    by (simp add: x23_def)
  then show ?thesis
    using model_call_ok_m_kwargs [of False] dim_ok_2 k point_embedder_example by simp
qed

section \<open>Random operations and determinism\<close>

lemma has_op_disj: "has_op (\<lambda>t. P t \<or> Q t) t = (has_op P t \<or> has_op Q t)"
  by (induction t) auto

lemma has_random_op: "has_op is_random_op t = (has_op is_dropout t \<or> has_op is_sampling t)"
  using has_op_disj [of is_dropout is_sampling t]
  by (simp add: is_random_op_def [abs_def])

lemma run_deterministic: "\<not> has_op is_random_op t \<Longrightarrow> run D R w t = run D R w' t"
proof (induction t)
  case (Stack ts axis)
  then have e: "map (run D R w) ts = map (run D R w') ts"
    by (intro map_cong) auto
  show ?case by (simp only: run.simps e)
qed (auto simp add: is_random_op_def is_dropout_def is_sampling_def)

lemma has_sampling_linear_graph [simp]:
  "has_op is_sampling (linear_graph x output_size max_norm w_init b_init name)
     = has_op is_sampling x"
  by (simp add: linear_graph_def clipped_weights_def is_sampling_def Let_def)

lemma has_sampling_fc_layer [simp]:
  "has_op is_sampling (fc_layer kwargs is_training name x) = has_op is_sampling x"
  by (simp add: fc_layer_def dropout_opt_def batch_norm_opt_def is_sampling_def
        split: option.splits)

lemma has_sampling_compose_fc [simp]:
  "has_op is_sampling (compose_layers (\<lambda>i. fc_layer kwargs is_training (f i)) k x)
     = has_op is_sampling x"
  by (induction k) simp_all

lemma has_sampling_residual_block [simp]:
  "has_op is_sampling (residual_block kwargs is_training name x) = has_op is_sampling x"
  by (simp add: residual_block_def is_sampling_def)

lemma has_sampling_compose_blocks [simp]:
  "has_op is_sampling (compose_layers (\<lambda>i. residual_block kwargs is_training (f i)) k x)
     = has_op is_sampling x"
  by (induction k) simp_all

lemma has_sampling_base_graph [simp]:
  "has_op is_sampling (base_graph kwargs is_training name x) = has_op is_sampling x"
  by (simp add: base_graph_def)

lemma has_sampling_head_graph [simp]:
  "has_op is_sampling (head_graph kwargs net name output_name sz) = has_op is_sampling net"
  by (simp add: head_graph_def is_sampling_def Let_def)

lemma has_dropout_head_graph [simp]:
  "has_op is_dropout (head_graph kwargs net name output_name sz) = has_op is_dropout net"
  by (simp add: head_graph_def is_dropout_def Let_def)

lemma has_sampling_model_net [simp]:
  "has_op is_sampling (model_net kwargs is_training name n x) = has_op is_sampling x"
  by (simp add: model_net_def bottleneck_graph_def)

lemma has_dropout_model_net:
  "has_op is_dropout (model_net kwargs is_training name n x)
     = (applies_dropout kwargs is_training \<or> has_op is_dropout x)"
  by (simp add: model_net_def bottleneck_graph_def has_dropout_base_graph)

lemma has_sampling_component_head [simp]:
  "has_op is_sampling (component_head kwargs is_training x e key c) = has_op is_sampling x"
  by (simp add: component_head_def embedder_net_def)

lemma has_dropout_component_head:
  "has_op is_dropout (component_head kwargs is_training x e key c)
     = (applies_dropout kwargs is_training \<or> has_op is_dropout x)"
  by (simp add: component_head_def embedder_net_def has_dropout_model_net)

lemma activations_sampling:
  "(k, t) \<in> set (embedder_activations kwargs is_training x) \<Longrightarrow>
   has_op is_sampling t = has_op is_sampling x"
  by (auto simp add: embedder_activations_def model_activations_def bottleneck_graph_def
        split: if_splits)

lemma activations_dropout:
  "(k, t) \<in> set (embedder_activations kwargs is_training x) \<Longrightarrow>
   has_op is_dropout t = (applies_dropout kwargs is_training \<or> has_op is_dropout x)"
  by (auto simp add: embedder_activations_def model_activations_def bottleneck_graph_def
        has_dropout_base_graph split: if_splits)

lemma dropout_kwargs_fields:
  "num_hidden_nodes dropout_kwargs = Some 4" "use_batch_norm dropout_kwargs = Some False"
  "num_fc_blocks dropout_kwargs = Some 0" "weight_initializer dropout_kwargs = None"
  "bias_initializer dropout_kwargs = None" "weight_max_norm dropout_kwargs = None"
  "dropout_rate dropout_kwargs = Some (1 / 2)" "num_fcs_per_block dropout_kwargs = None"
  "name_kw dropout_kwargs = Some ''M''" "num_bottleneck_nodes_kw dropout_kwargs = None"
  by (simp_all add: dropout_kwargs_def m_kwargs_def small_kwargs_def no_kwargs_def)

lemma py_range_1: "py_range 1 = [0]"
  by code_simp

lemma embedder_net_dropout: "embedder_net dropout_kwargs True x23 = dropout_base"
  by (simp add: embedder_net_def model_net_def base_graph_def fc_layer_def dropout_opt_def
        batch_norm_opt_def linear_graph_def clipped_weights_def kwargs_get_def
        dropout_kwargs_fields dropout_base_def x23_def)

lemma embedder_activations_dropout:
  "embedder_activations dropout_kwargs True x23 = [(''base_activations'', dropout_base)]"
  using embedder_net_dropout
  by (simp add: embedder_activations_def embedder_net_def model_activations_def model_net_def
        kwargs_get_def dropout_kwargs_fields)

lemma component_head_dropout:
  "component_head dropout_kwargs True x23 2 ''means'' 0 = mean_head ''0'' dropout_base"
  by (simp add: component_head_def embedder_net_dropout head_graph_def output_size_list_def
        linear_graph_def clipped_weights_def kwargs_get_def dropout_kwargs_fields add_prefix_0
        mean_head_def dropout_base_def)

lemma model_call_ok_dropout: "model_call_ok dropout_kwargs True x23"
  by (simp add: model_call_ok_def input_ok_x23 layers_ok_def dim_ok_def kwargs_get_def
        dropout_kwargs_fields valid_name_examples)

text \<open>
  C8, as the code has it. Take at least one component, an input of rank two or more
  with a positive feature dimension and no random operation, a positive embedding
  size, a valid key and keyword arguments that \<^verbatim>\<open>simple_model\<close> accepts. The graph of
  the point embedder never holds a Gaussian sampling operation. Unless
  \<^verbatim>\<open>is_training\<close> is true and \<^verbatim>\<open>dropout_rate > 0.0\<close>, it holds no random operation at
  all, and any two runs of an output or activation tensor on the same inputs and
  variable values agree. With \<^verbatim>\<open>is_training\<close> true and \<^verbatim>\<open>dropout_rate > 0.0\<close> every
  activation tensor goes through dropout.
\<close>

theorem point_embedder_deterministic_without_dropout:
  assumes "model_call_ok kwargs is_training x" and "1 \<le> n" and "dim_ok e"
    and "valid_key (KEY_EMBEDDING_MEANS cm)" and "\<not> has_op is_random_op x"
  shows "\<exists>outputs activations.
           simple_point_embedder cm x n e is_training kwargs = Inr (outputs, activations)
         \<and> (\<forall>(k, t) \<in> set (outputs @ activations). \<not> has_op is_sampling t)
         \<and> (\<not> (is_training \<and> kwargs_get (dropout_rate kwargs) 0 > 0) \<longrightarrow>
              (\<forall>(k, t) \<in> set (outputs @ activations).
                 \<not> has_op is_random_op t \<and> (\<forall>(D :: tensor \<Rightarrow> 'v list \<Rightarrow> 'v) (R :: 'w \<Rightarrow> tensor \<Rightarrow> 'v list \<Rightarrow> 'v) w w'. run D R w t = run D R w' t)))
         \<and> (is_training \<and> kwargs_get (dropout_rate kwargs) 0 > 0 \<longrightarrow>
              (\<forall>(k, t) \<in> set activations. has_op is_dropout t))"
proof -
  from assms(5) have xd: "\<not> has_op is_dropout x" and xs: "\<not> has_op is_sampling x"
    by (simp_all add: has_random_op)
  define out where
    "out = Stack (map (component_head kwargs is_training x e (KEY_EMBEDDING_MEANS cm))
                    (py_range n)) (- 2)"
  define acts where "acts = embedder_activations kwargs is_training x"
  define dropping where "dropping = (is_training \<and> kwargs_get (dropout_rate kwargs) 0 > 0)"
  have res: "simple_point_embedder cm x n e is_training kwargs
             = Inr ([(KEY_EMBEDDING_MEANS cm, out)], acts)"
    unfolding out_def acts_def by (rule simple_point_embedder_Inr [OF assms(1-3)])
  have s_out: "\<not> has_op is_sampling out"
    using xs by (simp add: out_def is_sampling_def)
  have s_act: "\<not> has_op is_sampling t" if "(k, t) \<in> set acts" for k t
    using xs activations_sampling that unfolding acts_def by blast
  have d_out: "\<not> has_op is_dropout out" if "\<not> dropping"
    using xd that
    by (simp add: out_def is_dropout_def has_dropout_component_head applies_dropout_def
          dropping_def)
  have d_act: "has_op is_dropout t = dropping" if "(k, t) \<in> set acts" for k t
    using xd activations_dropout that unfolding acts_def dropping_def applies_dropout_def
    by blast
  have r: "\<not> has_op is_random_op t" if "\<not> dropping" and "(k, t) \<in> set ((KEY_EMBEDDING_MEANS cm, out) # acts)"
    for k t
    using that s_out s_act d_out d_act by (auto simp only: has_random_op set_simps)
  have a: "\<forall>(k, t) \<in> set ([(KEY_EMBEDDING_MEANS cm, out)] @ acts). \<not> has_op is_sampling t"
    using s_out s_act by auto
  have b: "\<not> dropping \<longrightarrow>
           (\<forall>(k, t) \<in> set ([(KEY_EMBEDDING_MEANS cm, out)] @ acts).
              \<not> has_op is_random_op t \<and> (\<forall>(D :: tensor \<Rightarrow> 'v list \<Rightarrow> 'v) (R :: 'w \<Rightarrow> tensor \<Rightarrow> 'v list \<Rightarrow> 'v) w w'. run D R w t = run D R w' t))"
  proof (intro impI ballI)
    fix p assume nd: "\<not> dropping" and p: "p \<in> set ([(KEY_EMBEDDING_MEANS cm, out)] @ acts)"
    obtain k t where kt: "p = (k, t)" by (cases p)
    with p have "(k, t) \<in> set ((KEY_EMBEDDING_MEANS cm, out) # acts)" by simp
    from r [OF nd this] have nr: "\<not> has_op is_random_op t" .
    then have "\<forall>(D :: tensor \<Rightarrow> 'v list \<Rightarrow> 'v) (R :: 'w \<Rightarrow> tensor \<Rightarrow> 'v list \<Rightarrow> 'v) w w'.
                 run D R w t = run D R w' t"
      by (intro allI run_deterministic)
    with nr show "case p of (k, t) \<Rightarrow>
                    \<not> has_op is_random_op t \<and> (\<forall>(D :: tensor \<Rightarrow> 'v list \<Rightarrow> 'v) (R :: 'w \<Rightarrow> tensor \<Rightarrow> 'v list \<Rightarrow> 'v) w w'. run D R w t = run D R w' t)"
      by (simp add: kt)
  qed
  have c: "dropping \<longrightarrow> (\<forall>(k, t) \<in> set acts. has_op is_dropout t)"
    using d_act by auto
  from res a b c show ?thesis
    unfolding dropping_def by blast
qed

theorem point_embedder_deterministic_without_dropout_witness:
  "model_call_ok m_kwargs True x23 \<and> (1::int) \<le> 2 \<and> dim_ok 2
   \<and> valid_key (KEY_EMBEDDING_MEANS example_common) \<and> \<not> has_op is_random_op x23
   \<and> simple_point_embedder example_common x23 2 2 True m_kwargs
       = Inr ([(''means'', Stack [mean_head ''0'' small_base, mean_head ''1'' small_base] (- 2))],
              [(''base_activations'', small_base)])
   \<and> \<not> has_op is_random_op small_base
   \<and> run sum_ops draw 0 small_base = run sum_ops draw 1 small_base
   \<and> run sum_ops draw 0 (Stack [mean_head ''0'' small_base, mean_head ''1'' small_base] (- 2))
       = run sum_ops draw 1 (Stack [mean_head ''0'' small_base, mean_head ''1'' small_base] (- 2))"
proof -
  have r: "\<not> has_op is_random_op x23"
    by (simp add: x23_def is_random_op_def is_dropout_def is_sampling_def)
  have nd: "\<not> (True \<and> kwargs_get (dropout_rate m_kwargs) 0 > 0)"
    by (simp add: kwargs_get_def m_kwargs_def small_kwargs_def no_kwargs_def)
  have n: "(1::int) \<le> 2" by simp
  have k: "valid_key (KEY_EMBEDDING_MEANS example_common)"
    by (simp add: example_common_def valid_key_means)
  from point_embedder_deterministic_without_dropout
         [OF model_call_ok_m_kwargs n dim_ok_2 k r, of True]
  obtain outputs activations where
    res: "simple_point_embedder example_common x23 2 2 True m_kwargs = Inr (outputs, activations)"
    and det: "\<not> (True \<and> kwargs_get (dropout_rate m_kwargs) 0 > 0) \<longrightarrow>
              (\<forall>(k, t) \<in> set (outputs @ activations).
                 \<not> has_op is_random_op t
                 \<and> (\<forall>(D :: tensor \<Rightarrow> nat list \<Rightarrow> nat) (R :: nat \<Rightarrow> tensor \<Rightarrow> nat list \<Rightarrow> nat) w w'.
                      run D R w t = run D R w' t))"
    by blast
  from res have oa:
    "outputs = [(''means'', Stack [mean_head ''0'' small_base, mean_head ''1'' small_base] (- 2))]"
    "activations = [(''base_activations'', small_base)]"
    by (simp_all add: point_embedder_example)
  from det nd have
    "\<forall>(k, t) \<in> set (outputs @ activations).
                 \<not> has_op is_random_op t
                 \<and> (\<forall>(D :: tensor \<Rightarrow> nat list \<Rightarrow> nat) (R :: nat \<Rightarrow> tensor \<Rightarrow> nat list \<Rightarrow> nat) w w'.
                      run D R w t = run D R w' t)"
    by (rule mp)
  then have
    "\<not> has_op is_random_op small_base"
    "run sum_ops draw 0 small_base = run sum_ops draw 1 small_base"
    "run sum_ops draw 0 (Stack [mean_head ''0'' small_base, mean_head ''1'' small_base] (- 2))
       = run sum_ops draw 1 (Stack [mean_head ''0'' small_base, mean_head ''1'' small_base] (- 2))"
    unfolding oa by (simp_all del: has_op.simps run.simps)
  then show ?thesis
    using model_call_ok_m_kwargs [of True] dim_ok_2 k r point_embedder_example [of True]
    by (simp del: has_op.simps run.simps)
qed

text \<open>
  C8 as stated fails: in training with a positive dropout rate the point embedder's
  tensors go through dropout, and two runs that differ only in the random draw differ.
\<close>

theorem point_embedder_dropout_counterexample:
  "simple_point_embedder example_common x23 1 2 True dropout_kwargs
     = Inr ([(''means'', Stack [mean_head ''0'' dropout_base] (- 2))],
            [(''base_activations'', dropout_base)])
   \<and> has_op is_random_op dropout_base
   \<and> run sum_ops draw 0 dropout_base \<noteq> run sum_ops draw 1 dropout_base
   \<and> run sum_ops draw 0 (Stack [mean_head ''0'' dropout_base] (- 2))
       \<noteq> run sum_ops draw 1 (Stack [mean_head ''0'' dropout_base] (- 2))"
proof -
  have "simple_point_embedder example_common x23 1 2 True dropout_kwargs
     = Inr ([(''means'', Stack [mean_head ''0'' dropout_base] (- 2))],
            [(''base_activations'', dropout_base)])"
    by (simp add: simple_point_embedder_Inr [OF model_call_ok_dropout _ dim_ok_2]
          embedder_activations_dropout py_range_1 example_common_def component_head_dropout)
  moreover have "has_op is_random_op dropout_base"
    by (simp add: dropout_base_def is_random_op_def is_dropout_def)
  moreover have "run sum_ops draw 0 dropout_base \<noteq> run sum_ops draw 1 dropout_base"
    by (simp add: dropout_base_def draw_def)
  moreover have "run sum_ops draw 0 (Stack [mean_head ''0'' dropout_base] (- 2))
       \<noteq> run sum_ops draw 1 (Stack [mean_head ''0'' dropout_base] (- 2))"
    by (simp add: dropout_base_def mean_head_def draw_def sum_ops_def)
  ultimately show ?thesis by blast
qed

section \<open>The Gaussian embedder\<close>

lemma add_prefix_eq_iff:
  "0 \<le> c \<Longrightarrow> 0 \<le> c' \<Longrightarrow> add_prefix k c = add_prefix k' c' \<longleftrightarrow> k = k' \<and> c = c'"
  using add_prefix_inj by blast

lemma distinct_fold_update2:
  "distinct (map fst acc) \<Longrightarrow>
   distinct (map fst (fold (\<lambda>c d. AList.update (g c) v (AList.update (f c) v d)) cs acc))"
  by (induction cs arbitrary: acc) (simp_all add: distinct_update)

lemma map_of_fold_update2:
  "map_of (fold (\<lambda>c d. AList.update (g c) v (AList.update (f c) v d)) cs acc) k
     = (if k \<in> f ` set cs \<union> g ` set cs then Some v else map_of acc k)"
  by (induction cs arbitrary: acc) (auto simp add: update_conv')

lemma distinct_gaussian_output_sizes: "distinct (map fst (gaussian_output_sizes cm n e))"
  by (simp add: gaussian_output_sizes_def distinct_fold_update2)

lemma map_of_gaussian_output_sizes:
  assumes "c \<in> set (py_range n)"
  shows "map_of (gaussian_output_sizes cm n e) (add_prefix (KEY_EMBEDDING_MEANS cm) c) = Some (Size e)"
    and "map_of (gaussian_output_sizes cm n e) (add_prefix (KEY_EMBEDDING_STDDEVS cm) c) = Some (Size e)"
  using assms by (simp_all add: gaussian_output_sizes_def map_of_fold_update2)

lemma sizes_gaussian_output_sizes:
  assumes "(k, sz) \<in> set (gaussian_output_sizes cm n e)"
  shows "sz = Size e"
proof -
  from assms distinct_gaussian_output_sizes [of cm n e]
  have "map_of (gaussian_output_sizes cm n e) k = Some sz"
    by simp
  then show ?thesis
    by (simp add: gaussian_output_sizes_def map_of_fold_update2 split: if_splits)
qed

lemma gaussian_sizes_ok:
  "dim_ok e \<Longrightarrow> \<forall>(k, sz) \<in> set (gaussian_output_sizes cm n e). size_ok sz"
  by (auto dest: sizes_gaussian_output_sizes simp add: size_ok_Size)

lemma gaussian_component_step:
  assumes "keys_distinct cm" and "0 \<le> c"
    and "map_of co (add_prefix (KEY_EMBEDDING_MEANS cm) c) = Some m"
    and "map_of co (add_prefix (KEY_EMBEDDING_STDDEVS cm) c) = Some s"
  shows "\<exists>co'. gaussian_component cm ns seed c co = Inr co'
           \<and> map_of co' =
               (if ns > 0
                then (map_of co)
                       (add_prefix (KEY_EMBEDDING_STDDEVS cm) c \<mapsto> AddScalar (Elu s) 1,
                        add_prefix (KEY_EMBEDDING_SAMPLES cm) c
                          \<mapsto> SampleGaussians m (AddScalar (Elu s) 1) ns seed)
                else (map_of co)(add_prefix (KEY_EMBEDDING_STDDEVS cm) c \<mapsto> AddScalar (Elu s) 1))"
  using assms
  by (auto simp add: gaussian_component_def lookup_def update_conv' add_prefix_eq_iff
        keys_distinct_def Let_def)

lemma gaussian_loop:
  assumes k: "keys_distinct cm"
  shows "distinct cs \<Longrightarrow> \<forall>c \<in> set cs. 0 \<le> c \<Longrightarrow>
         \<forall>c \<in> set cs. map_of co (add_prefix (KEY_EMBEDDING_MEANS cm) c) = Some (M c)
                      \<and> map_of co (add_prefix (KEY_EMBEDDING_STDDEVS cm) c) = Some (S c) \<Longrightarrow>
         \<exists>co'. for_loop cs (gaussian_component cm ns seed) co = Inr co'
           \<and> (\<forall>c \<in> set cs.
                 map_of co' (add_prefix (KEY_EMBEDDING_MEANS cm) c) = Some (M c)
                 \<and> map_of co' (add_prefix (KEY_EMBEDDING_STDDEVS cm) c)
                     = Some (AddScalar (Elu (S c)) 1)
                 \<and> (ns > 0 \<longrightarrow>
                      map_of co' (add_prefix (KEY_EMBEDDING_SAMPLES cm) c)
                        = Some (SampleGaussians (M c) (AddScalar (Elu (S c)) 1) ns seed)))
           \<and> (\<forall>key. (\<forall>c \<in> set cs. key \<noteq> add_prefix (KEY_EMBEDDING_STDDEVS cm) c
                                  \<and> key \<noteq> add_prefix (KEY_EMBEDDING_SAMPLES cm) c)
                     \<longrightarrow> map_of co' key = map_of co key)"
proof (induction cs arbitrary: co)
  case Nil
  show ?case by simp
next
  case (Cons c cs)
  from Cons.prems have c0: "0 \<le> c" and cs0: "\<forall>c' \<in> set cs. 0 \<le> c'"
    and cn: "c \<notin> set cs" and d: "distinct cs"
    and m: "map_of co (add_prefix (KEY_EMBEDDING_MEANS cm) c) = Some (M c)"
    and s: "map_of co (add_prefix (KEY_EMBEDDING_STDDEVS cm) c) = Some (S c)"
    by simp_all
  from gaussian_component_step [OF k c0 m s, of ns seed]
  obtain co1 where
    step: "gaussian_component cm ns seed c co = Inr co1"
    and co1: "map_of co1 =
               (if ns > 0
                then (map_of co)
                       (add_prefix (KEY_EMBEDDING_STDDEVS cm) c \<mapsto> AddScalar (Elu (S c)) 1,
                        add_prefix (KEY_EMBEDDING_SAMPLES cm) c
                          \<mapsto> SampleGaussians (M c) (AddScalar (Elu (S c)) 1) ns seed)
                else (map_of co)(add_prefix (KEY_EMBEDDING_STDDEVS cm) c
                                   \<mapsto> AddScalar (Elu (S c)) 1))"
    by blast
  have pre: "\<forall>c' \<in> set cs. map_of co1 (add_prefix (KEY_EMBEDDING_MEANS cm) c') = Some (M c')
                      \<and> map_of co1 (add_prefix (KEY_EMBEDDING_STDDEVS cm) c') = Some (S c')"
    using Cons.prems(3) cn c0 cs0 k
    by (auto simp add: co1 add_prefix_eq_iff keys_distinct_def)
  from Cons.IH [OF d cs0 pre]
  obtain co' where
    loop: "for_loop cs (gaussian_component cm ns seed) co1 = Inr co'"
    and vals: "\<forall>c \<in> set cs.
                 map_of co' (add_prefix (KEY_EMBEDDING_MEANS cm) c) = Some (M c)
                 \<and> map_of co' (add_prefix (KEY_EMBEDDING_STDDEVS cm) c)
                     = Some (AddScalar (Elu (S c)) 1)
                 \<and> (ns > 0 \<longrightarrow>
                      map_of co' (add_prefix (KEY_EMBEDDING_SAMPLES cm) c)
                        = Some (SampleGaussians (M c) (AddScalar (Elu (S c)) 1) ns seed))"
    and frame: "\<forall>key. (\<forall>c \<in> set cs. key \<noteq> add_prefix (KEY_EMBEDDING_STDDEVS cm) c
                                  \<and> key \<noteq> add_prefix (KEY_EMBEDDING_SAMPLES cm) c)
                     \<longrightarrow> map_of co' key = map_of co1 key"
    by blast
  have ne: "\<forall>c' \<in> set cs. add_prefix k1 c \<noteq> add_prefix k2 c'" for k1 k2
    using cn c0 cs0 by (auto simp add: add_prefix_eq_iff)
  have fm: "map_of co' (add_prefix (KEY_EMBEDDING_MEANS cm) c)
            = map_of co1 (add_prefix (KEY_EMBEDDING_MEANS cm) c)"
    and fs: "map_of co' (add_prefix (KEY_EMBEDDING_STDDEVS cm) c)
            = map_of co1 (add_prefix (KEY_EMBEDDING_STDDEVS cm) c)"
    and fp: "map_of co' (add_prefix (KEY_EMBEDDING_SAMPLES cm) c)
            = map_of co1 (add_prefix (KEY_EMBEDDING_SAMPLES cm) c)"
    using frame ne by simp_all
  have here: "map_of co' (add_prefix (KEY_EMBEDDING_MEANS cm) c) = Some (M c)
              \<and> map_of co' (add_prefix (KEY_EMBEDDING_STDDEVS cm) c)
                  = Some (AddScalar (Elu (S c)) 1)
              \<and> (ns > 0 \<longrightarrow>
                   map_of co' (add_prefix (KEY_EMBEDDING_SAMPLES cm) c)
                     = Some (SampleGaussians (M c) (AddScalar (Elu (S c)) 1) ns seed))"
    unfolding fm fs fp using m c0 k
    by (auto simp add: co1 add_prefix_eq_iff keys_distinct_def)
  have frame': "\<forall>key. (\<forall>c' \<in> set (c # cs). key \<noteq> add_prefix (KEY_EMBEDDING_STDDEVS cm) c'
                                  \<and> key \<noteq> add_prefix (KEY_EMBEDDING_SAMPLES cm) c')
                     \<longrightarrow> map_of co' key = map_of co key"
    using frame by (auto simp add: co1)
  have "for_loop (c # cs) (gaussian_component cm ns seed) co = Inr co'"
    by (simp add: step loop)
  with here vals frame' show ?case by auto
qed

lemma simple_gaussian_embedder_Inr:
  assumes x: "model_call_ok kwargs is_training x" and n: "1 \<le> n" and e: "dim_ok e"
    and k: "keys_distinct cm"
  shows "simple_gaussian_embedder cm x n e ns is_training seed kwargs
         = Inr (gaussian_outputs cm kwargs is_training x n e ns seed,
                embedder_activations kwargs is_training x)"
proof -
  define co where
    "co = map (\<lambda>(output_name, sz).
                       (output_name,
                        head_graph kwargs (embedder_net kwargs is_training x)
                          (kwargs_get (name_kw kwargs) ''SimpleModel'') output_name sz))
                  (gaussian_output_sizes cm n e)"
  define M where "M = component_head kwargs is_training x e (KEY_EMBEDDING_MEANS cm)"
  define S where "S = component_head kwargs is_training x e (KEY_EMBEDDING_STDDEVS cm)"
  have model: "call_simple_model x (gaussian_output_sizes cm n e) is_training kwargs
               = Inr (co, embedder_activations kwargs is_training x)"
    unfolding co_def
    by (rule call_simple_model_Inr [OF x distinct_gaussian_output_sizes gaussian_sizes_ok [OF e]])
  have init: "\<forall>c \<in> set (py_range n).
                map_of co (add_prefix (KEY_EMBEDDING_MEANS cm) c) = Some (M c)
                \<and> map_of co (add_prefix (KEY_EMBEDDING_STDDEVS cm) c) = Some (S c)"
    by (simp add: co_def M_def S_def map_of_heads map_of_gaussian_output_sizes component_head_def)
  have nonneg: "\<forall>c \<in> set (py_range n). 0 \<le> c"
    by (simp add: py_range_nonneg)
  from gaussian_loop [OF k distinct_py_range nonneg init, of ns seed]
  obtain co' where
    loop: "for_loop (py_range n) (gaussian_component cm ns seed) co = Inr co'"
    and vals: "\<forall>c \<in> set (py_range n).
                 map_of co' (add_prefix (KEY_EMBEDDING_MEANS cm) c) = Some (M c)
                 \<and> map_of co' (add_prefix (KEY_EMBEDDING_STDDEVS cm) c)
                     = Some (AddScalar (Elu (S c)) 1)
                 \<and> (ns > 0 \<longrightarrow>
                      map_of co' (add_prefix (KEY_EMBEDDING_SAMPLES cm) c)
                        = Some (SampleGaussians (M c) (AddScalar (Elu (S c)) 1) ns seed))"
    by blast
  have means: "list_comp (\<lambda>c. lookup co' (add_prefix (KEY_EMBEDDING_MEANS cm) c)) (py_range n)
               = Inr (map M (py_range n))"
    by (rule list_comp_Inr) (simp add: vals lookup_Some)
  have stddevs: "list_comp (\<lambda>c. lookup co' (add_prefix (KEY_EMBEDDING_STDDEVS cm) c)) (py_range n)
               = Inr (map (component_stddev cm kwargs is_training x e) (py_range n))"
    by (rule list_comp_Inr) (simp add: vals lookup_Some component_stddev_def S_def)
  have samples: "ns > 0 \<Longrightarrow>
               list_comp (\<lambda>c. lookup co' (add_prefix (KEY_EMBEDDING_SAMPLES cm) c)) (py_range n)
               = Inr (map (component_sample cm kwargs is_training x e ns seed) (py_range n))"
    by (rule list_comp_Inr)
       (simp add: vals lookup_Some component_sample_def component_stddev_def S_def M_def)
  show ?thesis
    using k samples
    by (simp add: simple_gaussian_embedder_def model loop means stddevs gaussian_outputs_def
          keys_distinct_def M_def tf_stack_map_range [OF n])
qed

lemma shape_of_stack_range:
  assumes "1 \<le> n" and "\<And>c. shape_of (f c) = s"
  shows "shape_of (Stack (map f (py_range n)) axis)
         = insert_dim (axis_pos (length s + 1) axis) n s"
proof -
  from assms(1) have "py_range n = 0 # map int [1 ..< nat n]"
    by (simp add: py_range_def upt_conv_Cons)
  moreover have "length (py_range n) = nat n" by simp
  ultimately show ?thesis
    using assms by (simp del: length_py_range upt_Suc)
qed

lemma shape_of_component_stddev:
  "dim_ok e \<Longrightarrow>
   shape_of (component_stddev cm kwargs is_training x e c) = butlast (shape_of x) @ [e]"
  by (simp add: component_stddev_def shape_of_component_head)

lemma shape_of_component_sample:
  "dim_ok e \<Longrightarrow>
   shape_of (component_sample cm kwargs is_training x e ns seed c)
     = butlast (shape_of x) @ [ns, e]"
  by (simp add: component_sample_def shape_of_component_head sample_gaussians_shape_def)

lemma shape_of_stack_samples:
  assumes "shape_of x \<noteq> []" and "1 \<le> n" and "dim_ok e"
  shows "shape_of (Stack (map (component_sample cm kwargs is_training x e ns seed) (py_range n)) (- 3))
         = butlast (shape_of x) @ [n, ns, e]"
proof -
  from assms(1) have "length (shape_of x) - Suc 0 + 3 - 3 = length (butlast (shape_of x))"
    by simp
  then show ?thesis
    using assms(1)
    by (simp add: shape_of_stack_range [OF assms(2) shape_of_component_sample [OF assms(3)]]
          insert_dim_def axis_pos_def)
qed

lemma has_sampling_component_stddev [simp]:
  "has_op is_sampling (component_stddev cm kwargs is_training x e c) = has_op is_sampling x"
  by (simp add: component_stddev_def is_sampling_def)

lemma map_range_nth:
  "length xs = nat n \<Longrightarrow> map (\<lambda>c. g (xs ! c)) [0 ..< nat n] = map g xs"
  by (simp add: list_eq_iff_nth_eq)

lemma component_head_key_0:
  "component_head (m_kwargs\<lparr>is_training_kw := t, num_embedding_samples_kw := n\<rparr>) tr x23 2 key 0
     = key_head key ''0'' small_base"
  by (simp add: component_head_def embedder_net_m head_graph_def output_size_list_def
        linear_graph_def clipped_weights_def kwargs_get_def m_kwargs_fields add_prefix_0
        key_head_def small_base_def)

lemma keys_distinct_example: "keys_distinct example_common"
  by (simp add: keys_distinct_def example_common_def)

lemma gaussian_example:
  "simple_gaussian_embedder example_common x23 1 2 ns tr None m_kwargs
     = Inr ([(''means'', Stack [key_head ''means'' ''0'' small_base] (- 2)),
             (''stddevs'', Stack [AddScalar (Elu (key_head ''stddevs'' ''0'' small_base)) 1] (- 2))]
            @ (if ns > 0
               then [(''samples'',
                      Stack [SampleGaussians (key_head ''means'' ''0'' small_base)
                               (AddScalar (Elu (key_head ''stddevs'' ''0'' small_base)) 1) ns None]
                        (- 3))]
               else []),
            [(''base_activations'', small_base)])"
  using simple_gaussian_embedder_Inr [OF model_call_ok_m [of None None tr] _ dim_ok_2
          keys_distinct_example, where n = 1 and ns = ns and seed = None]
  unfolding embedder_activations_m gaussian_outputs_def component_stddev_def [abs_def]
    component_sample_def [abs_def] component_stddev_def
  by (simp add: m_kwargs_id py_range_1 example_common_def
        component_head_key_0 [where t = None and n = None, unfolded m_kwargs_id])

text \<open>
  C6, as the code has it. For at least one component, on an input of rank two or more
  with a positive feature dimension, for a positive embedding size, three different
  embedding keys, valid ones, and keyword arguments that \<^verbatim>\<open>simple_model\<close> accepts:
  \<^verbatim>\<open>simple_gaussian_embedder\<close> returns the entries \<^verbatim>\<open>KEY_EMBEDDING_MEANS\<close> and
  \<^verbatim>\<open>KEY_EMBEDDING_STDDEVS\<close>, each the stack along axis \<open>-2\<close> of the per-component
  tensors. Its outputs hold the key \<^verbatim>\<open>KEY_EMBEDDING_SAMPLES\<close> exactly when
  \<^verbatim>\<open>num_embedding_samples > 0\<close>; the samples are then the per-component Gaussian
  samples stacked along axis \<open>-3\<close>, of shape batch dimensions, components, samples,
  embedding size. For a non-positive \<^verbatim>\<open>num_embedding_samples\<close> no sampling operation
  is built at all.
\<close>

theorem gaussian_embedder_samples_iff_positive:
  assumes "model_call_ok kwargs is_training x" and "1 \<le> n" and "dim_ok e"
    and "keys_distinct cm"
    and "valid_key (KEY_EMBEDDING_MEANS cm) \<and> valid_key (KEY_EMBEDDING_STDDEVS cm)"
  shows "\<exists>outputs activations means stddevs.
           simple_gaussian_embedder cm x n e ns is_training seed kwargs = Inr (outputs, activations)
         \<and> means = map (component_head kwargs is_training x e (KEY_EMBEDDING_MEANS cm)) (py_range n)
         \<and> stddevs = map (\<lambda>c. AddScalar
                                  (Elu (component_head kwargs is_training x e
                                          (KEY_EMBEDDING_STDDEVS cm) c)) 1)
                        (py_range n)
         \<and> map_of outputs (KEY_EMBEDDING_MEANS cm) = Some (Stack means (- 2))
         \<and> map_of outputs (KEY_EMBEDDING_STDDEVS cm) = Some (Stack stddevs (- 2))
         \<and> (KEY_EMBEDDING_SAMPLES cm \<in> fst ` set outputs \<longleftrightarrow> ns > 0)
         \<and> (ns > 0 \<longrightarrow>
              map_of outputs (KEY_EMBEDDING_SAMPLES cm)
                = Some (Stack (map (\<lambda>c. SampleGaussians (means ! c) (stddevs ! c) ns seed)
                                 [0 ..< nat n])
                          (- 3)))
         \<and> (ns > 0 \<longrightarrow>
              shape_of (Stack (map (\<lambda>c. SampleGaussians (means ! c) (stddevs ! c) ns seed)
                                 [0 ..< nat n])
                          (- 3))
                = butlast (shape_of x) @ [n, ns, e])
         \<and> shape_of (Stack means (- 2)) = butlast (shape_of x) @ [n, e]
         \<and> shape_of (Stack stddevs (- 2)) = butlast (shape_of x) @ [n, e]
         \<and> (ns \<le> 0 \<and> \<not> has_op is_sampling x \<longrightarrow>
              (\<forall>(k, t) \<in> set (outputs @ activations). \<not> has_op is_sampling t))"
proof -
  define means where
    "means = map (component_head kwargs is_training x e (KEY_EMBEDDING_MEANS cm)) (py_range n)"
  define stddevs where
    "stddevs = map (component_stddev cm kwargs is_training x e) (py_range n)"
  define samples where
    "samples = map (component_sample cm kwargs is_training x e ns seed) (py_range n)"
  define outputs where "outputs = gaussian_outputs cm kwargs is_training x n e ns seed"
  define activations where "activations = embedder_activations kwargs is_training x"
  have res: "simple_gaussian_embedder cm x n e ns is_training seed kwargs
             = Inr (outputs, activations)"
    unfolding outputs_def activations_def
    by (rule simple_gaussian_embedder_Inr [OF assms(1-4)])
  have nonempty: "shape_of x \<noteq> []"
    using assms(1) by (intro input_ok_nonempty model_call_ok_input)
  have outs: "outputs = [(KEY_EMBEDDING_MEANS cm, Stack means (- 2)),
                         (KEY_EMBEDDING_STDDEVS cm, Stack stddevs (- 2))]
                        @ (if ns > 0 then [(KEY_EMBEDDING_SAMPLES cm, Stack samples (- 3))] else [])"
    by (simp add: outputs_def gaussian_outputs_def means_def stddevs_def samples_def)
  have sd: "stddevs = map (\<lambda>c. AddScalar
                                  (Elu (component_head kwargs is_training x e
                                          (KEY_EMBEDDING_STDDEVS cm) c)) 1)
                        (py_range n)"
    by (simp add: stddevs_def component_stddev_def [abs_def])
  have sm: "map (\<lambda>c. SampleGaussians (means ! c) (stddevs ! c) ns seed) [0 ..< nat n] = samples"
    by (simp add: list_eq_iff_nth_eq samples_def means_def stddevs_def component_sample_def
          component_stddev_def)
  have m: "map_of outputs (KEY_EMBEDDING_MEANS cm) = Some (Stack means (- 2))"
    and s: "map_of outputs (KEY_EMBEDDING_STDDEVS cm) = Some (Stack stddevs (- 2))"
    and p: "KEY_EMBEDDING_SAMPLES cm \<in> fst ` set outputs \<longleftrightarrow> ns > 0"
    and p': "ns > 0 \<longrightarrow> map_of outputs (KEY_EMBEDDING_SAMPLES cm) = Some (Stack samples (- 3))"
    using assms(4) by (auto simp add: outs keys_distinct_def)
  have sh_p: "shape_of (Stack samples (- 3)) = butlast (shape_of x) @ [n, ns, e]"
    unfolding samples_def by (rule shape_of_stack_samples [OF nonempty assms(2,3)])
  have sh_m: "shape_of (Stack means (- 2)) = butlast (shape_of x) @ [n, e]"
    unfolding means_def using nonempty assms(2)
    by (rule shape_of_stack_components) (rule shape_of_component_head [OF assms(3)])
  have sh_s: "shape_of (Stack stddevs (- 2)) = butlast (shape_of x) @ [n, e]"
    unfolding stddevs_def using nonempty assms(2)
    by (rule shape_of_stack_components) (rule shape_of_component_stddev [OF assms(3)])
  have ns_m: "\<not> has_op is_sampling x \<Longrightarrow> \<not> has_op is_sampling (Stack means (- 2))"
    and ns_s: "\<not> has_op is_sampling x \<Longrightarrow> \<not> has_op is_sampling (Stack stddevs (- 2))"
    by (simp_all add: means_def stddevs_def is_sampling_def)
  have ns_a: "\<not> has_op is_sampling x \<Longrightarrow> \<forall>(k, t) \<in> set activations. \<not> has_op is_sampling t"
    using activations_sampling unfolding activations_def by fastforce
  have nos: "ns \<le> 0 \<and> \<not> has_op is_sampling x \<longrightarrow>
              (\<forall>(k, t) \<in> set (outputs @ activations). \<not> has_op is_sampling t)"
  proof (intro impI ballI)
    fix q assume h: "ns \<le> 0 \<and> \<not> has_op is_sampling x" and q: "q \<in> set (outputs @ activations)"
    from h q have "q = (KEY_EMBEDDING_MEANS cm, Stack means (- 2))
                   \<or> q = (KEY_EMBEDDING_STDDEVS cm, Stack stddevs (- 2))
                   \<or> q \<in> set activations"
      by (auto simp add: outs)
    with h ns_m ns_s ns_a show "case q of (k, t) \<Rightarrow> \<not> has_op is_sampling t"
      by (elim disjE) (auto simp del: has_op.simps)
  qed
  show ?thesis
  proof (intro exI conjI)
    show "simple_gaussian_embedder cm x n e ns is_training seed kwargs
             = Inr (outputs, activations)" by (rule res)
    show "means = map (component_head kwargs is_training x e (KEY_EMBEDDING_MEANS cm)) (py_range n)"
      by (rule means_def)
    show "stddevs = map (\<lambda>c. AddScalar
                                  (Elu (component_head kwargs is_training x e
                                          (KEY_EMBEDDING_STDDEVS cm) c)) 1)
                        (py_range n)" by (rule sd)
    show "map_of outputs (KEY_EMBEDDING_MEANS cm) = Some (Stack means (- 2))" by (rule m)
    show "map_of outputs (KEY_EMBEDDING_STDDEVS cm) = Some (Stack stddevs (- 2))" by (rule s)
    show "KEY_EMBEDDING_SAMPLES cm \<in> fst ` set outputs \<longleftrightarrow> ns > 0" by (rule p)
    show "ns > 0 \<longrightarrow>
              map_of outputs (KEY_EMBEDDING_SAMPLES cm)
                = Some (Stack (map (\<lambda>c. SampleGaussians (means ! c) (stddevs ! c) ns seed)
                                 [0 ..< nat n])
                          (- 3))"
      unfolding sm by (rule p')
    show "ns > 0 \<longrightarrow>
              shape_of (Stack (map (\<lambda>c. SampleGaussians (means ! c) (stddevs ! c) ns seed)
                                 [0 ..< nat n])
                          (- 3))
                = butlast (shape_of x) @ [n, ns, e]"
      unfolding sm using sh_p by blast
    show "shape_of (Stack means (- 2)) = butlast (shape_of x) @ [n, e]" by (rule sh_m)
    show "shape_of (Stack stddevs (- 2)) = butlast (shape_of x) @ [n, e]" by (rule sh_s)
    show "ns \<le> 0 \<and> \<not> has_op is_sampling x \<longrightarrow>
              (\<forall>(k, t) \<in> set (outputs @ activations). \<not> has_op is_sampling t)"
      by (rule nos)
  qed
qed

lemma valid_key_stddevs: "valid_key ''stddevs''"
  by (simp add: valid_key_def name_char_def)

theorem gaussian_embedder_samples_iff_positive_witness:
  "model_call_ok m_kwargs False x23 \<and> (1::int) \<le> 1 \<and> dim_ok 2 \<and> keys_distinct example_common
   \<and> valid_key (KEY_EMBEDDING_MEANS example_common)
   \<and> valid_key (KEY_EMBEDDING_STDDEVS example_common)
   \<and> simple_gaussian_embedder example_common x23 1 2 3 False None m_kwargs
       = Inr ([(''means'', Stack [key_head ''means'' ''0'' small_base] (- 2)),
               (''stddevs'', Stack [AddScalar (Elu (key_head ''stddevs'' ''0'' small_base)) 1] (- 2)),
               (''samples'',
                Stack [SampleGaussians (key_head ''means'' ''0'' small_base)
                         (AddScalar (Elu (key_head ''stddevs'' ''0'' small_base)) 1) 3 None]
                  (- 3))],
              [(''base_activations'', small_base)])
   \<and> shape_of (Stack [SampleGaussians (key_head ''means'' ''0'' small_base)
                         (AddScalar (Elu (key_head ''stddevs'' ''0'' small_base)) 1) 3 None]
                  (- 3)) = [2, 1, 3, 2]
   \<and> simple_gaussian_embedder example_common x23 1 2 0 False None m_kwargs
       = Inr ([(''means'', Stack [key_head ''means'' ''0'' small_base] (- 2)),
               (''stddevs'', Stack [AddScalar (Elu (key_head ''stddevs'' ''0'' small_base)) 1] (- 2))],
              [(''base_activations'', small_base)])"
proof -
  have n: "(1::int) \<le> 1" by simp
  have v: "valid_key (KEY_EMBEDDING_MEANS example_common)
           \<and> valid_key (KEY_EMBEDDING_STDDEVS example_common)"
    by (simp add: example_common_def valid_key_means valid_key_stddevs)
  from gaussian_embedder_samples_iff_positive
         [OF model_call_ok_m_kwargs [of False] n dim_ok_2 keys_distinct_example v,
          where ns = 3 and seed = None]
  obtain means stddevs where
    ms: "means = map (component_head m_kwargs False x23 2 (KEY_EMBEDDING_MEANS example_common))
                   (py_range 1)"
    and ss: "stddevs = map (\<lambda>c. AddScalar
                                  (Elu (component_head m_kwargs False x23 2
                                          (KEY_EMBEDDING_STDDEVS example_common) c)) 1)
                        (py_range 1)"
    and sh: "(3::int) > 0 \<longrightarrow>
              shape_of (Stack (map (\<lambda>c. SampleGaussians (means ! c) (stddevs ! c) 3 None)
                                 [0 ..< nat 1])
                          (- 3))
                = butlast (shape_of x23) @ [1, 3, 2]"
    by blast
  have h: "component_head m_kwargs False x23 2 key 0 = key_head key ''0'' small_base" for key
    using component_head_key_0 [where t = None and n = None, unfolded m_kwargs_id] .
  have sx: "butlast (shape_of x23) = [2]"
    by (simp add: x23_def)
  from ms have m1: "means = [key_head ''means'' ''0'' small_base]"
    by (simp add: py_range_1 h example_common_def)
  from ss have s1: "stddevs = [AddScalar (Elu (key_head ''stddevs'' ''0'' small_base)) 1]"
    by (simp add: py_range_1 h example_common_def)
  from sh have "shape_of (Stack [SampleGaussians (key_head ''means'' ''0'' small_base)
                         (AddScalar (Elu (key_head ''stddevs'' ''0'' small_base)) 1) 3 None]
                  (- 3)) = [2, 1, 3, 2]"
    unfolding m1 s1 sx by (simp del: shape_of.simps)
  then show ?thesis
    using model_call_ok_m_kwargs [of False] dim_ok_2 v keys_distinct_example
      gaussian_example [of 3 False] gaussian_example [of 0 False]
    by (simp del: shape_of.simps)
qed

text \<open>
  C6 as stated fails: with no component the lists of means and of standard deviations
  are empty, \<^verbatim>\<open>tf.stack\<close> raises on the first of them and the embedder returns nothing,
  whatever the number of samples.
\<close>

theorem gaussian_embedder_no_component_counterexample:
  "simple_gaussian_embedder example_common x23 0 2 3 False None m_kwargs = Inl IndexError
   \<and> simple_gaussian_embedder example_common x23 0 2 0 False None m_kwargs = Inl IndexError"
proof -
  have z: "\<forall>(k, sz) \<in> set []. size_ok sz" by simp
  have d: "distinct (map fst ([] :: output_size dict))" by simp
  have "simple_gaussian_embedder example_common x23 0 2 ns False None m_kwargs = Inl IndexError"
    for ns
    by (simp add: simple_gaussian_embedder_def gaussian_output_sizes_def tf_stack_def
          call_simple_model_Inr [OF model_call_ok_m_kwargs d z])
  then show ?thesis by simp
qed

section \<open>The errors of \<^verbatim>\<open>embed\<close>\<close>









section \<open>\<^verbatim>\<open>embed\<close> on inputs with an instance dimension\<close>

lemma list_comp_Inl:
  "list_comp f xs = Inl e \<Longrightarrow> \<exists>i < length xs. f (xs ! i) = Inl e"
proof (induction xs)
  case Nil
  then show ?case by simp
next
  case (Cons x xs)
  show ?case
  proof (cases "f x")
    case (Inl e')
    with Cons.prems have "f ((x # xs) ! 0) = Inl e" by simp
    then show ?thesis by blast
  next
    case (Inr y)
    with Cons.prems have "list_comp f xs = Inl e"
      by (cases "list_comp f xs") simp_all
    from Cons.IH [OF this] obtain i where "i < length xs" "f (xs ! i) = Inl e" by blast
    then have "Suc i < length (x # xs) \<and> f ((x # xs) ! Suc i) = Inl e" by simp
    then show ?thesis by blast
  qed
qed

lemma list_comp_Inr_nth:
  "list_comp f xs = Inr ys \<Longrightarrow>
   length ys = length xs \<and> (\<forall>i < length xs. f (xs ! i) = Inr (ys ! i))"
proof (induction xs arbitrary: ys)
  case Nil
  then show ?case by simp
next
  case (Cons x xs)
  from Cons.prems obtain y ys' where y: "f x = Inr y" and r: "list_comp f xs = Inr ys'"
    and ys: "ys = y # ys'"
    by (auto simp add: bind_eq_Inr_iff)
  from Cons.IH [OF r] have "length ys' = length xs" "\<forall>i < length xs. f (xs ! i) = Inr (ys' ! i)"
    by simp_all
  with y ys show ?case by (auto simp add: nth_Cons split: nat.splits)
qed

lemma lookup_present:
  "key \<in> set (map fst d) \<Longrightarrow> lookup d key = Inr (the (map_of d key))"
  by (cases "map_of d key") (auto simp add: lookup_def map_of_eq_None_iff)

lemma stack_loop:
  assumes "\<forall>d \<in> set ds. set keys \<subseteq> set (map fst d)" and "ds \<noteq> []"
  shows "distinct keys \<Longrightarrow> set keys \<inter> fst ` set acc = {} \<Longrightarrow>
         for_loop keys
           (\<lambda>key result.
              bind (list_comp (\<lambda>sub. lookup sub key) ds)
                (\<lambda>ts. bind (tf_stack ts 1)
                         (\<lambda>stacked. Inr (AList.update key stacked result))))
           acc
         = Inr (acc @ map (\<lambda>key. (key, Stack (map (\<lambda>d. the (map_of d key)) ds) 1)) keys)"
  using assms(1)
proof (induction keys arbitrary: acc)
  case Nil
  show ?case by simp
next
  case (Cons key keys)
  have "list_comp (\<lambda>sub. lookup sub key) ds = Inr (map (\<lambda>d. the (map_of d key)) ds)"
    using Cons.prems(3) by (intro list_comp_Inr lookup_present) auto
  moreover have "tf_stack (map (\<lambda>d. the (map_of d key)) ds) 1
                 = Inr (Stack (map (\<lambda>d. the (map_of d key)) ds) 1)"
    using assms(2) by (cases ds) (simp_all add: tf_stack_def)
  moreover from Cons.prems have "key \<notin> fst ` set acc" by auto
  moreover have "for_loop keys
           (\<lambda>key result.
              bind (list_comp (\<lambda>sub. lookup sub key) ds)
                (\<lambda>ts. bind (tf_stack ts 1)
                         (\<lambda>stacked. Inr (AList.update key stacked result))))
           (acc @ [(key, Stack (map (\<lambda>d. the (map_of d key)) ds) 1)])
         = Inr ((acc @ [(key, Stack (map (\<lambda>d. the (map_of d key)) ds) 1)])
                @ map (\<lambda>key. (key, Stack (map (\<lambda>d. the (map_of d key)) ds) 1)) keys)"
    using Cons.prems by (intro Cons.IH) auto
  ultimately show ?case by (simp add: update_absent)
qed

lemma stack_by_key_Inr:
  assumes "distinct (map fst d0)" and "\<forall>d \<in> set (d0 # ds). map fst d = map fst d0"
  shows "stack_by_key (map fst d0) (d0 # ds) = Inr (stack_dicts (d0 # ds))"
proof -
  have "\<forall>d \<in> set (d0 # ds). set (map fst d0) \<subseteq> set (map fst d)"
    using assms(2) by (metis order_refl)
  from stack_loop [OF this _ assms(1), of "[]"] show ?thesis
    by (simp add: stack_by_key_def stack_dicts_def)
qed

lemma distinct_activation_keys: "distinct (activation_keys kwargs)"
  by (simp add: activation_keys_def)

lemma distinct_gaussian_keys: "distinct (gaussian_keys cm ns)"
  by (simp add: gaussian_keys_def Let_def distinct_update)

lemma distinct_embedder_output_keys: "distinct (embedder_output_keys cm fn kwargs)"
  by (simp add: embedder_output_keys_def distinct_gaussian_keys split: embedder_fn.splits)

lemma bind_InrE:
  assumes "bind m f = Inr y"
  obtains x where "m = Inr x" and "f x = Inr y"
  using assms by (cases m) simp_all

lemma simple_model_keys:
  assumes "simple_model x os tr name nb kwargs = Inr (outputs, acts)"
  shows "map fst acts = (if nb > 0 then [''base_activations'', ''bottleneck_activations'']
                         else [''base_activations''])"
proof -
  from assms obtain net p where
    p: "(if nb > 0
         then bind (linear_layer net nb
                      (kwargs_get (weight_max_norm kwargs) 0)
                      (kwargs_get (weight_initializer kwargs) HeNormal)
                      (kwargs_get (bias_initializer kwargs) HeNormal)
                      (name @ ''/BottleneckLogits''))
                (\<lambda>net'. Inr (net', AList.update ''bottleneck_activations'' net'
                                      [(''base_activations'', net)]))
         else Inr (net, [(''base_activations'', net)])) = Inr p"
    and q: "(case p of (net, activations) \<Rightarrow>
               bind (for_loop os
                       (\<lambda>(output_name, sz) outputs.
                          bind (output_head kwargs net name output_name sz)
                            (\<lambda>out. Inr (AList.update output_name out outputs)))
                       [])
                 (\<lambda>outputs. Inr (outputs, activations))) = Inr (outputs, acts)"
    unfolding simple_model_def Let_def by (elim bind_InrE)
  obtain net' a' where pa: "p = (net', a')" by (cases p)
  from q have a: "acts = a'"
    unfolding pa prod.case by (elim bind_InrE) simp
  show ?thesis
  proof (cases "nb > 0")
    case True
    with p obtain n2 where "a' = AList.update ''bottleneck_activations'' n2
                                      [(''base_activations'', net)]"
      unfolding pa by (simp only: if_True) (elim bind_InrE, auto)
    with True a show ?thesis by simp
  next
    case False
    with p have "a' = [(''base_activations'', net)]"
      unfolding pa by auto
    with False a show ?thesis by simp
  qed
qed

lemma call_simple_model_keys:
  "call_simple_model x os tr kwargs = Inr (co, acts) \<Longrightarrow> map fst acts = activation_keys kwargs"
  by (simp add: call_simple_model_def activation_keys_def simple_model_keys)

lemma point_result_keys:
  assumes "simple_point_embedder cm x n e tr kwargs = Inr (outputs, acts)"
  shows "map fst outputs = [KEY_EMBEDDING_MEANS cm] \<and> map fst acts = activation_keys kwargs"
proof -
  from assms obtain p where
    m: "call_simple_model x (point_output_sizes cm n e) tr kwargs = Inr p"
    and r: "(case p of (component_outputs, activations) \<Rightarrow>
           bind (list_comp (\<lambda>c. lookup component_outputs (add_prefix (KEY_EMBEDDING_MEANS cm) c))
                   (py_range n))
             (\<lambda>means.
                bind (tf_stack means (- 2))
                  (\<lambda>stacked. Inr ([(KEY_EMBEDDING_MEANS cm, stacked)], activations))))
          = Inr (outputs, acts)"
    unfolding simple_point_embedder_def Let_def by (elim bind_InrE)
  obtain co a where p: "p = (co, a)" by (cases p)
  from r obtain stacked where "outputs = [(KEY_EMBEDDING_MEANS cm, stacked)]" and "acts = a"
    unfolding p prod.case by (elim bind_InrE) auto
  with call_simple_model_keys [OF m [unfolded p]] show ?thesis by simp
qed

lemma gaussian_result:
  assumes "simple_gaussian_embedder cm x n e ns tr seed kwargs = Inr (outputs, acts)"
  shows "map fst outputs = gaussian_keys cm ns \<and> map fst acts = activation_keys kwargs"
proof -
  from assms obtain p where
    m: "call_simple_model x (gaussian_output_sizes cm n e) tr kwargs = Inr p"
    and r: "(case p of (component_outputs, activations) \<Rightarrow>
           bind (for_loop (py_range n) (gaussian_component cm ns seed) component_outputs)
             (\<lambda>component_outputs.
                bind (list_comp (\<lambda>c. lookup component_outputs (add_prefix (KEY_EMBEDDING_MEANS cm) c))
                        (py_range n))
                  (\<lambda>means.
                     bind (tf_stack means (- 2))
                       (\<lambda>stacked_means.
                          bind (list_comp
                                  (\<lambda>c. lookup component_outputs
                                          (add_prefix (KEY_EMBEDDING_STDDEVS cm) c))
                                  (py_range n))
                            (\<lambda>stddevs.
                               bind (tf_stack stddevs (- 2))
                                 (\<lambda>stacked_stddevs.
                                    if ns > 0
                                    then bind (list_comp
                                                 (\<lambda>c. lookup component_outputs
                                                         (add_prefix (KEY_EMBEDDING_SAMPLES cm) c))
                                                 (py_range n))
                                           (\<lambda>samples.
                                              bind (tf_stack samples (- 3))
                                                (\<lambda>stacked_samples.
                                                   Inr (AList.update (KEY_EMBEDDING_SAMPLES cm)
                                                          stacked_samples
                                                          (AList.update (KEY_EMBEDDING_STDDEVS cm)
                                                             stacked_stddevs
                                                             [(KEY_EMBEDDING_MEANS cm, stacked_means)]),
                                                        activations)))
                                    else Inr (AList.update (KEY_EMBEDDING_STDDEVS cm)
                                                stacked_stddevs
                                                [(KEY_EMBEDDING_MEANS cm, stacked_means)],
                                              activations)))))))
          = Inr (outputs, acts)"
    unfolding simple_gaussian_embedder_def Let_def by (elim bind_InrE)
  obtain co a where p: "p = (co, a)" by (cases p)
  from r obtain co' sm ss where
    fin: "(if ns > 0
           then bind (list_comp (\<lambda>c. lookup co' (add_prefix (KEY_EMBEDDING_SAMPLES cm) c))
                        (py_range n))
                  (\<lambda>samples.
                     bind (tf_stack samples (- 3))
                       (\<lambda>stacked_samples.
                          Inr (AList.update (KEY_EMBEDDING_SAMPLES cm) stacked_samples
                                 (AList.update (KEY_EMBEDDING_STDDEVS cm) ss
                                    [(KEY_EMBEDDING_MEANS cm, sm)]),
                               a)))
           else Inr (AList.update (KEY_EMBEDDING_STDDEVS cm) ss [(KEY_EMBEDDING_MEANS cm, sm)], a))
          = Inr (outputs, acts)"
    unfolding p prod.case by (elim bind_InrE)
  have k: "map fst a = activation_keys kwargs"
    using call_simple_model_keys [OF m [unfolded p]] .
  show ?thesis
  proof (cases "ns > 0")
    case True
    with fin obtain sp where
      "outputs = AList.update (KEY_EMBEDDING_SAMPLES cm) sp
                   (AList.update (KEY_EMBEDDING_STDDEVS cm) ss [(KEY_EMBEDDING_MEANS cm, sm)])"
      and "acts = a"
      by (simp only: if_True) (elim bind_InrE, auto)
    with True k show ?thesis
      by (simp add: gaussian_keys_def update_keys)
  next
    case False
    with fin have "outputs = AList.update (KEY_EMBEDDING_STDDEVS cm) ss
                               [(KEY_EMBEDDING_MEANS cm, sm)]"
      and "acts = a"
      by (simp_all add: Let_def)
    with False k show ?thesis
      by (simp add: gaussian_keys_def update_keys)
  qed
qed

lemma call_embedder_keys:
  assumes "call_embedder cm fn x kwargs = Inr (outputs, activations)"
  shows "map fst outputs = embedder_output_keys cm fn kwargs
         \<and> map fst activations = activation_keys kwargs"
proof (cases fn)
  case (PointEmbedder n e)
  with assms obtain tr where
    "simple_point_embedder cm x n e tr kwargs = Inr (outputs, activations)"
    by (auto simp add: call_embedder_def split: option.splits)
  from point_result_keys [OF this] PointEmbedder show ?thesis
    by (simp add: embedder_output_keys_def)
next
  case (GaussianEmbedder n e)
  with assms obtain ns tr where
    ns: "num_embedding_samples_kw kwargs = Some ns"
    and "simple_gaussian_embedder cm x n e ns tr (seed_kw kwargs) kwargs
           = Inr (outputs, activations)"
    by (auto simp add: call_embedder_def split: option.splits)
  from gaussian_result [OF this(2)] ns GaussianEmbedder show ?thesis
    by (simp add: embedder_output_keys_def kwargs_get_def)
qed

lemma shape_of_slice:
  "shape_of x = [b, n, d] \<Longrightarrow> shape_of (Unstack x 1 i) = [b, d]"
  by (simp add: axis_pos_def)

lemma tf_unstack_rank3:
  "shape_of x = [b, n, d] \<Longrightarrow> tf_unstack x 1 = map (Unstack x 1) [0 ..< nat n]"
  by (simp add: tf_unstack_def axis_pos_def)

lemma embed_slice:
  "shape_of x = [b, n, d] \<Longrightarrow>
   embed cm (Unstack x 1 i) ty nc es kwargs
     = bind (create_embedder cm ty nc es) (\<lambda>fn. call_embedder cm fn (Unstack x 1 i) kwargs)"
  by (simp add: embed_def axis_pos_def Let_def)

lemma embed_rank3:
  "shape_of x = [b, n, d] \<Longrightarrow>
   embed cm x ty nc es kwargs
     = bind (create_embedder cm ty nc es)
         (\<lambda>fn. bind (list_comp (\<lambda>sub_features. call_embedder cm fn sub_features kwargs)
                        (map (Unstack x 1) [0 ..< nat n]))
                  (\<lambda>subs. case subs of
                             [] \<Rightarrow> Inl IndexError
                           | (sub_outputs0, sub_activations0) # _ \<Rightarrow>
                               bind (stack_by_key (map fst sub_outputs0) (map fst subs))
                                 (\<lambda>outputs.
                                    bind (stack_by_key (map fst sub_activations0) (map snd subs))
                                      (\<lambda>activations. Inr (outputs, activations)))))"
  by (simp add: embed_def tf_unstack_rank3 Let_def)

lemma kw_inference_eq:
  "kw_inference = m_kwargs\<lparr>is_training_kw := Some False, num_embedding_samples_kw := None\<rparr>"
  by (simp add: kw_inference_def m_kwargs_def small_kwargs_def no_kwargs_def)

lemma point_embedder_on_slice:
  assumes "shape_of s = [b, 3]" and "0 \<le> b"
  shows "simple_point_embedder example_common s 1 2 False kw_inference = Inr (point_result s)"
proof -
  have ok: "model_call_ok kw_inference False s"
    using assms
    by (simp add: model_call_ok_def input_ok_def layers_ok_def dim_ok_def kwargs_get_def
          kw_inference_eq m_kwargs_fields valid_name_examples)
  have base: "base_graph kw_inference False ''M'' s = small_base_on s"
    unfolding kw_inference_eq by (simp add: small_base_of [OF assms(1)] small_base_on_def)
  have net: "embedder_net kw_inference False s = small_base_on s"
    using base
    by (simp add: embedder_net_def model_net_def kwargs_get_def kw_inference_eq m_kwargs_fields)
  have acts: "embedder_activations kw_inference False s = [(''base_activations'', small_base_on s)]"
    using base
    by (simp add: embedder_activations_def model_activations_def kwargs_get_def kw_inference_eq
          m_kwargs_fields)
  have head: "component_head kw_inference False s 2 ''means'' 0
              = key_head ''means'' ''0'' (small_base_on s)"
    unfolding component_head_def net
    by (simp add: head_graph_def output_size_list_def linear_graph_def clipped_weights_def
          kwargs_get_def kw_inference_eq m_kwargs_fields add_prefix_0 key_head_def
          small_base_on_def)
  show ?thesis
    by (simp add: simple_point_embedder_Inr [OF ok _ dim_ok_2] acts py_range_1
          example_common_def head point_result_def)
qed

lemma embed_on_slice:
  assumes "shape_of s = [b, 3]" and "0 \<le> b"
  shows "embed example_common s ''POINT'' 1 2 kw_inference = Inr (point_result s)"
proof -
  have "is_training_kw kw_inference = Some False"
    by (simp add: kw_inference_def)
  then show ?thesis
    using point_embedder_on_slice [OF assms]
    by (simp add: embed_def assms(1) create_embedder_def example_common_def call_embedder_def)
qed

text \<open>
  C2, as the code has it. For a rank-3 input of shape batch size, number of instances,
  feature dimension, with at least one instance: if the embedder raises on an instance
  slice \<^verbatim>\<open>input_features[:, i, :]\<close>, \<^verbatim>\<open>embed\<close> raises that error; otherwise all
  per-instance dictionaries have the same keys, and \<^verbatim>\<open>embed\<close> returns, for each
  output key and each activation key, the stack along axis 1 of the per-instance tensors,
  in instance order. On an instance slice \<^verbatim>\<open>embed\<close> is the rank-2 embedder.
\<close>

theorem embed_rank3_maps_over_instances:
  assumes "shape_of x = [b, n, d]" and "1 \<le> n"
  shows "(\<exists>err i. i < nat n \<and> embed cm (Unstack x 1 i) ty nc es kwargs = Inl err
                 \<and> embed cm x ty nc es kwargs = Inl err)
       \<or> (\<exists>subs. length subs = nat n
             \<and> (\<forall>i < nat n. embed cm (Unstack x 1 i) ty nc es kwargs = Inr (subs ! i))
             \<and> (\<forall>s \<in> set subs. map fst (fst s) = map fst (fst (hd subs))
                              \<and> map fst (snd s) = map fst (snd (hd subs)))
             \<and> embed cm x ty nc es kwargs
                 = Inr (stack_dicts (map fst subs), stack_dicts (map snd subs)))"
proof (cases "create_embedder cm ty nc es")
  case (Inl err)
  from assms(2) have "0 < nat n" by simp
  moreover have "embed cm (Unstack x 1 0) ty nc es kwargs = Inl err"
    by (simp add: embed_slice [OF assms(1)] Inl)
  moreover have "embed cm x ty nc es kwargs = Inl err"
    by (simp add: embed_rank3 [OF assms(1)] Inl)
  ultimately show ?thesis by blast
next
  case (Inr fn)
  have slice: "embed cm (Unstack x 1 i) ty nc es kwargs = call_embedder cm fn (Unstack x 1 i) kwargs"
    for i by (simp add: embed_slice [OF assms(1)] Inr)
  show ?thesis
  proof (cases "list_comp (\<lambda>sub_features. call_embedder cm fn sub_features kwargs)
                  (map (Unstack x 1) [0 ..< nat n])")
    case (Inl err)
    from list_comp_Inl [OF this] obtain i where "i < nat n"
      and "call_embedder cm fn (Unstack x 1 i) kwargs = Inl err"
      by auto
    moreover have "embed cm x ty nc es kwargs = Inl err"
      by (simp add: embed_rank3 [OF assms(1)] \<open>create_embedder cm ty nc es = Inr fn\<close> Inl)
    ultimately show ?thesis using slice by auto
  next
    case (Inr subs)
    from list_comp_Inr_nth [OF this]
    have len: "length subs = nat n"
      and each: "\<forall>i < nat n. call_embedder cm fn (Unstack x 1 i) kwargs = Inr (subs ! i)"
      by auto
    have keys: "map fst (fst s) = embedder_output_keys cm fn kwargs
                \<and> map fst (snd s) = activation_keys kwargs" if "s \<in> set subs" for s
    proof -
      from that len obtain i where i: "i < nat n" and s: "s = subs ! i"
        by (auto simp add: in_set_conv_nth)
      from each i s have "call_embedder cm fn (Unstack x 1 i) kwargs = Inr (fst s, snd s)"
        by simp
      then show ?thesis by (rule call_embedder_keys)
    qed
    from len assms(2) obtain s0 rest where subs: "subs = s0 # rest"
      by (cases subs) auto
    obtain o0 a0 where s0: "s0 = (o0, a0)" by (cases s0)
    have ko: "map fst o0 = embedder_output_keys cm fn kwargs"
      and ka: "map fst a0 = activation_keys kwargs"
      using keys [of s0] by (simp_all add: subs s0)
    have so: "stack_by_key (map fst o0) (o0 # map fst rest) = Inr (stack_dicts (o0 # map fst rest))"
      using keys by (intro stack_by_key_Inr) (auto simp add: ko distinct_embedder_output_keys subs)
    have sa: "stack_by_key (map fst a0) (a0 # map snd rest) = Inr (stack_dicts (a0 # map snd rest))"
      using keys by (intro stack_by_key_Inr) (auto simp add: ka distinct_activation_keys subs)
    have res: "embed cm x ty nc es kwargs
               = Inr (stack_dicts (map fst subs), stack_dicts (map snd subs))"
      by (simp add: embed_rank3 [OF assms(1)] \<open>create_embedder cm ty nc es = Inr fn\<close> Inr
            subs s0 so sa)
    have same: "\<forall>s \<in> set subs. map fst (fst s) = map fst (fst (hd subs))
                              \<and> map fst (snd s) = map fst (snd (hd subs))"
      using keys by (simp add: subs s0 ko ka)
    from len each same res slice show ?thesis by auto
  qed
qed

theorem embed_rank3_maps_over_instances_witness:
  "shape_of x223 = [2, 2, 3] \<and> (1::int) \<le> 2
   \<and> embed example_common (Unstack x223 1 0) ''POINT'' 1 2 kw_inference
       = Inr (point_result (Unstack x223 1 0))
   \<and> embed example_common (Unstack x223 1 1) ''POINT'' 1 2 kw_inference
       = Inr (point_result (Unstack x223 1 1))
   \<and> embed example_common x223 ''POINT'' 1 2 kw_inference
       = Inr ([(''means'',
                Stack [Stack [key_head ''means'' ''0'' (small_base_on (Unstack x223 1 0))] (- 2),
                       Stack [key_head ''means'' ''0'' (small_base_on (Unstack x223 1 1))] (- 2)]
                  1)],
              [(''base_activations'',
                Stack [small_base_on (Unstack x223 1 0), small_base_on (Unstack x223 1 1)] 1)])"
proof -
  have sh: "shape_of x223 = [2, 2, 3]" by (simp add: x223_def)
  have n: "(1::int) \<le> 2" by simp
  have s0: "embed example_common (Unstack x223 1 0) ''POINT'' 1 2 kw_inference
       = Inr (point_result (Unstack x223 1 0))"
    by (rule embed_on_slice [where b = 2]) (simp_all add: x223_def axis_pos_def)
  have s1: "embed example_common (Unstack x223 1 1) ''POINT'' 1 2 kw_inference
       = Inr (point_result (Unstack x223 1 1))"
    by (rule embed_on_slice [where b = 2]) (simp_all add: x223_def axis_pos_def)
  have two: "i < nat 2 \<Longrightarrow> i = 0 \<or> i = 1" for i by auto
  from embed_rank3_maps_over_instances [OF sh n, of example_common "''POINT''" 1 2 kw_inference]
  have "\<exists>subs. length subs = nat 2
             \<and> (\<forall>i < nat 2. embed example_common (Unstack x223 1 i) ''POINT'' 1 2 kw_inference
                              = Inr (subs ! i))
             \<and> embed example_common x223 ''POINT'' 1 2 kw_inference
                 = Inr (stack_dicts (map fst subs), stack_dicts (map snd subs))"
  proof (elim disjE exE conjE)
    fix err i
    assume "i < nat 2"
      and "embed example_common (Unstack x223 1 i) ''POINT'' 1 2 kw_inference = Inl err"
    with two [of i] s0 s1 show ?thesis by auto
  next
    fix subs
    assume "length subs = nat 2"
      and "\<forall>i < nat 2. embed example_common (Unstack x223 1 i) ''POINT'' 1 2 kw_inference
                              = Inr (subs ! i)"
      and "embed example_common x223 ''POINT'' 1 2 kw_inference
                 = Inr (stack_dicts (map fst subs), stack_dicts (map snd subs))"
    then show ?thesis by blast
  qed
  then obtain subs where len: "length subs = nat 2"
    and each: "\<forall>i < nat 2. embed example_common (Unstack x223 1 i) ''POINT'' 1 2 kw_inference
                              = Inr (subs ! i)"
    and res: "embed example_common x223 ''POINT'' 1 2 kw_inference
                 = Inr (stack_dicts (map fst subs), stack_dicts (map snd subs))"
    by blast
  from each s0 s1 have e0: "subs ! 0 = point_result (Unstack x223 1 0)"
    and e1: "subs ! 1 = point_result (Unstack x223 1 1)"
    by simp_all
  from len obtain a b where ab: "subs = [a, b]"
    by (cases subs; cases "tl subs") auto
  with e0 e1 have subs: "subs = [point_result (Unstack x223 1 0), point_result (Unstack x223 1 1)]"
    by simp
  have "embed example_common x223 ''POINT'' 1 2 kw_inference
       = Inr ([(''means'',
                Stack [Stack [key_head ''means'' ''0'' (small_base_on (Unstack x223 1 0))] (- 2),
                       Stack [key_head ''means'' ''0'' (small_base_on (Unstack x223 1 1))] (- 2)]
                  1)],
              [(''base_activations'',
                Stack [small_base_on (Unstack x223 1 0), small_base_on (Unstack x223 1 1)] 1)])"
    unfolding res subs by (simp add: stack_dicts_def point_result_def)
  with sh n s0 s1 show ?thesis by (intro conjI)
qed

text \<open>
  C2 as stated fails on an input with no instance: \<^verbatim>\<open>tf.unstack\<close> gives the empty
  list, and \<^verbatim>\<open>sub_output_list[0]\<close> raises \<^verbatim>\<open>IndexError\<close>.
\<close>

theorem embed_no_instances_counterexample:
  "shape_of x203 = [2, 0, 3]
   \<and> embed example_common x203 ''POINT'' 1 2 kw_inference = Inl IndexError"
  by (simp add: embed_def x203_def tf_unstack_def axis_pos_def create_embedder_def
        example_common_def)

section \<open>The values of the standard deviations\<close>

lemma rhe_ge_floor: "\<lfloor>x\<rfloor> \<le> round_half_even x"
  by (simp add: round_half_even_def Let_def)

lemma rhe_le_ceil: "round_half_even x \<le> \<lfloor>x\<rfloor> + 1"
  by (simp add: round_half_even_def Let_def)

lemma rhe_int: "x = of_int n \<Longrightarrow> round_half_even x = n"
  by (simp add: round_half_even_def)

lemma rhe_ge: "of_int n \<le> x \<Longrightarrow> n \<le> round_half_even x"
  using rhe_ge_floor [of x] le_floor_iff [of n x] by linarith

lemma rhe_le: "x \<le> of_int n \<Longrightarrow> round_half_even x \<le> n"
proof (cases "x = of_int n")
  case True
  then show ?thesis by (simp add: rhe_int)
next
  case False
  assume "x \<le> of_int n"
  with False have "x < of_int n" by simp
  then have "\<lfloor>x\<rfloor> < n" by (simp add: floor_less_iff)
  with rhe_le_ceil [of x] show ?thesis by linarith
qed

lemma rhe_below_half:
  assumes "of_int n \<le> x" and "x < of_int n + 1 / 2"
  shows "round_half_even x = n"
proof -
  from assms have "\<lfloor>x\<rfloor> = n" by (intro floor_unique) simp_all
  with assms show ?thesis by (simp add: round_half_even_def)
qed

lemma float32_round_0 [simp]: "float32_round 0 = 0"
  by (simp add: float32_round_def)

lemma float32_round_in_binade:
  assumes "x \<noteq> 0" and "2 powr (of_int e) \<le> \<bar>x\<bar>" and "\<bar>x\<bar> < 2 powr (of_int (e + 1))"
  shows "float32_round x
         = 2 powr (of_int e - 23) * of_int (round_half_even (x / 2 powr (of_int e - 23)))"
proof -
  from assms have "\<lfloor>log 2 \<bar>x\<bar>\<rfloor> = e"
    by (subst floor_log_eq_powr_iff) simp_all
  with assms(1) show ?thesis
    by (simp add: float32_round_def Let_def)
qed

lemma binade:
  assumes "x \<noteq> 0"
  shows "2 powr (of_int \<lfloor>log 2 \<bar>x\<bar>\<rfloor>) \<le> \<bar>x\<bar>"
    and "\<bar>x\<bar> < 2 powr (of_int (\<lfloor>log 2 \<bar>x\<bar>\<rfloor> + 1))"
proof -
  from assms have "0 < \<bar>x\<bar>" by simp
  from floor_log_eq_powr_iff [OF this, of 2 "\<lfloor>log 2 \<bar>x\<bar>\<rfloor>"]
  show "2 powr (of_int \<lfloor>log 2 \<bar>x\<bar>\<rfloor>) \<le> \<bar>x\<bar>"
    and "\<bar>x\<bar> < 2 powr (of_int (\<lfloor>log 2 \<bar>x\<bar>\<rfloor> + 1))"
    by simp_all
qed

lemma ulp_scale:
  "(2::real) powr (of_int e) = 2 powr (of_int e - 23) * 2 ^ 23"
  "(2::real) powr (of_int (e + 1)) = 2 powr (of_int e - 23) * 2 ^ 24"
proof -
  have "(2::real) powr (of_int e) = 2 powr ((of_int e - 23) + 23)" by simp
  also have "\<dots> = 2 powr (of_int e - 23) * 2 powr 23" by (rule powr_add)
  also have "(2::real) powr 23 = 2 ^ 23" by (simp add: powr_numeral)
  finally show "(2::real) powr (of_int e) = 2 powr (of_int e - 23) * 2 ^ 23" .
  have "(2::real) powr (of_int (e + 1)) = 2 powr ((of_int e - 23) + 24)"
    by (simp add: add.commute)
  also have "\<dots> = 2 powr (of_int e - 23) * 2 powr 24" by (rule powr_add)
  also have "(2::real) powr 24 = 2 ^ 24" by (simp add: powr_numeral)
  finally show "(2::real) powr (of_int (e + 1)) = 2 powr (of_int e - 23) * 2 ^ 24" .
qed

lemma float32_round_pos_bounds:
  assumes "0 < x" and "2 powr (of_int e) \<le> x" and "x < 2 powr (of_int (e + 1))"
  shows "2 powr (of_int e) \<le> float32_round x"
    and "float32_round x \<le> 2 powr (of_int (e + 1))"
proof -
  define u :: real where "u = 2 powr (of_int e - 23)"
  have u: "0 < u" by (simp add: u_def)
  from assms have fr: "float32_round x = u * of_int (round_half_even (x / u))"
    unfolding u_def by (intro float32_round_in_binade) simp_all
  have a: "2 powr (of_int e) = u * 2 ^ 23" and b: "2 powr (of_int (e + 1)) = u * 2 ^ 24"
    unfolding u_def by (rule ulp_scale)+
  from assms(2) have "u * 2 ^ 23 \<le> x" unfolding a .
  with u have "2 ^ 23 \<le> x / u"
    by (simp add: pos_le_divide_eq mult.commute)
  then have "of_int (2 ^ 23) \<le> x / u" by simp
  then have "2 ^ 23 \<le> round_half_even (x / u)" by (rule rhe_ge)
  then have "(of_int (2 ^ 23) :: real) \<le> of_int (round_half_even (x / u))"
    by (simp only: of_int_le_iff)
  then have "(2 ^ 23 :: real) \<le> of_int (round_half_even (x / u))" by simp
  with u have "u * 2 ^ 23 \<le> u * of_int (round_half_even (x / u))"
    by (intro mult_left_mono) simp_all
  then show "2 powr (of_int e) \<le> float32_round x"
    unfolding fr a .
  from assms(3) have "x < u * 2 ^ 24" unfolding b .
  with u have "x / u < 2 ^ 24"
    by (simp add: pos_divide_less_eq mult.commute)
  then have "x / u \<le> of_int (2 ^ 24)" by simp
  then have "round_half_even (x / u) \<le> 2 ^ 24" by (rule rhe_le)
  then have "(of_int (round_half_even (x / u)) :: real) \<le> of_int (2 ^ 24)"
    by (simp only: of_int_le_iff)
  then have "(of_int (round_half_even (x / u)) :: real) \<le> 2 ^ 24" by simp
  with u have "u * of_int (round_half_even (x / u)) \<le> u * 2 ^ 24"
    by (intro mult_left_mono) simp_all
  then show "float32_round x \<le> 2 powr (of_int (e + 1))"
    unfolding fr b .
qed

lemma float32_round_neg_bounds:
  assumes "x < 0" and "2 powr (of_int e) \<le> - x" and "- x < 2 powr (of_int (e + 1))"
  shows "- (2 powr (of_int (e + 1))) \<le> float32_round x"
proof -
  define u :: real where "u = 2 powr (of_int e - 23)"
  have u: "0 < u" by (simp add: u_def)
  from assms have fr: "float32_round x = u * of_int (round_half_even (x / u))"
    unfolding u_def by (intro float32_round_in_binade) simp_all
  have b: "2 powr (of_int (e + 1)) = u * 2 ^ 24"
    unfolding u_def by (rule ulp_scale)
  from assms(3) have "- x < u * 2 ^ 24" unfolding b .
  with u have "- (2 ^ 24) < x / u"
    by (simp add: pos_less_divide_eq mult.commute)
  then have "of_int (- (2 ^ 24)) \<le> x / u" by simp
  then have "- (2 ^ 24) \<le> round_half_even (x / u)" by (rule rhe_ge)
  then have "(of_int (- (2 ^ 24)) :: real) \<le> of_int (round_half_even (x / u))"
    by (simp only: of_int_le_iff)
  then have "(- (2 ^ 24) :: real) \<le> of_int (round_half_even (x / u))" by simp
  with u have "u * (- (2 ^ 24)) \<le> u * of_int (round_half_even (x / u))"
    by (intro mult_left_mono) simp_all
  then have "- (u * 2 ^ 24) \<le> u * of_int (round_half_even (x / u))" by simp
  then show ?thesis
    unfolding fr b .
qed

lemma float32_round_nonneg: "0 \<le> x \<Longrightarrow> 0 \<le> float32_round x"
proof (cases "x = 0")
  case False
  assume "0 \<le> x"
  with False have p: "0 < x" by simp
  then have ax: "\<bar>x\<bar> = x" by simp
  from binade [of x] False
  have "2 powr (of_int \<lfloor>log 2 x\<rfloor>) \<le> x" and "x < 2 powr (of_int (\<lfloor>log 2 x\<rfloor> + 1))"
    unfolding ax by blast+
  from float32_round_pos_bounds(1) [OF p this]
  have "2 powr (of_int \<lfloor>log 2 x\<rfloor>) \<le> float32_round x" .
  moreover have "(0::real) \<le> 2 powr (of_int \<lfloor>log 2 x\<rfloor>)" by simp
  ultimately show ?thesis by linarith
qed simp

lemma float32_round_ge_1: "1 \<le> x \<Longrightarrow> 1 \<le> float32_round x"
proof -
  assume x: "1 \<le> x"
  then have p: "0 < x" and nz: "x \<noteq> 0" by simp_all
  then have ax: "\<bar>x\<bar> = x" by simp
  from binade [OF nz]
  have b: "2 powr (of_int \<lfloor>log 2 x\<rfloor>) \<le> x" "x < 2 powr (of_int (\<lfloor>log 2 x\<rfloor> + 1))"
    unfolding ax by blast+
  from x have "0 \<le> log 2 x" by simp
  then have "0 \<le> \<lfloor>log 2 x\<rfloor>" by simp
  then have "(2::real) powr 0 \<le> 2 powr (of_int \<lfloor>log 2 x\<rfloor>)"
    by (intro powr_mono) simp_all
  then have "(1::real) \<le> 2 powr (of_int \<lfloor>log 2 x\<rfloor>)" by simp
  with float32_round_pos_bounds(1) [OF p b] show ?thesis by linarith
qed

lemma float32_round_le_1:
  assumes "0 \<le> x" and "x < 1"
  shows "float32_round x \<le> 1"
proof (cases "x = 0")
  case False
  with assms have p: "0 < x" by simp
  then have ax: "\<bar>x\<bar> = x" by simp
  from binade [OF False]
  have b: "2 powr (of_int \<lfloor>log 2 x\<rfloor>) \<le> x" "x < 2 powr (of_int (\<lfloor>log 2 x\<rfloor> + 1))"
    unfolding ax by blast+
  from assms p have "log 2 x < 0" by simp
  then have "\<lfloor>log 2 x\<rfloor> < 0" by (simp add: floor_less_iff)
  then have "\<lfloor>log 2 x\<rfloor> + 1 \<le> 0" by linarith
  then have "(of_int (\<lfloor>log 2 x\<rfloor> + 1) :: real) \<le> of_int 0" by (simp only: of_int_le_iff)
  then have "(of_int (\<lfloor>log 2 x\<rfloor> + 1) :: real) \<le> 0" by (simp only: of_int_0)
  then have "(2::real) powr (of_int (\<lfloor>log 2 x\<rfloor> + 1)) \<le> 2 powr 0"
    by (rule powr_mono) simp
  then have "(2::real) powr (of_int (\<lfloor>log 2 x\<rfloor> + 1)) \<le> 1" by simp
  with float32_round_pos_bounds(2) [OF p b] show ?thesis by linarith
qed simp

lemma float32_round_minus_1 [simp]: "float32_round (- 1) = - 1"
proof -
  have u: "(2::real) powr (of_int 0 - 23) = 1 / 2 ^ 23"
    by (simp add: powr_minus_divide)
  have "float32_round (- 1)
        = 2 powr (of_int 0 - 23) * of_int (round_half_even (- 1 / 2 powr (of_int 0 - 23)))"
    by (rule float32_round_in_binade) simp_all
  moreover have "round_half_even (- 1 / 2 powr (of_int 0 - 23)) = - (2 ^ 23)"
    unfolding u by (rule rhe_int) simp
  ultimately have "float32_round (- 1) = 1 / 2 ^ 23 * of_int (- (2 ^ 23))"
    unfolding u by simp
  then show ?thesis by simp
qed

lemma float32_round_ge_minus_1:
  assumes "- 1 \<le> x" and "x \<le> 0"
  shows "- 1 \<le> float32_round x"
proof -
  consider "x = 0" | "x = - 1" | "- 1 < x" "x < 0" using assms by linarith
  then show ?thesis
  proof cases
    case 3
    then have n: "x < 0" and nz: "x \<noteq> 0" by simp_all
    then have ax: "\<bar>x\<bar> = - x" by simp
    from binade [OF nz]
    have b: "2 powr (of_int \<lfloor>log 2 (- x)\<rfloor>) \<le> - x"
      "- x < 2 powr (of_int (\<lfloor>log 2 (- x)\<rfloor> + 1))"
      unfolding ax by blast+
    from 3 have "log 2 (- x) < 0" by simp
    then have "\<lfloor>log 2 (- x)\<rfloor> < 0" by (simp add: floor_less_iff)
    then have "\<lfloor>log 2 (- x)\<rfloor> + 1 \<le> 0" by linarith
    then have "(of_int (\<lfloor>log 2 (- x)\<rfloor> + 1) :: real) \<le> of_int 0"
      by (simp only: of_int_le_iff)
    then have "(of_int (\<lfloor>log 2 (- x)\<rfloor> + 1) :: real) \<le> 0" by (simp only: of_int_0)
    then have "(2::real) powr (of_int (\<lfloor>log 2 (- x)\<rfloor> + 1)) \<le> 2 powr 0"
      by (rule powr_mono) simp
    then have "(2::real) powr (of_int (\<lfloor>log 2 (- x)\<rfloor> + 1)) \<le> 1" by simp
    with float32_round_neg_bounds [OF n b] show ?thesis by linarith
  qed simp_all
qed

lemma float32_round_near_minus_1:
  assumes "0 < t" and "t \<le> 2 powr (- 26)"
  shows "float32_round (t - 1) = - 1"
proof -
  have s: "(2::real) powr (- 26) = 1 / 2 ^ 26"
    by (simp add: powr_minus_divide)
  from assms have t: "t \<le> 1 / 2 ^ 26" by (simp add: s)
  then have t1: "t < 1 / 2" by simp
  have u: "(2::real) powr (of_int (- 1) - 23) = 1 / 2 ^ 24"
    by (simp add: powr_minus_divide)
  have "float32_round (t - 1)
        = 2 powr (of_int (- 1) - 23)
            * of_int (round_half_even ((t - 1) / 2 powr (of_int (- 1) - 23)))"
  proof (rule float32_round_in_binade)
    show "t - 1 \<noteq> 0" using t1 by simp
    show "2 powr (of_int (- 1)) \<le> \<bar>t - 1\<bar>"
      using t1 assms(1) by (simp add: powr_minus_divide)
    show "\<bar>t - 1\<bar> < 2 powr (of_int (- 1 + 1))"
      using t1 assms(1) by simp
  qed
  moreover have "round_half_even ((t - 1) / 2 powr (of_int (- 1) - 23)) = - (2 ^ 24)"
    unfolding u
  proof (rule rhe_below_half)
    have e: "(t - 1) / (1 / 2 ^ 24) = t * 2 ^ 24 - 2 ^ 24"
      by (simp add: field_simps)
    from assms(1) show "of_int (- (2 ^ 24)) \<le> (t - 1) / (1 / 2 ^ 24)"
      unfolding e by simp
    from t have "t * 2 ^ 24 \<le> 1 / 4" by (simp add: field_simps)
    then show "(t - 1) / (1 / 2 ^ 24) < of_int (- (2 ^ 24)) + 1 / 2"
      unfolding e by simp
  qed
  ultimately have "float32_round (t - 1) = 1 / 2 ^ 24 * of_int (- (2 ^ 24))"
    unfolding u by simp
  then show ?thesis by simp
qed

lemma exp_minus_small:
  assumes "(x::real) \<le> - 27"
  shows "exp x \<le> 2 powr (- 27)"
proof -
  have "(2::real) \<le> exp 1" using exp_ge_add_one_self [of "1::real"] by simp
  then have "(2::real) ^ 27 \<le> exp 1 ^ 27" by (intro power_mono) simp_all
  also have "exp (1::real) ^ 27 = exp 27"
    using exp_of_nat_mult [of 27 "1::real"] by simp
  finally have "(2::real) ^ 27 \<le> exp 27" .
  moreover from assms have "exp 27 \<le> exp (- x)" by simp
  ultimately have "(2::real) ^ 27 \<le> exp (- x)" by linarith
  then have "exp x \<le> 1 / 2 ^ 27"
    by (simp add: exp_minus field_simps)
  moreover have "(2::real) powr (- 27) = 1 / 2 ^ 27"
    by (simp add: powr_minus_divide)
  ultimately show ?thesis by simp
qed

lemma elu32_saturates:
  assumes "x \<le> - 27"
  shows "elu32 x = - 1"
proof -
  define y where "y = exp x"
  have y: "0 < y" by (simp add: y_def)
  then have nz: "y \<noteq> 0" and ay: "\<bar>y\<bar> = y" by simp_all
  from exp_minus_small [OF assms] have ys: "y \<le> 2 powr (- 27)" by (simp add: y_def)
  define e where "e = \<lfloor>log 2 y\<rfloor>"
  from binade [OF nz] have b: "2 powr (of_int e) \<le> y" "y < 2 powr (of_int (e + 1))"
    unfolding ay e_def by blast+
  from b(1) ys have "2 powr (of_int e) \<le> (2::real) powr (- 27)" by linarith
  then have "of_int e \<le> (- 27 :: real)" by simp
  then have "e \<le> - 27" by linarith
  then have "(of_int (e + 1) :: real) \<le> - 26" by simp
  then have "(2::real) powr (of_int (e + 1)) \<le> 2 powr (- 26)"
    by (intro powr_mono) simp_all
  with float32_round_pos_bounds(2) [OF y b]
  have hi: "float32_round y \<le> 2 powr (- 26)" by linarith
  have "(0::real) < 2 powr (of_int e)" by simp
  with float32_round_pos_bounds(1) [OF y b] have lo: "0 < float32_round y" by linarith
  from float32_round_near_minus_1 [OF lo hi] assms show ?thesis
    by (simp add: elu32_def y_def)
qed

lemma elu32_ge_minus_1: "- 1 \<le> elu32 x"
proof (cases "x < 0")
  case True
  have t: "0 \<le> float32_round (exp x)"
    by (rule float32_round_nonneg) simp
  from True have "exp x < 1" by simp
  then have "float32_round (exp x) \<le> 1"
    by (intro float32_round_le_1) simp_all
  with t have "- 1 \<le> float32_round (float32_round (exp x) - 1)"
    by (intro float32_round_ge_minus_1) simp_all
  with True show ?thesis by (simp add: elu32_def)
next
  case False
  then show ?thesis by (simp add: elu32_def)
qed

lemma stddev32_nonneg: "0 \<le> float32_round (elu32 x + 1)"
  using elu32_ge_minus_1 [of x] by (intro float32_round_nonneg) simp

lemma stddev32_zero: "x \<le> - 27 \<Longrightarrow> float32_round (elu32 x + 1) = 0"
  by (simp add: elu32_saturates)

lemma stddev32_ge_1: "0 \<le> x \<Longrightarrow> 1 \<le> float32_round (elu32 x + 1)"
  by (intro float32_round_ge_1) (simp add: elu32_def)

lemma run_float32:
  "run (float32_ops D) R w (Elu t) ix = elu32 (run (float32_ops D) R w t ix)"
  "run (float32_ops D) R w (AddScalar t c) ix = float32_round (run (float32_ops D) R w t ix + c)"
  "run (float32_ops D) R w (Stack ts axis) ix
     = stack_arrays (axis_pos (length (shape_of (Stack ts axis))) axis)
         (map (run (float32_ops D) R w) ts) ix"
  by (simp_all add: float32_ops_def)

lemma run_component_stddev:
  "run (float32_ops D) R w (component_stddev cm kwargs is_training x e c) ix
     = float32_round
         (elu32 (run (float32_ops D) R w
                   (component_head kwargs is_training x e (KEY_EMBEDDING_STDDEVS cm) c) ix) + 1)"
  by (simp add: component_stddev_def float32_ops_def)

text \<open>
  C9, as the code has it. For at least one component, on an input of rank two or more
  with a positive feature dimension, for a positive embedding size, three different
  embedding keys, valid ones, and keyword arguments that \<^verbatim>\<open>simple_model\<close> accepts: the
  entry \<^verbatim>\<open>KEY_EMBEDDING_STDDEVS\<close> of \<^verbatim>\<open>simple_gaussian_embedder\<close> is the stack of the
  per-component tensors \<open>elu(logits) + 1.0\<close>; in a run each of its values is that of
  \<open>elu(v) + 1.0\<close> in single precision, \<open>v\<close> being the value of the logits. It is never
  negative, it is zero when \<open>v\<close> is \<open>-27\<close> or less, and one or more when \<open>v\<close> is not
  negative.
\<close>

theorem gaussian_stddevs_nonnegative:
  assumes "model_call_ok kwargs is_training x" and "dim_ok e" and "keys_distinct cm"
    and "valid_key (KEY_EMBEDDING_MEANS cm) \<and> valid_key (KEY_EMBEDDING_STDDEVS cm)"
    and "ix ! (length (shape_of x) - 1) < nat n"
  shows "\<exists>outputs activations logits v.
           simple_gaussian_embedder cm x n e ns is_training seed kwargs = Inr (outputs, activations)
         \<and> length logits = nat n
         \<and> map_of outputs (KEY_EMBEDDING_STDDEVS cm)
             = Some (Stack (map (\<lambda>l. AddScalar (Elu l) 1) logits) (- 2))
         \<and> v = run (float32_ops D) R w (logits ! (ix ! (length (shape_of x) - 1)))
                  (take (length (shape_of x) - 1) ix @ drop (length (shape_of x)) ix)
         \<and> run (float32_ops D) R w (Stack (map (\<lambda>l. AddScalar (Elu l) 1) logits) (- 2)) ix
             = float32_round (elu32 v + 1)
         \<and> 0 \<le> run (float32_ops D) R w (Stack (map (\<lambda>l. AddScalar (Elu l) 1) logits) (- 2)) ix
         \<and> (v \<le> - 27 \<longrightarrow>
              run (float32_ops D) R w (Stack (map (\<lambda>l. AddScalar (Elu l) 1) logits) (- 2)) ix = 0)
         \<and> (0 \<le> v \<longrightarrow>
              1 \<le> run (float32_ops D) R w (Stack (map (\<lambda>l. AddScalar (Elu l) 1) logits) (- 2)) ix)"
proof -
  define logits where
    "logits = map (component_head kwargs is_training x e (KEY_EMBEDDING_STDDEVS cm)) (py_range n)"
  define stddevs where "stddevs = map (component_stddev cm kwargs is_training x e) (py_range n)"
  define k where "k = length (shape_of x) - 1"
  define v where "v = run (float32_ops D) R w (logits ! (ix ! k)) (take k ix @ drop (Suc k) ix)"
  have st: "map (\<lambda>l. AddScalar (Elu l) 1) logits = stddevs"
    by (simp add: logits_def stddevs_def component_stddev_def)
  from assms(5) have n1: "1 \<le> n" by simp
  have nonempty: "shape_of x \<noteq> []"
    using assms(1) by (intro input_ok_nonempty model_call_ok_input)
  then have sk: "Suc k = length (shape_of x)"
    by (simp add: k_def)
  have sh: "shape_of (Stack stddevs (- 2)) = butlast (shape_of x) @ [n, e]"
    unfolding stddevs_def using nonempty n1
    by (rule shape_of_stack_components) (rule shape_of_component_stddev [OF assms(2)])
  from nonempty have ax: "axis_pos (length (shape_of (Stack stddevs (- 2)))) (- 2) = k"
    unfolding sh by (simp add: axis_pos_def k_def)
  have "run (float32_ops D) R w (Stack stddevs (- 2)) ix
        = (map (run (float32_ops D) R w) stddevs ! (ix ! k)) (take k ix @ drop (Suc k) ix)"
    using ax by (simp add: float32_ops_def stack_arrays_def del: shape_of.simps)
  also have "\<dots> = run (float32_ops D) R w
                    (component_stddev cm kwargs is_training x e (int (ix ! k)))
                    (take k ix @ drop (Suc k) ix)"
    using assms(5) by (simp add: stddevs_def k_def)
  also have "\<dots> = float32_round (elu32 v + 1)"
    using assms(5)
    by (simp add: run_component_stddev v_def logits_def k_def del: run.simps)
  finally have val: "run (float32_ops D) R w (Stack stddevs (- 2)) ix = float32_round (elu32 v + 1)" .
  have res: "simple_gaussian_embedder cm x n e ns is_training seed kwargs
        = Inr (gaussian_outputs cm kwargs is_training x n e ns seed,
               embedder_activations kwargs is_training x)"
    by (rule simple_gaussian_embedder_Inr [OF assms(1) n1 assms(2,3)])
  have mo: "map_of (gaussian_outputs cm kwargs is_training x n e ns seed)
                   (KEY_EMBEDDING_STDDEVS cm) = Some (Stack stddevs (- 2))"
    using assms(3) by (auto simp add: gaussian_outputs_def keys_distinct_def stddevs_def)
  have len: "length logits = nat n" by (simp add: logits_def)
  show ?thesis
  proof (intro exI conjI)
    show "simple_gaussian_embedder cm x n e ns is_training seed kwargs
        = Inr (gaussian_outputs cm kwargs is_training x n e ns seed,
               embedder_activations kwargs is_training x)" by (rule res)
    show "length logits = nat n" by (rule len)
    show "map_of (gaussian_outputs cm kwargs is_training x n e ns seed) (KEY_EMBEDDING_STDDEVS cm)
          = Some (Stack (map (\<lambda>l. AddScalar (Elu l) 1) logits) (- 2))"
      unfolding st by (rule mo)
    show "v = run (float32_ops D) R w (logits ! (ix ! (length (shape_of x) - 1)))
                  (take (length (shape_of x) - 1) ix @ drop (length (shape_of x)) ix)"
      using nonempty by (simp add: v_def k_def del: run.simps)
    show "run (float32_ops D) R w (Stack (map (\<lambda>l. AddScalar (Elu l) 1) logits) (- 2)) ix
          = float32_round (elu32 v + 1)"
      unfolding st by (rule val)
    show "0 \<le> run (float32_ops D) R w (Stack (map (\<lambda>l. AddScalar (Elu l) 1) logits) (- 2)) ix"
      unfolding st val by (rule stddev32_nonneg)
    show "v \<le> - 27 \<longrightarrow>
          run (float32_ops D) R w (Stack (map (\<lambda>l. AddScalar (Elu l) 1) logits) (- 2)) ix = 0"
      unfolding st val using stddev32_zero by blast
    show "0 \<le> v \<longrightarrow>
          1 \<le> run (float32_ops D) R w (Stack (map (\<lambda>l. AddScalar (Elu l) 1) logits) (- 2)) ix"
      unfolding st val using stddev32_ge_1 by blast
  qed
qed

lemma run_key_head:
  "run (float32_ops (bias_run c)) R w (key_head key cn net) ix = c"
  by (simp add: key_head_def float32_ops_def bias_run_def)

lemma run_stddev_example:
  "run (float32_ops (bias_run c)) R w
     (Stack [AddScalar (Elu (key_head ''stddevs'' ''0'' small_base)) 1] (- 2)) [0, 0, 0]
   = float32_round (elu32 c + 1)"
proof -
  have "shape_of (key_head ''stddevs'' ''0'' small_base) = [2, 2]"
    by (simp add: key_head_def small_base_def x23_def broadcast_def)
  then have "axis_pos (length (shape_of
               (Stack [AddScalar (Elu (key_head ''stddevs'' ''0'' small_base)) 1] (- 2)))) (- 2) = 1"
    by (simp add: axis_pos_def insert_dim_def)
  then show ?thesis
    by (simp add: run_float32 stack_arrays_def run_key_head del: shape_of.simps run.simps)
qed

theorem gaussian_stddevs_nonnegative_witness:
  "model_call_ok m_kwargs False x23 \<and> dim_ok 2 \<and> keys_distinct example_common
   \<and> valid_key (KEY_EMBEDDING_MEANS example_common)
   \<and> valid_key (KEY_EMBEDDING_STDDEVS example_common)
   \<and> [0, 0, 0] ! (length (shape_of x23) - 1) < nat 1
   \<and> 1 \<le> run (float32_ops (bias_run 0)) zero_draw (0::nat)
             (Stack [AddScalar (Elu (key_head ''stddevs'' ''0'' small_base)) 1] (- 2)) [0, 0, 0]
   \<and> run (float32_ops (bias_run (- 27))) zero_draw (0::nat)
       (Stack [AddScalar (Elu (key_head ''stddevs'' ''0'' small_base)) 1] (- 2)) [0, 0, 0] = 0"
proof -
  have i: "[0, 0, 0] ! (length (shape_of x23) - 1) < nat 1"
    by (simp add: x23_def)
  have v: "valid_key (KEY_EMBEDDING_MEANS example_common)
           \<and> valid_key (KEY_EMBEDDING_STDDEVS example_common)"
    by (simp add: example_common_def valid_key_means valid_key_stddevs)
  have sx: "length (shape_of x23) = 2" by (simp add: x23_def)
  have a: "1 \<le> run (float32_ops (bias_run c)) zero_draw (0::nat)
             (Stack [AddScalar (Elu (key_head ''stddevs'' ''0'' small_base)) 1] (- 2)) [0, 0, 0]"
    if "0 \<le> c" for c
  proof -
    from gaussian_stddevs_nonnegative
           [OF model_call_ok_m_kwargs [of False] dim_ok_2 keys_distinct_example v i,
            where ns = 0 and seed = None and D = "bias_run c" and R = zero_draw and w = "0::nat"]
    obtain outputs activations logits u where
      res: "simple_gaussian_embedder example_common x23 1 2 0 False None m_kwargs
              = Inr (outputs, activations)"
      and len: "length logits = nat 1"
      and mo: "map_of outputs (KEY_EMBEDDING_STDDEVS example_common)
                 = Some (Stack (map (\<lambda>l. AddScalar (Elu l) 1) logits) (- 2))"
      and u: "u = run (float32_ops (bias_run c)) zero_draw (0::nat)
                    (logits ! ([0, 0, 0] ! (length (shape_of x23) - 1)))
                    (take (length (shape_of x23) - 1) [0, 0, 0] @ drop (length (shape_of x23)) [0, 0, 0])"
      and pos: "0 \<le> u \<longrightarrow>
                1 \<le> run (float32_ops (bias_run c)) zero_draw (0::nat)
                      (Stack (map (\<lambda>l. AddScalar (Elu l) 1) logits) (- 2)) [0, 0, 0]"
      by blast
    from res have "outputs
        = [(''means'', Stack [key_head ''means'' ''0'' small_base] (- 2)),
           (''stddevs'', Stack [AddScalar (Elu (key_head ''stddevs'' ''0'' small_base)) 1] (- 2))]"
      by (simp add: gaussian_example)
    with mo have "map (\<lambda>l. AddScalar (Elu l) 1) logits
                  = [AddScalar (Elu (key_head ''stddevs'' ''0'' small_base)) 1]"
      by (simp add: example_common_def)
    with len have lg: "logits = [key_head ''stddevs'' ''0'' small_base]"
      by (cases logits) auto
    from u have "u = c"
      unfolding lg sx by (simp add: run_key_head del: run.simps)
    with pos that show ?thesis
      unfolding lg by (simp del: run.simps)
  qed
  have b: "run (float32_ops (bias_run c)) zero_draw (0::nat)
             (Stack [AddScalar (Elu (key_head ''stddevs'' ''0'' small_base)) 1] (- 2)) [0, 0, 0] = 0"
    if "c \<le> - 27" for c
  proof -
    from gaussian_stddevs_nonnegative
           [OF model_call_ok_m_kwargs [of False] dim_ok_2 keys_distinct_example v i,
            where ns = 0 and seed = None and D = "bias_run c" and R = zero_draw and w = "0::nat"]
    obtain outputs activations logits u where
      res: "simple_gaussian_embedder example_common x23 1 2 0 False None m_kwargs
              = Inr (outputs, activations)"
      and len: "length logits = nat 1"
      and mo: "map_of outputs (KEY_EMBEDDING_STDDEVS example_common)
                 = Some (Stack (map (\<lambda>l. AddScalar (Elu l) 1) logits) (- 2))"
      and u: "u = run (float32_ops (bias_run c)) zero_draw (0::nat)
                    (logits ! ([0, 0, 0] ! (length (shape_of x23) - 1)))
                    (take (length (shape_of x23) - 1) [0, 0, 0] @ drop (length (shape_of x23)) [0, 0, 0])"
      and zero: "u \<le> - 27 \<longrightarrow>
                 run (float32_ops (bias_run c)) zero_draw (0::nat)
                      (Stack (map (\<lambda>l. AddScalar (Elu l) 1) logits) (- 2)) [0, 0, 0] = 0"
      by blast
    from res have "outputs
        = [(''means'', Stack [key_head ''means'' ''0'' small_base] (- 2)),
           (''stddevs'', Stack [AddScalar (Elu (key_head ''stddevs'' ''0'' small_base)) 1] (- 2))]"
      by (simp add: gaussian_example)
    with mo have "map (\<lambda>l. AddScalar (Elu l) 1) logits
                  = [AddScalar (Elu (key_head ''stddevs'' ''0'' small_base)) 1]"
      by (simp add: example_common_def)
    with len have lg: "logits = [key_head ''stddevs'' ''0'' small_base]"
      by (cases logits) auto
    from u have "u = c"
      unfolding lg sx by (simp add: run_key_head del: run.simps)
    with zero that show ?thesis
      unfolding lg by (simp del: run.simps)
  qed
  from a [of 0] b [of "- 27"] i v model_call_ok_m_kwargs [of False] dim_ok_2
    keys_distinct_example
  show ?thesis by (simp del: run.simps)
qed

text \<open>
  C9 as stated fails: in single precision \<open>exp(-32)\<close> is so small that \<open>exp(-32) - 1\<close>
  rounds to \<open>-1\<close>, and a standard deviation whose logit is \<open>-32\<close> is exactly zero.
\<close>

theorem gaussian_stddev_zero_counterexample:
  "simple_gaussian_embedder example_common x23 1 2 0 False None m_kwargs
     = Inr ([(''means'', Stack [key_head ''means'' ''0'' small_base] (- 2)),
             (''stddevs'', Stack [AddScalar (Elu (key_head ''stddevs'' ''0'' small_base)) 1] (- 2))],
            [(''base_activations'', small_base)])
   \<and> run (float32_ops (bias_run (- 32))) zero_draw (0::nat)
       (key_head ''stddevs'' ''0'' small_base) [0, 0] = - 32
   \<and> run (float32_ops (bias_run (- 32))) zero_draw (0::nat)
       (Stack [AddScalar (Elu (key_head ''stddevs'' ''0'' small_base)) 1] (- 2)) [0, 0, 0] = 0"
proof -
  have "float32_round (elu32 (- 32) + 1) = 0"
    by (rule stddev32_zero) simp
  then show ?thesis
    using gaussian_example [of 0 False]
    by (simp add: run_key_head run_stddev_example del: run.simps)
qed

end
